theory Spec2Isabelle
  imports Complex_Main
begin

section \<open>Python values, errors and built-ins\<close>

text \<open>
  The program is \<^verbatim>\<open>examples/tensor_flow/code/ptb_word_lm.py\<close>. Its Python floats are read as
  real numbers (rounding is not modelled), its integers as \<open>int\<close>. Every exception the
  script can raise is a value of \<open>py_error\<close>; an effectful function returns the error
  or its result together with the world it leaves behind.
\<close>

datatype py_error =
    ZeroDivisionError
  | ValueError
  | TypeError
  | IOError
  | KeyError
  | IndexError
  | AttributeError
  | FrameworkError

text \<open>\<^verbatim>\<open>a // b\<close> and \<^verbatim>\<open>a % b\<close> on Python integers: floor division, the remainder
  has the sign of the divisor (as \<open>div\<close> and \<open>mod\<close> on \<open>int\<close>), and a zero divisor raises.\<close>

definition py_floordiv :: "int \<Rightarrow> int \<Rightarrow> py_error + int" where
  "py_floordiv a b = (if b = 0 then Inl ZeroDivisionError else Inr (a div b))"

definition py_mod :: "int \<Rightarrow> int \<Rightarrow> py_error + int" where
  "py_mod a b = (if b = 0 then Inl ZeroDivisionError else Inr (a mod b))"

text \<open>\<^verbatim>\<open>costs / iters\<close> with \<^verbatim>\<open>from __future__ import division\<close>. The divisor is the
  Python integer \<^verbatim>\<open>iters\<close>.\<close>

definition py_truediv :: "real \<Rightarrow> int \<Rightarrow> py_error + real" where
  "py_truediv a b = (if b = 0 then Inl ZeroDivisionError else Inr (a / real_of_int b))"

text \<open>\<^verbatim>\<open>range(n)\<close>: empty when \<open>n \<le> 0\<close>.\<close>

definition py_range :: "int \<Rightarrow> int list" where
  "py_range n = map int [0..<nat n]"

text \<open>\<^verbatim>\<open>str(i)\<close> of an integer: its decimal digits, with a minus sign when negative.\<close>

definition digit_char :: "nat \<Rightarrow> char" where
  "digit_char d = ''0123456789'' ! d"

fun str_of_nat :: "nat \<Rightarrow> string" where
  "str_of_nat n = (if n < 10 then [digit_char n] else str_of_nat (n div 10) @ [digit_char (n mod 10)])"

declare str_of_nat.simps [simp del]

definition py_str :: "int \<Rightarrow> string" where
  "py_str i = (if i < 0 then CHR ''-'' # str_of_nat (nat (- i)) else str_of_nat (nat i))"

text \<open>\<^verbatim>\<open>sep.join(xs)\<close> on a list of strings.\<close>

fun py_join :: "string \<Rightarrow> string list \<Rightarrow> string" where
  "py_join sep [] = []"
| "py_join sep [x] = x"
| "py_join sep (x # y # ys) = x @ sep @ py_join sep (y # ys)"

text \<open>\<^verbatim>\<open>os.path.join(a, b)\<close> (POSIX). A flag that was never given is \<^verbatim>\<open>None\<close>, and
  joining \<^verbatim>\<open>None\<close> raises (\<^verbatim>\<open>TypeError\<close>; \<^verbatim>\<open>AttributeError\<close> under Python 2).\<close>

definition os_path_join :: "string option \<Rightarrow> string \<Rightarrow> py_error + string" where
  "os_path_join a b =
     (case a of
        None \<Rightarrow> Inl TypeError
      | Some p \<Rightarrow>
          if b \<noteq> [] \<and> hd b = CHR ''/'' then Inr b
          else if p = [] \<or> last p = CHR ''/'' then Inr (p @ b)
          else Inr (p @ ''/'' @ b))"

text \<open>Truth value of a string flag: \<^verbatim>\<open>None\<close>, \<^verbatim>\<open>False\<close> and the empty string are false.\<close>

definition truthy :: "string option \<Rightarrow> bool" where
  "truthy v = (case v of None \<Rightarrow> False | Some s \<Rightarrow> s \<noteq> [])"

text \<open>The values \<^verbatim>\<open>json.load\<close> hands back: integers, strings and objects (a Python
  dict, kept as an association list in insertion order; the first binding of a key is
  the dict's). Other JSON forms do not occur in the files the script writes.\<close>

datatype json = JInt int | JStr string | JObj "(string \<times> json) list"

text \<open>\<^verbatim>\<open>d[k]\<close> for a string key.\<close>

definition py_getitem :: "json \<Rightarrow> string \<Rightarrow> py_error + json" where
  "py_getitem d k =
     (case d of
        JObj kvs \<Rightarrow> (case map_of kvs k of None \<Rightarrow> Inl KeyError | Some v \<Rightarrow> Inr v)
      | JInt _ \<Rightarrow> Inl TypeError
      | JStr _ \<Rightarrow> Inl TypeError)"

text \<open>\<^verbatim>\<open>" ".join(sentence)\<close>: every item must be a string.\<close>

fun json_strings :: "json list \<Rightarrow> py_error + string list" where
  "json_strings [] = Inr []"
| "json_strings (JStr s # vs) =
     (case json_strings vs of Inl e \<Rightarrow> Inl e | Inr ss \<Rightarrow> Inr (s # ss))"
| "json_strings (_ # vs) = Inl TypeError"

text \<open>\<^verbatim>\<open>json.dump\<close> of the two vocabulary dicts of the reader: \<^verbatim>\<open>word_to_id\<close> maps
  words to integers, \<^verbatim>\<open>id_to_word\<close> maps integers to words. JSON object keys are
  strings, so an integer key \<open>k\<close> is written as \<open>py_str k\<close>.\<close>

definition json_of_word_to_id :: "(string \<times> int) list \<Rightarrow> json" where
  "json_of_word_to_id d = JObj (map (\<lambda>(k, v). (k, JInt v)) d)"

definition json_of_id_to_word :: "(int \<times> string) list \<Rightarrow> json" where
  "json_of_id_to_word d = JObj (map (\<lambda>(k, v). (py_str k, JStr v)) d)"

text \<open>\<^verbatim>\<open>np.argmax(probs, 1)\<close> on a matrix given as its list of rows: for each row the
  index of the first largest entry; an empty row raises. \<^verbatim>\<open>chosen_word[-1]\<close> is the
  last of these, and raises on a matrix with no rows.\<close>

fun argmax_from :: "real list \<Rightarrow> nat \<Rightarrow> nat \<Rightarrow> real \<Rightarrow> nat" where
  "argmax_from [] i best bv = best"
| "argmax_from (x # xs) i best bv =
     (if bv < x then argmax_from xs (Suc i) i x else argmax_from xs (Suc i) best bv)"

definition argmax_row :: "real list \<Rightarrow> nat" where
  "argmax_row xs = (case xs of [] \<Rightarrow> 0 | x # rest \<Rightarrow> argmax_from rest 1 0 x)"

definition np_argmax_axis1 :: "real list list \<Rightarrow> py_error + nat list" where
  "np_argmax_axis1 p = (if [] \<in> set p then Inl ValueError else Inr (map argmax_row p))"

definition last_chosen_word :: "real list list \<Rightarrow> py_error + int" where
  "last_chosen_word p =
     (case np_argmax_axis1 p of
        Inl e \<Rightarrow> Inl e
      | Inr ws \<Rightarrow> (if ws = [] then Inl IndexError else Inr (int (last ws))))"

text \<open>\<^verbatim>\<open>np.ones(n)\<close>: a negative dimension raises.\<close>

definition np_ones :: "int \<Rightarrow> py_error + real list" where
  "np_ones n = (if n < 0 then Inl ValueError else Inr (replicate (nat n) 1))"

section \<open>Flags and configurations\<close>

text \<open>The four string flags. \<^verbatim>\<open>None\<close> stands for a flag left at its default
  (\<^verbatim>\<open>None\<close>, or \<^verbatim>\<open>False\<close> for \<^verbatim>\<open>generate\<close>); \<^verbatim>\<open>model\<close> defaults to \<^verbatim>\<open>"small"\<close>.\<close>

record flags =
  flag_model :: string
  flag_data_path :: "string option"
  flag_generate :: "string option"
  flag_model_path_prefix :: "string option"

record config =
  init_scale :: real
  learning_rate :: real
  max_grad_norm :: real
  num_layers :: int
  num_steps :: int
  hidden_size :: int
  max_epoch :: int
  max_max_epoch :: int
  keep_prob :: real
  lr_decay :: real
  batch_size :: int
  vocab_size :: int

definition SmallConfig :: config where
  "SmallConfig = \<lparr> init_scale = 0.1, learning_rate = 1.0, max_grad_norm = 5,
     num_layers = 2, num_steps = 20, hidden_size = 200, max_epoch = 4,
     max_max_epoch = 13, keep_prob = 1.0, lr_decay = 0.5, batch_size = 20,
     vocab_size = 10002 \<rparr>"

definition MediumConfig :: config where
  "MediumConfig = \<lparr> init_scale = 0.05, learning_rate = 1.0, max_grad_norm = 5,
     num_layers = 2, num_steps = 35, hidden_size = 650, max_epoch = 6,
     max_max_epoch = 39, keep_prob = 0.5, lr_decay = 0.8, batch_size = 20,
     vocab_size = 10002 \<rparr>"

definition LargeConfig :: config where
  "LargeConfig = \<lparr> init_scale = 0.04, learning_rate = 1.0, max_grad_norm = 10,
     num_layers = 2, num_steps = 35, hidden_size = 1500, max_epoch = 14,
     max_max_epoch = 55, keep_prob = 0.35, lr_decay = 1 / 1.15, batch_size = 20,
     vocab_size = 10002 \<rparr>"

definition TestConfig :: config where
  "TestConfig = \<lparr> init_scale = 0.1, learning_rate = 1.0, max_grad_norm = 1,
     num_layers = 1, num_steps = 2, hidden_size = 2, max_epoch = 1,
     max_max_epoch = 1, keep_prob = 1.0, lr_decay = 0.5, batch_size = 20,
     vocab_size = 10002 \<rparr>"

definition get_config :: "flags \<Rightarrow> py_error + config" where
  "get_config FLAGS =
     (if flag_model FLAGS = ''small'' then Inr SmallConfig
      else if flag_model FLAGS = ''medium'' then Inr MediumConfig
      else if flag_model FLAGS = ''large'' then Inr LargeConfig
      else if flag_model FLAGS = ''test'' then Inr TestConfig
      else Inl ValueError)"

section \<open>The graph built by PTBModel\<close>

text \<open>
  The framework's graph-construction calls make symbolic nodes; each call of the
  constructor is a constructor here. A variable lookup and a cell call record whether
  the variable scope they happen in reuses existing variables.
\<close>

datatype cell =
    BasicLSTMCell int real
  | DropoutWrapper cell real
  | MultiRNNCell "cell list"

datatype dtype = Int32 | Float32

datatype tensor =
    Placeholder dtype "int list"
  | ZeroState cell int dtype
  | GetVariable string "int list" bool
  | Variable real bool
  | EmbeddingLookup tensor tensor
  | Dropout tensor real
  | TimeSlice tensor int
  | CellOutput cell tensor tensor bool
  | CellState cell tensor tensor bool
  | Concat int "tensor list"
  | Reshape tensor "int list"
  | MatMul tensor tensor
  | Add tensor tensor
  | SequenceLossByExample "tensor list" "tensor list" "tensor list"
  | ReduceSum tensor
  | DivBy tensor int
  | Softmax tensor

datatype var_collection = AllVariables | TrainableVariables

datatype grads =
    Gradients tensor var_collection
  | ClipByGlobalNorm grads real

datatype optimizer = GradientDescentOptimizer tensor

datatype op =
    NoOp
  | ApplyGradients optimizer grads var_collection

datatype saver = Saver var_collection

record PTBModel =
  m_batch_size :: int
  m_num_steps :: int
  m_input_data :: tensor
  m_targets :: tensor
  m_weights :: tensor
  m_initial_state :: tensor
  m_cost :: tensor
  m_final_state :: tensor
  m_logits :: tensor
  m_probs :: tensor
  m_saver :: saver
  m_lr :: "tensor option"
  m_train_op :: "op option"

text \<open>\<^verbatim>\<open>lstm_cell\<close> and \<^verbatim>\<open>cell\<close> of the constructor. \<^verbatim>\<open>[lstm_cell] * n\<close> is the list
  of \<open>n\<close> copies, empty when \<open>n \<le> 0\<close>.\<close>

definition lstm_cell :: "bool \<Rightarrow> config \<Rightarrow> cell" where
  "lstm_cell is_training cfg =
     (if is_training \<and> keep_prob cfg < 1
      then DropoutWrapper (BasicLSTMCell (hidden_size cfg) 0.0) (keep_prob cfg)
      else BasicLSTMCell (hidden_size cfg) 0.0)"

definition rnn_cell :: "bool \<Rightarrow> config \<Rightarrow> cell" where
  "rnn_cell is_training cfg =
     MultiRNNCell (replicate (nat (num_layers cfg)) (lstm_cell is_training cfg))"

definition rnn_inputs :: "bool \<Rightarrow> config \<Rightarrow> bool \<Rightarrow> tensor \<Rightarrow> tensor" where
  "rnn_inputs is_training cfg reuse input_data =
     (let embedding = GetVariable ''embedding'' [vocab_size cfg, hidden_size cfg] reuse;
          inputs = EmbeddingLookup embedding input_data
      in if is_training \<and> keep_prob cfg < 1 then Dropout inputs (keep_prob cfg) else inputs)"

text \<open>The unrolling loop
  \<^verbatim>\<open>for time_step in range(num_steps): if time_step > 0: reuse_variables(); ...\<close>
  over the remaining time steps, with the loop's variables: the reuse flag of the
  scope \<^verbatim>\<open>"RNN"\<close>, the state and the outputs so far.\<close>

fun unroll :: "cell \<Rightarrow> tensor \<Rightarrow> int list \<Rightarrow> bool \<Rightarrow> tensor \<Rightarrow> tensor list
    \<Rightarrow> tensor list \<times> tensor" where
  "unroll c inputs [] reuse state outputs = (outputs, state)"
| "unroll c inputs (time_step # ts) reuse state outputs =
     (let reuse' = (if time_step > 0 then True else reuse);
          inp = TimeSlice inputs time_step;
          cell_output = CellOutput c inp state reuse';
          state' = CellState c inp state reuse'
      in unroll c inputs ts reuse' state' (outputs @ [cell_output]))"

text \<open>\<^verbatim>\<open>PTBModel.__init__(is_training, config)\<close>, called inside a variable scope whose
  reuse flag is \<open>reuse\<close>.\<close>

definition PTBModel_init :: "bool \<Rightarrow> config \<Rightarrow> bool \<Rightarrow> PTBModel" where
  "PTBModel_init is_training cfg reuse =
     (let size = hidden_size cfg;
          input_data = Placeholder Int32 [batch_size cfg, num_steps cfg];
          targets = Placeholder Int32 [batch_size cfg, num_steps cfg];
          weights = Placeholder Float32 [batch_size cfg * num_steps cfg];
          c = rnn_cell is_training cfg;
          initial_state = ZeroState c (batch_size cfg) Float32;
          inputs = rnn_inputs is_training cfg reuse input_data;
          (outputs, state) = unroll c inputs (py_range (num_steps cfg)) reuse initial_state [];
          output = Reshape (Concat 1 outputs) [- 1, size];
          softmax_w = GetVariable ''softmax_w'' [size, vocab_size cfg] reuse;
          softmax_b = GetVariable ''softmax_b'' [vocab_size cfg] reuse;
          logits = Add (MatMul output softmax_w) softmax_b;
          loss = SequenceLossByExample [logits] [Reshape targets [- 1]] [weights];
          cost = DivBy (ReduceSum loss) (batch_size cfg);
          m = \<lparr> m_batch_size = batch_size cfg, m_num_steps = num_steps cfg,
                m_input_data = input_data, m_targets = targets, m_weights = weights,
                m_initial_state = initial_state, m_cost = cost, m_final_state = state,
                m_logits = logits, m_probs = Softmax logits, m_saver = Saver AllVariables,
                m_lr = None, m_train_op = None \<rparr>
      in if \<not> is_training then m
         else
           (let lr = Variable 0.0 False;
                tvars = TrainableVariables;
                grads = ClipByGlobalNorm (Gradients cost tvars) (max_grad_norm cfg);
                optimizer = GradientDescentOptimizer lr
            in m \<lparr> m_lr := Some lr,
                   m_train_op := Some (ApplyGradients optimizer grads tvars) \<rparr>))"

text \<open>The properties \<^verbatim>\<open>m.lr\<close> and \<^verbatim>\<open>m.train_op\<close> read attributes that exist only on a
  training model.\<close>

definition lr :: "PTBModel \<Rightarrow> py_error + tensor" where
  "lr m = (case m_lr m of None \<Rightarrow> Inl AttributeError | Some t \<Rightarrow> Inr t)"

definition train_op :: "PTBModel \<Rightarrow> py_error + op" where
  "train_op m = (case m_train_op m of None \<Rightarrow> Inl AttributeError | Some t \<Rightarrow> Inr t)"

section \<open>The world the script runs in\<close>

text \<open>
  The reader module (\<^verbatim>\<open>code/reader.py\<close>), the framework's session, its saver and
  numpy's random generator are not part of the file; they are taken as parameters, the
  record \<open>env\<close>. A session is a value of type \<open>'sess\<close>, the value of an RNN state
  \<open>'st\<close>, a snapshot of the variables \<open>'ckpt\<close>, the state of numpy's generator \<open>'rng\<close>.
\<close>

record raw_data =
  rd_train_data :: "int list"
  rd_valid_data :: "int list"
  rd_test_data :: "int list"
  rd_vocab :: int
  rd_word_to_id :: "(string \<times> int) list"
  rd_id_to_word :: "(int \<times> string) list"

record 'st feed =
  feed_input_data :: "int list list"
  feed_targets :: "int list list"
  feed_initial_state :: 'st
  feed_weights :: "real list"

record 'st fetched =
  f_cost :: real
  f_final_state :: 'st
  f_logits :: "real list list"
  f_probs :: "real list list"

record ('sess, 'st, 'ckpt, 'rng) env =
  ptb_raw_data :: "string option \<Rightarrow> py_error + raw_data"
  ptb_iterator :: "int list \<Rightarrow> int \<Rightarrow> int \<Rightarrow> py_error + (int list list \<times> int list list) list"
  new_session :: 'sess
  initialize_all_variables :: "real \<Rightarrow> 'sess \<Rightarrow> 'sess"
  eval_initial_state :: "PTBModel \<Rightarrow> 'st"
  session_run :: "'sess \<Rightarrow> PTBModel \<Rightarrow> op \<Rightarrow> 'st feed \<Rightarrow> 'st fetched \<times> 'sess"
  session_assign :: "'sess \<Rightarrow> tensor \<Rightarrow> real \<Rightarrow> 'sess"
  saver_save :: "'sess \<Rightarrow> 'ckpt"
  saver_restore :: "'sess \<Rightarrow> 'ckpt \<Rightarrow> 'sess"
  random_choice :: "'rng \<Rightarrow> int \<Rightarrow> real list \<Rightarrow> (py_error + int) \<times> 'rng"
  int_of_str :: "string \<Rightarrow> py_error + int"

text \<open>The calls into the environment and the lines of the result, in the order the
  script makes them. The diagnostic prints (shapes, progress, perplexities) and the
  wall clock are left out of the model.\<close>

datatype 'st event =
    ReadRawData "string option"
  | JsonDump string json
  | JsonLoad string
  | InitializeAllVariables
  | AssignLr real
  | PtbIterator "int list" int int
  | SessionRun PTBModel op "'st feed"
  | SaverSave string
  | SaverRestore string
  | RandomChoice int "real list"
  | Print string

datatype 'ckpt file_content = JsonFile json | CheckpointFile 'ckpt | OtherFile

text \<open>The file system is a map from paths to contents (directories are not modelled:
  opening a path for writing always succeeds, and what is written is in the file at
  once).\<close>

record ('sess, 'st, 'ckpt, 'rng) world =
  files :: "string \<Rightarrow> 'ckpt file_content option"
  session :: 'sess
  np_random :: 'rng
  trace :: "'st event list"

definition emit :: "'st event \<Rightarrow> ('sess, 'st, 'ckpt, 'rng) world \<Rightarrow> ('sess, 'st, 'ckpt, 'rng) world" where
  "emit e w = w \<lparr> trace := trace w @ [e] \<rparr>"

text \<open>\<^verbatim>\<open>open(path, "w")\<close> truncates, \<^verbatim>\<open>json.dump\<close> writes the document.\<close>

definition open_w :: "string \<Rightarrow> ('sess, 'st, 'ckpt, 'rng) world \<Rightarrow> ('sess, 'st, 'ckpt, 'rng) world" where
  "open_w p w = w \<lparr> files := (files w)(p \<mapsto> OtherFile) \<rparr>"

definition json_dump :: "string \<Rightarrow> json \<Rightarrow> ('sess, 'st, 'ckpt, 'rng) world \<Rightarrow> ('sess, 'st, 'ckpt, 'rng) world" where
  "json_dump p j w = emit (JsonDump p j) (w \<lparr> files := (files w)(p \<mapsto> JsonFile j) \<rparr>)"

text \<open>\<^verbatim>\<open>open(path, "r")\<close> raises on a missing file; \<^verbatim>\<open>json.load\<close> raises on a file
  that holds no JSON document.\<close>

definition open_r :: "string \<Rightarrow> ('sess, 'st, 'ckpt, 'rng) world \<Rightarrow> py_error + unit" where
  "open_r p w = (case files w p of None \<Rightarrow> Inl IOError | Some _ \<Rightarrow> Inr ())"

definition json_load :: "string \<Rightarrow> ('sess, 'st, 'ckpt, 'rng) world
    \<Rightarrow> (py_error + json) \<times> ('sess, 'st, 'ckpt, 'rng) world" where
  "json_load p w =
     (case files w p of
        Some (JsonFile j) \<Rightarrow> (Inr j, emit (JsonLoad p) w)
      | _ \<Rightarrow> (Inl ValueError, emit (JsonLoad p) w))"

text \<open>\<^verbatim>\<open>int(v)\<close> on a loaded value.\<close>

definition py_int :: "('sess, 'st, 'ckpt, 'rng) env \<Rightarrow> json \<Rightarrow> py_error + int" where
  "py_int env v =
     (case v of JInt n \<Rightarrow> Inr n | JStr s \<Rightarrow> int_of_str env s | JObj _ \<Rightarrow> Inl TypeError)"

text \<open>\<^verbatim>\<open>m.saver.save(session, path)\<close> and \<^verbatim>\<open>m.saver.restore(session, path)\<close>.\<close>

definition save_checkpoint :: "('sess, 'st, 'ckpt, 'rng) env \<Rightarrow> string
    \<Rightarrow> ('sess, 'st, 'ckpt, 'rng) world \<Rightarrow> ('sess, 'st, 'ckpt, 'rng) world" where
  "save_checkpoint env p w =
     emit (SaverSave p) (w \<lparr> files := (files w)(p \<mapsto> CheckpointFile (saver_save env (session w))) \<rparr>)"

definition restore_checkpoint :: "('sess, 'st, 'ckpt, 'rng) env \<Rightarrow> string
    \<Rightarrow> ('sess, 'st, 'ckpt, 'rng) world \<Rightarrow> (py_error + unit) \<times> ('sess, 'st, 'ckpt, 'rng) world" where
  "restore_checkpoint env p w =
     (case files w p of
        Some (CheckpointFile c) \<Rightarrow>
          (Inr (), emit (SaverRestore p) (w \<lparr> session := saver_restore env (session w) c \<rparr>))
      | _ \<Rightarrow> (Inl FrameworkError, emit (SaverRestore p) w))"

text \<open>\<^verbatim>\<open>session.run(fetches, feed_dict)\<close>: the session moves on and the call is
  recorded.\<close>

definition run_session :: "('sess, 'st, 'ckpt, 'rng) env \<Rightarrow> PTBModel \<Rightarrow> op \<Rightarrow> 'st feed
    \<Rightarrow> ('sess, 'st, 'ckpt, 'rng) world \<Rightarrow> 'st fetched \<times> ('sess, 'st, 'ckpt, 'rng) world" where
  "run_session env m eval_op fd w =
     (let (r, s') = session_run env (session w) m eval_op fd
      in (r, emit (SessionRun m eval_op fd) (w \<lparr> session := s' \<rparr>)))"

text \<open>\<^verbatim>\<open>PTBModel.assign_lr\<close>.\<close>

definition assign_lr :: "('sess, 'st, 'ckpt, 'rng) env \<Rightarrow> PTBModel \<Rightarrow> real
    \<Rightarrow> ('sess, 'st, 'ckpt, 'rng) world \<Rightarrow> (py_error + unit) \<times> ('sess, 'st, 'ckpt, 'rng) world" where
  "assign_lr env m lr_value w =
     (case lr m of
        Inl e \<Rightarrow> (Inl e, w)
      | Inr v \<Rightarrow> (Inr (), emit (AssignLr lr_value)
                   (w \<lparr> session := session_assign env (session w) v lr_value \<rparr>)))"

section \<open>run_epoch\<close>

datatype pyval = PyStr string | PyInt int

text \<open>The variables the loop of \<^verbatim>\<open>run_epoch\<close> updates.\<close>

record 'st epoch_vars =
  costs :: real
  iters :: int
  state :: 'st
  final_chosen_word :: pyval

text \<open>\<^verbatim>\<open>epoch_size = ((len(data) // m.batch_size) - 1) // m.num_steps\<close>.\<close>

definition epoch_size_of :: "PTBModel \<Rightarrow> int list \<Rightarrow> py_error + int" where
  "epoch_size_of m data =
     (case py_floordiv (int (length data)) (m_batch_size m) of
        Inl e \<Rightarrow> Inl e
      | Inr q \<Rightarrow> py_floordiv (q - 1) (m_num_steps m))"

text \<open>The condition \<^verbatim>\<open>verbose and step % (epoch_size // 10) == 10\<close>; \<^verbatim>\<open>and\<close> does not
  evaluate its right side when \<^verbatim>\<open>verbose\<close> is false.\<close>

definition verbose_progress :: "bool \<Rightarrow> int \<Rightarrow> int \<Rightarrow> py_error + bool" where
  "verbose_progress verbose step epoch_size =
     (if \<not> verbose then Inr False
      else case py_floordiv epoch_size 10 of
             Inl e \<Rightarrow> Inl e
           | Inr d \<Rightarrow> (case py_mod step d of Inl e \<Rightarrow> Inl e | Inr r \<Rightarrow> Inr (r = 10)))"

text \<open>\<^verbatim>\<open>enumerate(xs)\<close>.\<close>

definition py_enumerate :: "'a list \<Rightarrow> (int \<times> 'a) list" where
  "py_enumerate xs = zip (map int [0..<length xs]) xs"

text \<open>One pass through the body of the \<^verbatim>\<open>for\<close> loop, up to its \<^verbatim>\<open>break\<close>.\<close>

definition run_epoch_body :: "('sess, 'st, 'ckpt, 'rng) env \<Rightarrow> PTBModel \<Rightarrow> op \<Rightarrow> bool \<Rightarrow> int
    \<Rightarrow> int \<Rightarrow> int list list \<times> int list list \<Rightarrow> 'st epoch_vars
    \<Rightarrow> ('sess, 'st, 'ckpt, 'rng) world
    \<Rightarrow> (py_error + 'st epoch_vars) \<times> ('sess, 'st, 'ckpt, 'rng) world" where
  "run_epoch_body env m eval_op verbose epoch_size step xy v w =
     (case np_ones (m_batch_size m * m_num_steps m) of
        Inl e \<Rightarrow> (Inl e, w)
      | Inr ones \<Rightarrow>
          (let fd = \<lparr> feed_input_data = fst xy, feed_targets = snd xy,
                      feed_initial_state = state v, feed_weights = ones \<rparr>;
               (r, w1) = run_session env m eval_op fd w;
               costs' = costs v + f_cost r;
               iters' = iters v + m_num_steps m
           in case verbose_progress verbose step epoch_size of
                Inl e \<Rightarrow> (Inl e, w1)
              | Inr progress \<Rightarrow>
                  (case (if progress then last_chosen_word (f_probs r) else Inr 0) of
                     Inl e \<Rightarrow> (Inl e, w1)
                   | Inr _ \<Rightarrow>
                       (case last_chosen_word (f_probs r) of
                          Inl e \<Rightarrow> (Inl e, w1)
                        | Inr chosen_word \<Rightarrow>
                            (Inr \<lparr> costs = costs', iters = iters', state = f_final_state r,
                                   final_chosen_word = PyInt chosen_word \<rparr>, w1)))))"

text \<open>The loop \<^verbatim>\<open>for step, (x, y) in enumerate(...): ...; break\<close>: the body ends in
  \<^verbatim>\<open>break\<close>, so the batches after the first are never asked for.\<close>

fun run_epoch_loop :: "('sess, 'st, 'ckpt, 'rng) env \<Rightarrow> PTBModel \<Rightarrow> op \<Rightarrow> bool \<Rightarrow> int
    \<Rightarrow> (int \<times> int list list \<times> int list list) list \<Rightarrow> 'st epoch_vars
    \<Rightarrow> ('sess, 'st, 'ckpt, 'rng) world
    \<Rightarrow> (py_error + 'st epoch_vars) \<times> ('sess, 'st, 'ckpt, 'rng) world" where
  "run_epoch_loop env m eval_op verbose epoch_size [] v w = (Inr v, w)"
| "run_epoch_loop env m eval_op verbose epoch_size ((step, xy) # rest) v w =
     run_epoch_body env m eval_op verbose epoch_size step xy v w"

definition run_epoch :: "('sess, 'st, 'ckpt, 'rng) env \<Rightarrow> PTBModel \<Rightarrow> int list \<Rightarrow> op \<Rightarrow> bool
    \<Rightarrow> ('sess, 'st, 'ckpt, 'rng) world
    \<Rightarrow> (py_error + real \<times> pyval) \<times> ('sess, 'st, 'ckpt, 'rng) world" where
  "run_epoch env m data eval_op verbose w =
     (case epoch_size_of m data of
        Inl e \<Rightarrow> (Inl e, w)
      | Inr epoch_size \<Rightarrow>
          (let v0 = \<lparr> costs = 0.0, iters = 0, state = eval_initial_state env m,
                      final_chosen_word = PyStr [] \<rparr>;
               w1 = emit (PtbIterator data (m_batch_size m) (m_num_steps m)) w
           in case ptb_iterator env data (m_batch_size m) (m_num_steps m) of
                Inl e \<Rightarrow> (Inl e, w1)
              | Inr batches \<Rightarrow>
                  (case run_epoch_loop env m eval_op verbose epoch_size (py_enumerate batches) v0 w1 of
                     (Inl e, w2) \<Rightarrow> (Inl e, w2)
                   | (Inr v, w2) \<Rightarrow>
                       (case py_truediv (costs v) (iters v) of
                          Inl e \<Rightarrow> (Inl e, w2)
                        | Inr avg \<Rightarrow> (Inr (exp avg, final_chosen_word v), w2)))))"

text \<open>For comparison, the epoch as the glossary's perplexity reads: the same body run
  on every batch, with no \<^verbatim>\<open>break\<close>, the costs of all batches accumulated.\<close>

fun all_batches_loop :: "('sess, 'st, 'ckpt, 'rng) env \<Rightarrow> PTBModel \<Rightarrow> op \<Rightarrow> bool \<Rightarrow> int
    \<Rightarrow> (int \<times> int list list \<times> int list list) list \<Rightarrow> 'st epoch_vars
    \<Rightarrow> ('sess, 'st, 'ckpt, 'rng) world
    \<Rightarrow> (py_error + 'st epoch_vars) \<times> ('sess, 'st, 'ckpt, 'rng) world" where
  "all_batches_loop env m eval_op verbose epoch_size [] v w = (Inr v, w)"
| "all_batches_loop env m eval_op verbose epoch_size ((step, xy) # rest) v w =
     (case run_epoch_body env m eval_op verbose epoch_size step xy v w of
        (Inl e, w1) \<Rightarrow> (Inl e, w1)
      | (Inr v1, w1) \<Rightarrow> all_batches_loop env m eval_op verbose epoch_size rest v1 w1)"

definition perplexity_over_data :: "('sess, 'st, 'ckpt, 'rng) env \<Rightarrow> PTBModel \<Rightarrow> int list \<Rightarrow> op
    \<Rightarrow> bool \<Rightarrow> ('sess, 'st, 'ckpt, 'rng) world \<Rightarrow> py_error + real" where
  "perplexity_over_data env m data eval_op verbose w =
     (case epoch_size_of m data of
        Inl e \<Rightarrow> Inl e
      | Inr epoch_size \<Rightarrow>
          (let v0 = \<lparr> costs = 0.0, iters = 0, state = eval_initial_state env m,
                      final_chosen_word = PyStr [] \<rparr>
           in case ptb_iterator env data (m_batch_size m) (m_num_steps m) of
                Inl e \<Rightarrow> Inl e
              | Inr batches \<Rightarrow>
                  (case all_batches_loop env m eval_op verbose epoch_size (py_enumerate batches) v0 w of
                     (Inl e, w2) \<Rightarrow> Inl e
                   | (Inr v, w2) \<Rightarrow>
                       (case py_truediv (costs v) (iters v) of
                          Inl e \<Rightarrow> Inl e
                        | Inr avg \<Rightarrow> Inr (exp avg)))))"

section \<open>train\<close>

text \<open>What \<^verbatim>\<open>train\<close> has in hand when its epoch loop starts.\<close>

record train_vars =
  tv_config :: config
  tv_raw :: raw_data
  tv_m :: PTBModel
  tv_mvalid :: PTBModel
  tv_mtest :: PTBModel

text \<open>\<^verbatim>\<open>train\<close> up to \<^verbatim>\<open>tf.initialize_all_variables().run()\<close>: the configurations, the
  data, the two vocabulary files, the three models and the initial variables.\<close>

definition train_setup :: "('sess, 'st, 'ckpt, 'rng) env \<Rightarrow> flags
    \<Rightarrow> ('sess, 'st, 'ckpt, 'rng) world
    \<Rightarrow> (py_error + train_vars) \<times> ('sess, 'st, 'ckpt, 'rng) world" where
  "train_setup env FLAGS w =
     (case get_config FLAGS of
        Inl e \<Rightarrow> (Inl e, w)
      | Inr cfg \<Rightarrow>
     (case get_config FLAGS of
        Inl e \<Rightarrow> (Inl e, w)
      | Inr eval_config0 \<Rightarrow>
     (let eval_config = eval_config0 \<lparr> batch_size := 1, num_steps := 1 \<rparr>;
          w1 = emit (ReadRawData (flag_data_path FLAGS)) w
      in case ptb_raw_data env (flag_data_path FLAGS) of
        Inl e \<Rightarrow> (Inl e, w1)
      | Inr raw \<Rightarrow>
     (case os_path_join (flag_model_path_prefix FLAGS) ''word_to_id.json'' of
        Inl e \<Rightarrow> (Inl e, w1)
      | Inr p1 \<Rightarrow>
     (let w2 = json_dump p1 (json_of_word_to_id (rd_word_to_id raw)) (open_w p1 w1)
      in case os_path_join (flag_model_path_prefix FLAGS) ''id_to_word.json'' of
        Inl e \<Rightarrow> (Inl e, w2)
      | Inr p2 \<Rightarrow>
     (let w3 = json_dump p2 (json_of_id_to_word (rd_id_to_word raw)) (open_w p2 w2);
          w4 = w3 \<lparr> session := new_session env \<rparr>;
          m = PTBModel_init True cfg False;
          mvalid = PTBModel_init False cfg True;
          mtest = PTBModel_init False eval_config True;
          w5 = emit InitializeAllVariables
                 (w4 \<lparr> session := initialize_all_variables env (init_scale cfg) (session w4) \<rparr>)
      in (Inr \<lparr> tv_config = cfg, tv_raw = raw, tv_m = m, tv_mvalid = mvalid,
                tv_mtest = mtest \<rparr>, w5)))))))"

text \<open>The body of \<^verbatim>\<open>for i in range(config.max_max_epoch)\<close>. The exponent
  \<^verbatim>\<open>max(i - config.max_epoch, 0.0)\<close> is a whole number that is not negative.\<close>

definition train_epoch :: "('sess, 'st, 'ckpt, 'rng) env \<Rightarrow> flags \<Rightarrow> train_vars \<Rightarrow> int
    \<Rightarrow> ('sess, 'st, 'ckpt, 'rng) world
    \<Rightarrow> (py_error + unit) \<times> ('sess, 'st, 'ckpt, 'rng) world" where
  "train_epoch env FLAGS tv i w =
     (let cfg = tv_config tv;
          lr_decay' = lr_decay cfg ^ nat (max (i - max_epoch cfg) 0)
      in case assign_lr env (tv_m tv) (learning_rate cfg * lr_decay') w of
        (Inl e, w1) \<Rightarrow> (Inl e, w1)
      | (Inr _, w1) \<Rightarrow>
     (case train_op (tv_m tv) of
        Inl e \<Rightarrow> (Inl e, w1)
      | Inr eval_op \<Rightarrow>
     (case run_epoch env (tv_m tv) (rd_train_data (tv_raw tv)) eval_op True w1 of
        (Inl e, w2) \<Rightarrow> (Inl e, w2)
      | (Inr _, w2) \<Rightarrow>
     (case run_epoch env (tv_mvalid tv) (rd_valid_data (tv_raw tv)) NoOp False w2 of
        (Inl e, w3) \<Rightarrow> (Inl e, w3)
      | (Inr _, w3) \<Rightarrow>
     (case os_path_join (flag_model_path_prefix FLAGS) ''ptb.ckpt'' of
        Inl e \<Rightarrow> (Inl e, w3)
      | Inr p \<Rightarrow> (Inr (), save_checkpoint env p w3))))))"

fun train_loop :: "('sess, 'st, 'ckpt, 'rng) env \<Rightarrow> flags \<Rightarrow> train_vars \<Rightarrow> int list
    \<Rightarrow> ('sess, 'st, 'ckpt, 'rng) world
    \<Rightarrow> (py_error + unit) \<times> ('sess, 'st, 'ckpt, 'rng) world" where
  "train_loop env FLAGS tv [] w = (Inr (), w)"
| "train_loop env FLAGS tv (i # is) w =
     (case train_epoch env FLAGS tv i w of
        (Inl e, w1) \<Rightarrow> (Inl e, w1)
      | (Inr _, w1) \<Rightarrow> train_loop env FLAGS tv is w1)"

text \<open>\<^verbatim>\<open>train\<close> up to the end of its epoch loop.\<close>

definition train_epochs :: "('sess, 'st, 'ckpt, 'rng) env \<Rightarrow> flags
    \<Rightarrow> ('sess, 'st, 'ckpt, 'rng) world
    \<Rightarrow> (py_error + train_vars) \<times> ('sess, 'st, 'ckpt, 'rng) world" where
  "train_epochs env FLAGS w =
     (case train_setup env FLAGS w of
        (Inl e, w1) \<Rightarrow> (Inl e, w1)
      | (Inr tv, w1) \<Rightarrow>
          (case train_loop env FLAGS tv (py_range (max_max_epoch (tv_config tv))) w1 of
             (Inl e, w2) \<Rightarrow> (Inl e, w2)
           | (Inr _, w2) \<Rightarrow> (Inr tv, w2)))"

definition train :: "('sess, 'st, 'ckpt, 'rng) env \<Rightarrow> flags
    \<Rightarrow> ('sess, 'st, 'ckpt, 'rng) world
    \<Rightarrow> (py_error + unit) \<times> ('sess, 'st, 'ckpt, 'rng) world" where
  "train env FLAGS w =
     (case train_epochs env FLAGS w of
        (Inl e, w1) \<Rightarrow> (Inl e, w1)
      | (Inr tv, w1) \<Rightarrow>
          (case run_epoch env (tv_mtest tv) (rd_test_data (tv_raw tv)) NoOp False w1 of
             (Inl e, w2) \<Rightarrow> (Inl e, w2)
           | (Inr _, w2) \<Rightarrow> (Inr (), w2)))"

section \<open>generate\<close>

text \<open>The feed of one sampling step: \<^verbatim>\<open>[[next_word]]\<close>, \<^verbatim>\<open>np.zeros((1, 1))\<close>, the state
  and \<^verbatim>\<open>np.ones(1)\<close>.\<close>

definition sample_feed :: "int \<Rightarrow> 'st \<Rightarrow> 'st feed" where
  "sample_feed next_word st =
     \<lparr> feed_input_data = [[next_word]], feed_targets = [[0]],
       feed_initial_state = st, feed_weights = [1] \<rparr>"

text \<open>The loop \<^verbatim>\<open>for i in range(30)\<close> over the remaining indices, with the loop's
  variables \<^verbatim>\<open>next_word\<close>, \<^verbatim>\<open>final_state\<close> and \<^verbatim>\<open>sentence\<close>. \<^verbatim>\<open>probs[0]\<close> raises on a
  matrix with no rows.\<close>

fun generate_loop :: "('sess, 'st, 'ckpt, 'rng) env \<Rightarrow> PTBModel \<Rightarrow> json \<Rightarrow> int list
    \<Rightarrow> int \<Rightarrow> 'st \<Rightarrow> json list \<Rightarrow> ('sess, 'st, 'ckpt, 'rng) world
    \<Rightarrow> (py_error + json list) \<times> ('sess, 'st, 'ckpt, 'rng) world" where
  "generate_loop env m id_to_word [] next_word final_state sentence w = (Inr sentence, w)"
| "generate_loop env m id_to_word (i # is) next_word final_state sentence w =
     (let (r, w1) = run_session env m NoOp (sample_feed next_word final_state) w
      in case f_probs r of
           [] \<Rightarrow> (Inl IndexError, w1)
         | p0 # _ \<Rightarrow>
             (let (c, g) = random_choice env (np_random w1) 10002 p0;
                  w2 = emit (RandomChoice 10002 p0) (w1 \<lparr> np_random := g \<rparr>)
              in case c of
                   Inl e \<Rightarrow> (Inl e, w2)
                 | Inr next_word' \<Rightarrow>
                     (case py_getitem id_to_word (py_str next_word') of
                        Inl e \<Rightarrow> (Inl e, w2)
                      | Inr word \<Rightarrow>
                          generate_loop env m id_to_word is next_word' (f_final_state r)
                            (sentence @ [word]) w2)))"

text \<open>\<^verbatim>\<open>generate\<close> from the first \<^verbatim>\<open>session.run\<close> on: the warm-up run on a zero input,
  the thirty sampling steps and the two lines of the result.\<close>

definition sample_sentence :: "('sess, 'st, 'ckpt, 'rng) env \<Rightarrow> PTBModel \<Rightarrow> json \<Rightarrow> json
    \<Rightarrow> ('sess, 'st, 'ckpt, 'rng) world
    \<Rightarrow> (py_error + unit) \<times> ('sess, 'st, 'ckpt, 'rng) world" where
  "sample_sentence env m word_to_id id_to_word w =
     (let (r0, w1) = run_session env m NoOp (sample_feed 0 (eval_initial_state env m)) w
      in case py_getitem word_to_id ''<bos>'' of
           Inl e \<Rightarrow> (Inl e, w1)
         | Inr b \<Rightarrow>
        (case py_int env b of
           Inl e \<Rightarrow> (Inl e, w1)
         | Inr next_word \<Rightarrow>
        (case generate_loop env m id_to_word (py_range 30) next_word (f_final_state r0) [] w1 of
           (Inl e, w2) \<Rightarrow> (Inl e, w2)
         | (Inr sentence, w2) \<Rightarrow>
        (let w3 = emit (Print ''SENTENCE:'') w2
         in case json_strings sentence of
              Inl e \<Rightarrow> (Inl e, w3)
            | Inr ws \<Rightarrow> (Inr (), emit (Print (py_join '' '' ws)) w3)))))"

definition generate :: "('sess, 'st, 'ckpt, 'rng) env \<Rightarrow> flags \<Rightarrow> json \<Rightarrow> json
    \<Rightarrow> ('sess, 'st, 'ckpt, 'rng) world
    \<Rightarrow> (py_error + unit) \<times> ('sess, 'st, 'ckpt, 'rng) world" where
  "generate env FLAGS word_to_id id_to_word w =
     (case get_config FLAGS of
        Inl e \<Rightarrow> (Inl e, w)
      | Inr cfg0 \<Rightarrow>
     (let cfg = cfg0 \<lparr> num_steps := 1, batch_size := 1 \<rparr>;
          w1 = w \<lparr> session := new_session env \<rparr>;
          m = PTBModel_init False cfg False
      in case os_path_join (flag_model_path_prefix FLAGS) ''ptb.ckpt'' of
        Inl e \<Rightarrow> (Inl e, w1)
      | Inr p \<Rightarrow>
     (case open_r p w1 of
        Inl e \<Rightarrow> (Inl e, w1)
      | Inr _ \<Rightarrow>
     (case restore_checkpoint env p w1 of
        (Inl e, w2) \<Rightarrow> (Inl e, w2)
      | (Inr _, w2) \<Rightarrow> sample_sentence env m word_to_id id_to_word w2))))"

section \<open>main\<close>

definition main :: "('sess, 'st, 'ckpt, 'rng) env \<Rightarrow> flags
    \<Rightarrow> ('sess, 'st, 'ckpt, 'rng) world
    \<Rightarrow> (py_error + unit) \<times> ('sess, 'st, 'ckpt, 'rng) world" where
  "main env FLAGS w =
     (if \<not> truthy (flag_data_path FLAGS) \<and> \<not> truthy (flag_generate FLAGS)
      then (Inl ValueError, w)
      else if \<not> truthy (flag_generate FLAGS) then train env FLAGS w
      else
       (case os_path_join (flag_model_path_prefix FLAGS) ''word_to_id.json'' of
          Inl e \<Rightarrow> (Inl e, w)
        | Inr p1 \<Rightarrow>
       (case open_r p1 w of
          Inl e \<Rightarrow> (Inl e, w)
        | Inr _ \<Rightarrow>
       (case os_path_join (flag_model_path_prefix FLAGS) ''id_to_word.json'' of
          Inl e \<Rightarrow> (Inl e, w)
        | Inr p2 \<Rightarrow>
       (case open_r p2 w of
          Inl e \<Rightarrow> (Inl e, w)
        | Inr _ \<Rightarrow>
       (case json_load p1 w of
          (Inl e, w1) \<Rightarrow> (Inl e, w1)
        | (Inr word_to_id, w1) \<Rightarrow>
       (case json_load p2 w1 of
          (Inl e, w2) \<Rightarrow> (Inl e, w2)
        | (Inr id_to_word, w2) \<Rightarrow> generate env FLAGS word_to_id id_to_word w2)))))))"

section \<open>A small environment\<close>

text \<open>
  A deterministic environment on which the functions above can be run: the reader
  yields the batches it is given, a session is the number of training steps made so far, the cost of
  a run is the sum of the fed word ids, the probabilities are two fixed rows, and the
  random choice alternates between the ids 0 and 1.
\<close>

text \<open>The number of \<^verbatim>\<open>session.run\<close> calls in a trace.\<close>

fun session_runs :: "'st event list \<Rightarrow> nat" where
  "session_runs [] = 0"
| "session_runs (SessionRun m eval_op fd # es) = Suc (session_runs es)"
| "session_runs (_ # es) = session_runs es"

definition demo_raw :: raw_data where
  "demo_raw = \<lparr> rd_train_data = replicate 420 0, rd_valid_data = replicate 60 0,
     rd_test_data = [0, 1, 0], rd_vocab = 2,
     rd_word_to_id = [(''<bos>'', 0), (''the'', 1)],
     rd_id_to_word = [(0, ''<bos>''), (1, ''the'')] \<rparr>"

definition demo_session_run :: "int \<Rightarrow> PTBModel \<Rightarrow> op \<Rightarrow> nat feed \<Rightarrow> nat fetched \<times> int" where
  "demo_session_run s m eval_op fd =
     (\<lparr> f_cost = real_of_int (sum_list (concat (feed_input_data fd))),
        f_final_state = Suc (feed_initial_state fd),
        f_logits = [[1, 0, 0], [0, 2, 1]],
        f_probs = [[1 / 2, 1 / 4, 1 / 4], [1 / 4, 1 / 2, 1 / 4]] \<rparr>,
      if eval_op = NoOp then s else s + 1)"

definition demo_env :: "(int list list \<times> int list list) list \<Rightarrow> (int, nat, int, nat) env" where
  "demo_env batches =
     \<lparr> ptb_raw_data = (\<lambda>p. case p of None \<Rightarrow> Inl TypeError | Some _ \<Rightarrow> Inr demo_raw),
       ptb_iterator = (\<lambda>data bs ns. Inr batches),
       new_session = 0,
       initialize_all_variables = (\<lambda>scale s. 1),
       eval_initial_state = (\<lambda>m. 0),
       session_run = demo_session_run,
       session_assign = (\<lambda>s v x. s),
       saver_save = (\<lambda>s. s),
       saver_restore = (\<lambda>s c. c),
       random_choice = (\<lambda>g n p. (Inr (int (g mod 2)), Suc g)),
       int_of_str = (\<lambda>s. Inl ValueError) \<rparr>"

definition demo_world :: "(int, nat, int, nat) world" where
  "demo_world = \<lparr> files = Map.empty, session = 0, np_random = 0, trace = [] \<rparr>"

definition demo_flags :: flags where
  "demo_flags = \<lparr> flag_model = ''test'', flag_data_path = Some ''data'',
     flag_generate = None, flag_model_path_prefix = Some ''out'' \<rparr>"

section \<open>Closed forms used in the statements\<close>

text \<open>The feed \<^verbatim>\<open>run_epoch\<close> builds for the first batch of the iterator, and the calls
  a returning \<^verbatim>\<open>run_epoch\<close> makes.\<close>

definition first_feed :: "('sess, 'st, 'ckpt, 'rng) env \<Rightarrow> PTBModel \<Rightarrow> int list \<Rightarrow> 'st feed" where
  "first_feed env m data =
     (let (x, y) = (case ptb_iterator env data (m_batch_size m) (m_num_steps m) of
                      Inr (xy # _) \<Rightarrow> xy
                    | _ \<Rightarrow> ([], []))
      in \<lparr> feed_input_data = x, feed_targets = y,
           feed_initial_state = eval_initial_state env m,
           feed_weights = replicate (nat (m_batch_size m * m_num_steps m)) 1 \<rparr>)"

definition epoch_calls :: "('sess, 'st, 'ckpt, 'rng) env \<Rightarrow> PTBModel \<Rightarrow> int list \<Rightarrow> op \<Rightarrow> 'st event list" where
  "epoch_calls env m data eval_op =
     [PtbIterator data (m_batch_size m) (m_num_steps m), SessionRun m eval_op (first_feed env m data)]"

definition two_batches :: "(int list list \<times> int list list) list" where
  "two_batches = [([[1]], [[3]]), ([[3]], [[5]])]"

definition unit_model :: PTBModel where
  "unit_model = PTBModel_init False (TestConfig \<lparr> batch_size := 1, num_steps := 1 \<rparr>) True"

text \<open>The state of the recurrent core after \<open>t\<close> time steps, counted from the state
  \<open>init\<close>: each step applies the cell to the slice of the inputs at that step and to the
  state before it; \<open>reuse\<close> is the flag of the enclosing variable scope.\<close>

primrec rnn_state :: "cell \<Rightarrow> tensor \<Rightarrow> tensor \<Rightarrow> bool \<Rightarrow> nat \<Rightarrow> tensor" where
  "rnn_state c inputs init reuse 0 = init"
| "rnn_state c inputs init reuse (Suc t) =
     CellState c (TimeSlice inputs (int t)) (rnn_state c inputs init reuse t) (reuse \<or> 0 < t)"

text \<open>The calls of epoch \<open>i\<close> of \<^verbatim>\<open>train\<close> when nothing raises: the learning rate, the
  training epoch, the validation epoch, the checkpoint.\<close>

definition epoch_steps :: "('sess, 'st, 'ckpt, 'rng) env \<Rightarrow> flags \<Rightarrow> train_vars \<Rightarrow> op \<Rightarrow> string
    \<Rightarrow> int \<Rightarrow> 'st event list" where
  "epoch_steps env FLAGS tv training_op ckpt i =
     [AssignLr (learning_rate (tv_config tv)
                 * lr_decay (tv_config tv) ^ nat (max (i - max_epoch (tv_config tv)) 0))]
     @ epoch_calls env (tv_m tv) (rd_train_data (tv_raw tv)) training_op
     @ epoch_calls env (tv_mvalid tv) (rd_valid_data (tv_raw tv)) NoOp
     @ [SaverSave ckpt]"

text \<open>One sampling step of \<^verbatim>\<open>generate\<close> seen from outside the loop: from the word and
  the RNN state to feed, and the world, to the sampled word, the state the run
  returned, and the world after the run and the random choice. \<open>sample_chain\<close> is the
  loop's word, state and world after \<open>k\<close> such steps.\<close>

definition sample_probs :: "('sess, 'st, 'ckpt, 'rng) env \<Rightarrow> PTBModel
    \<Rightarrow> (int \<times> 'st) \<times> ('sess, 'st, 'ckpt, 'rng) world \<Rightarrow> real list" where
  "sample_probs env m s =
     hd (f_probs (fst (run_session env m NoOp (sample_feed (fst (fst s)) (snd (fst s))) (snd s))))"

definition sample_next :: "('sess, 'st, 'ckpt, 'rng) env \<Rightarrow> PTBModel
    \<Rightarrow> (int \<times> 'st) \<times> ('sess, 'st, 'ckpt, 'rng) world
    \<Rightarrow> (int \<times> 'st) \<times> ('sess, 'st, 'ckpt, 'rng) world" where
  "sample_next env m s =
     (let (r, w1) = run_session env m NoOp (sample_feed (fst (fst s)) (snd (fst s))) (snd s);
          (c, g) = random_choice env (np_random w1) 10002 (sample_probs env m s);
          w2 = emit (RandomChoice 10002 (sample_probs env m s)) (w1 \<lparr> np_random := g \<rparr>)
      in ((case c of Inl e \<Rightarrow> fst (fst s) | Inr n \<Rightarrow> n, f_final_state r), w2))"

definition sample_chain :: "('sess, 'st, 'ckpt, 'rng) env \<Rightarrow> PTBModel
    \<Rightarrow> (int \<times> 'st) \<times> ('sess, 'st, 'ckpt, 'rng) world \<Rightarrow> nat
    \<Rightarrow> (int \<times> 'st) \<times> ('sess, 'st, 'ckpt, 'rng) world" where
  "sample_chain env m s0 k = (sample_next env m ^^ k) s0"

text \<open>Flags for the generate mode, and a world in which a model has been trained.\<close>

definition demo_generate_flags :: flags where
  "demo_generate_flags = \<lparr> flag_model = ''test'', flag_data_path = None,
     flag_generate = Some ''True'', flag_model_path_prefix = Some ''out'' \<rparr>"

definition demo_trained_world :: "(int, nat, int, nat) world" where
  "demo_trained_world = snd (train (demo_env two_batches) demo_flags demo_world)"

definition demo_word_to_id :: json where
  "demo_word_to_id = JObj [(''<bos>'', JInt 0), (''the'', JInt 1)]"

definition demo_id_to_word :: json where
  "demo_id_to_word = JObj [(''0'', JStr ''<bos>''), (''1'', JStr ''the'')]"

text \<open>Reading a decimal numeral back: the value of a digit and of a string of digits.\<close>

definition digit_value :: "char \<Rightarrow> nat" where
  "digit_value c = length (takeWhile (\<lambda>d. d \<noteq> c) ''0123456789'')"

definition digits_value :: "string \<Rightarrow> nat" where
  "digits_value s = foldl (\<lambda>a c. 10 * a + digit_value c) 0 s"


text \<open>The sessions a returning \<^verbatim>\<open>train\<close> goes through: epoch \<open>i\<close> takes the session through
  the assignment of the learning rate to the variable \<open>v\<close>, the training run and the
  validation run.\<close>

definition epoch_session :: "('sess, 'st, 'ckpt, 'rng) env \<Rightarrow> train_vars \<Rightarrow> tensor \<Rightarrow> op
    \<Rightarrow> 'sess \<Rightarrow> int \<Rightarrow> 'sess" where
  "epoch_session env tv v training_op s i =
     snd (session_run env
       (snd (session_run env
          (session_assign env s v
             (learning_rate (tv_config tv)
                * lr_decay (tv_config tv) ^ nat (max (i - max_epoch (tv_config tv)) 0)))
          (tv_m tv) training_op (first_feed env (tv_m tv) (rd_train_data (tv_raw tv)))))
       (tv_mvalid tv) NoOp (first_feed env (tv_mvalid tv) (rd_valid_data (tv_raw tv))))"

text \<open>
  A second environment, in which the learning rate has an effect that can be read off
  the session: a session is the pair of the learning rate last assigned and of one
  weight, the initialisation sets the weight to the scale, and a run with a training op
  adds the learning rate to the weight. The data are words of id 0, and the reader
  yields \<^verbatim>\<open>epoch_size\<close> batches of the shape \<^verbatim>\<open>batch_size\<close> by \<^verbatim>\<open>num_steps\<close>.
\<close>

definition rate_raw :: raw_data where
  "rate_raw = \<lparr> rd_train_data = replicate 4020 0, rd_valid_data = replicate 420 0,
     rd_test_data = replicate 3 0, rd_vocab = 2,
     rd_word_to_id = [(''<bos>'', 0), (''the'', 1)],
     rd_id_to_word = [(0, ''<bos>''), (1, ''the'')] \<rparr>"

definition rate_session_run :: "real \<times> real \<Rightarrow> PTBModel \<Rightarrow> op \<Rightarrow> nat feed
    \<Rightarrow> nat fetched \<times> (real \<times> real)" where
  "rate_session_run s m eval_op fd =
     (\<lparr> f_cost = 1, f_final_state = Suc (feed_initial_state fd),
        f_logits = [[0, 1]], f_probs = [[1 / 4, 3 / 4]] \<rparr>,
      if eval_op = NoOp then s else (fst s, snd s + fst s))"

definition zero_batch :: "int \<Rightarrow> int \<Rightarrow> int list list \<times> int list list" where
  "zero_batch bs ns =
     (replicate (nat bs) (replicate (nat ns) 0), replicate (nat bs) (replicate (nat ns) 0))"

definition rate_env :: "(real \<times> real, nat, real \<times> real, nat) env" where
  "rate_env =
     \<lparr> ptb_raw_data = (\<lambda>p. case p of None \<Rightarrow> Inl TypeError | Some _ \<Rightarrow> Inr rate_raw),
       ptb_iterator = (\<lambda>data bs ns.
          Inr (replicate (nat ((int (length data) div bs - 1) div ns)) (zero_batch bs ns))),
       new_session = (0, 0),
       initialize_all_variables = (\<lambda>scale s. (0, scale)),
       eval_initial_state = (\<lambda>m. 0),
       session_run = rate_session_run,
       session_assign = (\<lambda>s v x. (x, snd s)),
       saver_save = (\<lambda>s. s),
       saver_restore = (\<lambda>s c. c),
       random_choice = (\<lambda>g n p. (Inr 0, Suc g)),
       int_of_str = (\<lambda>s. Inl ValueError) \<rparr>"

definition rate_world :: "(real \<times> real, nat, real \<times> real, nat) world" where
  "rate_world = \<lparr> files = Map.empty, session = (0, 0), np_random = 0, trace = [] \<rparr>"

definition small_flags :: flags where
  "small_flags = \<lparr> flag_model = ''small'', flag_data_path = Some ''data'',
     flag_generate = None, flag_model_path_prefix = Some ''out'' \<rparr>"

section \<open>Proofs\<close>

lemma trace_emit [simp]: "trace (emit e w) = trace w @ [e]"
  and files_emit [simp]: "files (emit e w) = files w"
  and session_emit [simp]: "session (emit e w) = session w"
  and np_random_emit [simp]: "np_random (emit e w) = np_random w"
  by (simp_all add: emit_def)

lemma run_session_eq:
  "run_session env m eval_op fd w =
     (fst (session_run env (session w) m eval_op fd),
      emit (SessionRun m eval_op fd) (w \<lparr> session := snd (session_run env (session w) m eval_op fd) \<rparr>))"
  by (simp add: run_session_def case_prod_unfold Let_def)

lemma m_fields [simp]:
  "m_batch_size (PTBModel_init t cfg r) = batch_size cfg"
  "m_num_steps (PTBModel_init t cfg r) = num_steps cfg"
  by (simp_all add: PTBModel_init_def Let_def case_prod_unfold)

lemma session_runs_append [simp]:
  "session_runs (xs @ ys) = session_runs xs + session_runs ys"
  by (induction xs rule: session_runs.induct) simp_all

lemma verbose_progress_step0:
  "verbose_progress verbose 0 es = (if verbose \<and> es div 10 = 0 then Inl ZeroDivisionError else Inr False)"
  by (simp add: verbose_progress_def py_floordiv_def py_mod_def)

lemma last_chosen_word_Inr:
  "last_chosen_word p = Inr c \<Longrightarrow> p \<noteq> [] \<and> [] \<notin> set p \<and> c = int (argmax_row (last p))"
  by (auto simp: last_chosen_word_def np_argmax_axis1_def last_map split: if_splits)

text \<open>The body of the loop at step 0, when it raises nothing.\<close>
lemma run_epoch_body_Inr:
  assumes "run_epoch_body env m eval_op verbose es 0 (x, y) v w = (Inr v', w')"
  shows "\<exists>ones. np_ones (m_batch_size m * m_num_steps m) = Inr ones \<and>
     (let fd = \<lparr> feed_input_data = x, feed_targets = y, feed_initial_state = state v, feed_weights = ones \<rparr>;
          r = fst (session_run env (session w) m eval_op fd)
      in v' = \<lparr> costs = costs v + f_cost r, iters = iters v + m_num_steps m, state = f_final_state r,
                final_chosen_word = PyInt (int (argmax_row (last (f_probs r)))) \<rparr>
        \<and> w' = emit (SessionRun m eval_op fd) (w \<lparr> session := snd (session_run env (session w) m eval_op fd) \<rparr>)
        \<and> \<not> (verbose \<and> es div 10 = 0))"
  using assms
  by (auto simp: run_epoch_body_def run_session_eq verbose_progress_step0 Let_def
      split: sum.splits if_splits dest!: last_chosen_word_Inr)


lemma py_enumerate_Cons: "py_enumerate (b # bs) = (0, b) # zip (map int [1..<Suc (length bs)]) bs"
  by (simp add: py_enumerate_def upt_conv_Cons del: upt_Suc)

lemma py_enumerate_Nil [simp]: "py_enumerate [] = []"
  by (simp add: py_enumerate_def)

lemma run_epoch_loop_Cons:
  "run_epoch_loop env m eval_op verbose es (py_enumerate (b # bs)) v w =
     run_epoch_body env m eval_op verbose es 0 b v w"
  by (simp add: py_enumerate_Cons)

lemma epoch_size_of_Inr:
  "epoch_size_of m data = Inr es \<Longrightarrow>
     m_batch_size m \<noteq> 0 \<and> m_num_steps m \<noteq> 0 \<and>
     es = (int (length data) div m_batch_size m - 1) div m_num_steps m"
  by (auto simp: epoch_size_of_def py_floordiv_def split: if_splits)

text \<open>What a call of \<^verbatim>\<open>run_epoch\<close> that returns has done.\<close>
lemma run_epoch_Inr:
  assumes "run_epoch env m data eval_op verbose w = (Inr (p, cw), w')"
  shows "\<exists>es x y rest r.
      epoch_size_of m data = Inr es
    \<and> ptb_iterator env data (m_batch_size m) (m_num_steps m) = Inr ((x, y) # rest)
    \<and> 0 \<le> m_batch_size m * m_num_steps m
    \<and> r = fst (session_run env (session w) m eval_op (first_feed env m data))
    \<and> run_epoch_loop env m eval_op verbose es (py_enumerate ((x, y) # rest))
         \<lparr> costs = 0, iters = 0, state = eval_initial_state env m, final_chosen_word = PyStr [] \<rparr>
         (emit (PtbIterator data (m_batch_size m) (m_num_steps m)) w)
        = (Inr \<lparr> costs = f_cost r, iters = m_num_steps m, state = f_final_state r,
                 final_chosen_word = cw \<rparr>, w')
    \<and> p = exp (f_cost r / real_of_int (m_num_steps m))
    \<and> cw = PyInt (int (argmax_row (last (f_probs r))))
    \<and> \<not> (verbose \<and> es div 10 = 0)
    \<and> w' = emit (SessionRun m eval_op (first_feed env m data))
             (emit (PtbIterator data (m_batch_size m) (m_num_steps m)) w
                \<lparr> session := snd (session_run env (session w) m eval_op (first_feed env m data)) \<rparr>)"
proof -
  from assms obtain es where es: "epoch_size_of m data = Inr es"
    by (auto simp: run_epoch_def split: sum.splits)
  from assms es obtain batches where it: "ptb_iterator env data (m_batch_size m) (m_num_steps m) = Inr batches"
    by (auto simp: run_epoch_def Let_def split: sum.splits)
  let ?v0 = "\<lparr> costs = 0, iters = 0, state = eval_initial_state env m, final_chosen_word = PyStr [] \<rparr>"
  let ?w1 = "emit (PtbIterator data (m_batch_size m) (m_num_steps m)) w"
  from assms es it obtain v where
    loop: "run_epoch_loop env m eval_op verbose es (py_enumerate batches) ?v0 ?w1 = (Inr v, w')"
    and dv: "iters v \<noteq> 0" and pe: "p = exp (costs v / real_of_int (iters v))"
    and cwv: "cw = final_chosen_word v"
    by (auto simp: run_epoch_def Let_def py_truediv_def split: sum.splits prod.splits if_splits)
  have ne: "batches \<noteq> []"
  proof
    assume "batches = []"
    with loop have "v = ?v0" by simp
    with dv show False by simp
  qed
  then obtain x y rest where b: "batches = (x, y) # rest"
    by (cases batches) auto
  from loop b have body: "run_epoch_body env m eval_op verbose es 0 (x, y) ?v0 ?w1 = (Inr v, w')"
    by (simp add: run_epoch_loop_Cons)
  from run_epoch_body_Inr [OF body] obtain ones where
    ones: "np_ones (m_batch_size m * m_num_steps m) = Inr ones"
    and rest: "(let fd = \<lparr> feed_input_data = x, feed_targets = y, feed_initial_state = state ?v0, feed_weights = ones \<rparr>;
          r = fst (session_run env (session ?w1) m eval_op fd)
      in v = \<lparr> costs = costs ?v0 + f_cost r, iters = iters ?v0 + m_num_steps m, state = f_final_state r,
                final_chosen_word = PyInt (int (argmax_row (last (f_probs r)))) \<rparr>
        \<and> w' = emit (SessionRun m eval_op fd) (?w1 \<lparr> session := snd (session_run env (session ?w1) m eval_op fd) \<rparr>)
        \<and> \<not> (verbose \<and> es div 10 = 0))"
    by blast
  from ones have nn: "0 \<le> m_batch_size m * m_num_steps m" and ov: "ones = replicate (nat (m_batch_size m * m_num_steps m)) 1"
    by (auto simp: np_ones_def split: if_splits)
  have ff: "first_feed env m data = \<lparr> feed_input_data = x, feed_targets = y, feed_initial_state = eval_initial_state env m, feed_weights = ones \<rparr>"
    by (simp add: first_feed_def it b ov)
  from epoch_size_of_Inr [OF es] have "m_num_steps m \<noteq> 0" by simp
  with rest ff es it b nn loop pe cwv show ?thesis
    by (simp add: Let_def)
qed


lemma run_epoch_body_runs:
  "session_runs (trace (snd (run_epoch_body env m eval_op verbose es step xy v w)))
     \<le> Suc (session_runs (trace w))"
  by (simp add: run_epoch_body_def run_session_eq Let_def split: sum.splits)

lemma run_epoch_loop_runs:
  "session_runs (trace (snd (run_epoch_loop env m eval_op verbose es bs v w)))
     \<le> Suc (session_runs (trace w))"
  by (cases bs) (auto simp: run_epoch_body_runs)

lemma run_epoch_runs:
  "session_runs (trace (snd (run_epoch env m data eval_op verbose w)))
     \<le> Suc (session_runs (trace w))"
proof (cases "epoch_size_of m data")
  case (Inl e)
  then show ?thesis by (simp add: run_epoch_def)
next
  case es: (Inr es)
  show ?thesis
  proof (cases "ptb_iterator env data (m_batch_size m) (m_num_steps m)")
    case (Inl e)
    with es show ?thesis by (simp add: run_epoch_def Let_def)
  next
    case it: (Inr batches)
    let ?w1 = "emit (PtbIterator data (m_batch_size m) (m_num_steps m)) w"
    let ?v0 = "\<lparr> costs = 0, iters = 0, state = eval_initial_state env m, final_chosen_word = PyStr [] \<rparr>"
    obtain r w2 where loop:
      "run_epoch_loop env m eval_op verbose es (py_enumerate batches) ?v0 ?w1 = (r, w2)"
      by (cases "run_epoch_loop env m eval_op verbose es (py_enumerate batches) ?v0 ?w1") blast
    from run_epoch_loop_runs [of env m eval_op verbose es "py_enumerate batches" ?v0 ?w1] loop
    have "session_runs (trace w2) \<le> Suc (session_runs (trace w))" by simp
    with es it loop show ?thesis
      by (simp add: run_epoch_def Let_def split: sum.splits)
  qed
qed

text \<open>The scan keeps the first largest entry seen so far.\<close>

lemma argmax_from_first_largest:
  assumes "length pre = i" and "best < i" and "pre ! best = bv"
    and "\<forall>j<i. pre ! j \<le> bv" and "\<forall>j<best. pre ! j < bv"
  shows "argmax_from xs i best bv < length (pre @ xs)
    \<and> (\<forall>j<length (pre @ xs). (pre @ xs) ! j \<le> (pre @ xs) ! argmax_from xs i best bv)
    \<and> (\<forall>j<argmax_from xs i best bv. (pre @ xs) ! j < (pre @ xs) ! argmax_from xs i best bv)"
  using assms
proof (induction xs arbitrary: pre i best bv)
  case Nil
  then show ?case by auto
next
  case (Cons x xs)
  show ?case
  proof (cases "bv < x")
    case True
    have "argmax_from xs (Suc i) i x < length ((pre @ [x]) @ xs)
      \<and> (\<forall>j<length ((pre @ [x]) @ xs). ((pre @ [x]) @ xs) ! j \<le> ((pre @ [x]) @ xs) ! argmax_from xs (Suc i) i x)
      \<and> (\<forall>j<argmax_from xs (Suc i) i x. ((pre @ [x]) @ xs) ! j < ((pre @ [x]) @ xs) ! argmax_from xs (Suc i) i x)"
    proof (rule Cons.IH)
      show "length (pre @ [x]) = Suc i" using Cons.prems(1) by simp
      show "i < Suc i" by simp
      show "(pre @ [x]) ! i = x" using Cons.prems(1) by (simp add: nth_append)
      show "\<forall>j<Suc i. (pre @ [x]) ! j \<le> x"
        using Cons.prems(1,4) True by (auto simp: nth_append less_Suc_eq)
      show "\<forall>j<i. (pre @ [x]) ! j < x"
        using Cons.prems(1,4) True by (auto simp: nth_append intro: le_less_trans)
    qed
    with True show ?thesis by simp
  next
    case False
    have "argmax_from xs (Suc i) best bv < length ((pre @ [x]) @ xs)
      \<and> (\<forall>j<length ((pre @ [x]) @ xs). ((pre @ [x]) @ xs) ! j \<le> ((pre @ [x]) @ xs) ! argmax_from xs (Suc i) best bv)
      \<and> (\<forall>j<argmax_from xs (Suc i) best bv. ((pre @ [x]) @ xs) ! j < ((pre @ [x]) @ xs) ! argmax_from xs (Suc i) best bv)"
    proof (rule Cons.IH)
      show "length (pre @ [x]) = Suc i" using Cons.prems(1) by simp
      show "best < Suc i" using Cons.prems(2) by simp
      show "(pre @ [x]) ! best = bv" using Cons.prems(1,2,3) by (simp add: nth_append)
      show "\<forall>j<Suc i. (pre @ [x]) ! j \<le> bv"
        using Cons.prems(1,4) False by (auto simp: nth_append less_Suc_eq)
      show "\<forall>j<best. (pre @ [x]) ! j < bv"
        using Cons.prems(1,2,5) by (auto simp: nth_append)
    qed
    with False show ?thesis by simp
  qed
qed

lemma argmax_row_first_largest:
  assumes "xs \<noteq> []"
  shows "argmax_row xs < length xs
    \<and> (\<forall>j<length xs. xs ! j \<le> xs ! argmax_row xs)
    \<and> (\<forall>j<argmax_row xs. xs ! j < xs ! argmax_row xs)"
proof -
  from assms obtain x rest where xs: "xs = x # rest" by (cases xs) auto
  from argmax_from_first_largest [of "[x]" 1 0 x rest]
  show ?thesis by (simp add: xs argmax_row_def)
qed


lemma run_epoch_body_probs:
  assumes "run_epoch_body env m eval_op verbose es step (x, y) v w = (Inr v', w')"
  shows "f_probs (fst (session_run env (session w) m eval_op
            \<lparr> feed_input_data = x, feed_targets = y, feed_initial_state = state v,
              feed_weights = replicate (nat (m_batch_size m * m_num_steps m)) 1 \<rparr>)) \<noteq> []
    \<and> [] \<notin> set (f_probs (fst (session_run env (session w) m eval_op
            \<lparr> feed_input_data = x, feed_targets = y, feed_initial_state = state v,
              feed_weights = replicate (nat (m_batch_size m * m_num_steps m)) 1 \<rparr>)))"
  using assms
  by (auto simp: run_epoch_body_def run_session_eq Let_def np_ones_def
      split: sum.splits if_splits dest!: last_chosen_word_Inr)

lemma run_epoch_Inr_probs:
  assumes "run_epoch env m data eval_op verbose w = (Inr (p, cw), w')"
  shows "f_probs (fst (session_run env (session w) m eval_op (first_feed env m data))) \<noteq> []
    \<and> last (f_probs (fst (session_run env (session w) m eval_op (first_feed env m data)))) \<noteq> []"
proof -
  from run_epoch_Inr [OF assms] obtain es x y rest r where
    h: "epoch_size_of m data = Inr es"
       "ptb_iterator env data (m_batch_size m) (m_num_steps m) = Inr ((x, y) # rest)"
       "r = fst (session_run env (session w) m eval_op (first_feed env m data))"
       "run_epoch_loop env m eval_op verbose es (py_enumerate ((x, y) # rest))
         \<lparr> costs = 0, iters = 0, state = eval_initial_state env m, final_chosen_word = PyStr [] \<rparr>
         (emit (PtbIterator data (m_batch_size m) (m_num_steps m)) w)
        = (Inr \<lparr> costs = f_cost r, iters = m_num_steps m, state = f_final_state r,
                 final_chosen_word = cw \<rparr>, w')"
       "p = exp (f_cost r / real_of_int (m_num_steps m))"
       "cw = PyInt (int (argmax_row (last (f_probs r))))"
       "w' = emit (SessionRun m eval_op (first_feed env m data))
             (emit (PtbIterator data (m_batch_size m) (m_num_steps m)) w
                \<lparr> session := snd (session_run env (session w) m eval_op (first_feed env m data)) \<rparr>)"
    by blast
  note it = h(2) and loop = h(4)
  have ff: "first_feed env m data = \<lparr> feed_input_data = x, feed_targets = y,
                    feed_initial_state = eval_initial_state env m,
                    feed_weights = replicate (nat (m_batch_size m * m_num_steps m)) 1 \<rparr>"
    by (simp add: first_feed_def it)
  from run_epoch_body_probs [OF loop [unfolded run_epoch_loop_Cons]]
  have "f_probs (fst (session_run env (session w) m eval_op (first_feed env m data))) \<noteq> []"
    and "[] \<notin> set (f_probs (fst (session_run env (session w) m eval_op (first_feed env m data))))"
    by (simp_all add: ff)
  then show ?thesis
    by (metis last_in_set)
qed

text \<open>
  Claim C2. Whatever the data, \<^verbatim>\<open>run_epoch\<close> makes at most one \<^verbatim>\<open>session.run\<close>, and
  when it returns, the iterator has yielded a first batch \<open>(x, y)\<close>, the loop ended with
  \<^verbatim>\<open>costs\<close> the cost of that batch alone and \<^verbatim>\<open>iters = m.num_steps\<close>, the returned
  perplexity is the exponential of that cost over \<^verbatim>\<open>num_steps\<close>, the returned word is
  the argmax of the last row of that run's probabilities (the index \<open>k\<close> of an entry of
  that row that no entry exceeds and no earlier entry reaches), and the only calls made
  are the iterator's and that one run.
\<close>

theorem run_epoch_first_batch_only:
  "session_runs (trace (snd (run_epoch env m data eval_op verbose w))) \<le> Suc (session_runs (trace w))
   \<and> (\<forall>p cw w'. run_epoch env m data eval_op verbose w = (Inr (p, cw), w') \<longrightarrow>
        (\<exists>es x y rest fd r.
            epoch_size_of m data = Inr es
          \<and> ptb_iterator env data (m_batch_size m) (m_num_steps m) = Inr ((x, y) # rest)
          \<and> fd = \<lparr> feed_input_data = x, feed_targets = y,
                    feed_initial_state = eval_initial_state env m,
                    feed_weights = replicate (nat (m_batch_size m * m_num_steps m)) 1 \<rparr>
          \<and> r = fst (session_run env (session w) m eval_op fd)
          \<and> run_epoch_loop env m eval_op verbose es (py_enumerate ((x, y) # rest))
               \<lparr> costs = 0, iters = 0, state = eval_initial_state env m,
                 final_chosen_word = PyStr [] \<rparr>
               (emit (PtbIterator data (m_batch_size m) (m_num_steps m)) w)
              = (Inr \<lparr> costs = f_cost r, iters = m_num_steps m, state = f_final_state r,
                       final_chosen_word = cw \<rparr>, w')
          \<and> p = exp (f_cost r / real_of_int (m_num_steps m))
          \<and> cw = PyInt (int (argmax_row (last (f_probs r))))
          \<and> f_probs r \<noteq> []
          \<and> (\<exists>k. cw = PyInt (int k) \<and> k < length (last (f_probs r))
                \<and> (\<forall>j<length (last (f_probs r)). last (f_probs r) ! j \<le> last (f_probs r) ! k)
                \<and> (\<forall>j<k. last (f_probs r) ! j < last (f_probs r) ! k))
          \<and> trace w' = trace w @ [PtbIterator data (m_batch_size m) (m_num_steps m),
                                   SessionRun m eval_op fd]))"
proof (intro conjI allI impI)
  show "session_runs (trace (snd (run_epoch env m data eval_op verbose w))) \<le> Suc (session_runs (trace w))"
    by (rule run_epoch_runs)
next
  fix p cw w'
  assume ret: "run_epoch env m data eval_op verbose w = (Inr (p, cw), w')"
  from run_epoch_Inr [OF ret] obtain es x y rest r where
    h: "epoch_size_of m data = Inr es"
       "ptb_iterator env data (m_batch_size m) (m_num_steps m) = Inr ((x, y) # rest)"
       "r = fst (session_run env (session w) m eval_op (first_feed env m data))"
       "run_epoch_loop env m eval_op verbose es (py_enumerate ((x, y) # rest))
         \<lparr> costs = 0, iters = 0, state = eval_initial_state env m, final_chosen_word = PyStr [] \<rparr>
         (emit (PtbIterator data (m_batch_size m) (m_num_steps m)) w)
        = (Inr \<lparr> costs = f_cost r, iters = m_num_steps m, state = f_final_state r,
                 final_chosen_word = cw \<rparr>, w')"
       "p = exp (f_cost r / real_of_int (m_num_steps m))"
       "cw = PyInt (int (argmax_row (last (f_probs r))))"
       "w' = emit (SessionRun m eval_op (first_feed env m data))
             (emit (PtbIterator data (m_batch_size m) (m_num_steps m)) w
                \<lparr> session := snd (session_run env (session w) m eval_op (first_feed env m data)) \<rparr>)"
    by blast
  have ff: "first_feed env m data = \<lparr> feed_input_data = x, feed_targets = y,
                    feed_initial_state = eval_initial_state env m,
                    feed_weights = replicate (nat (m_batch_size m * m_num_steps m)) 1 \<rparr>"
    by (simp add: first_feed_def h(2))
  from run_epoch_Inr_probs [OF ret] h(3)
  have pr: "f_probs r \<noteq> []" and lr: "last (f_probs r) \<noteq> []"
    by simp_all
  from argmax_row_first_largest [OF lr] h(6)
  have am: "\<exists>k. cw = PyInt (int k) \<and> k < length (last (f_probs r))
                \<and> (\<forall>j<length (last (f_probs r)). last (f_probs r) ! j \<le> last (f_probs r) ! k)
                \<and> (\<forall>j<k. last (f_probs r) ! j < last (f_probs r) ! k)"
    by blast
  show "\<exists>es x y rest fd r.
            epoch_size_of m data = Inr es
          \<and> ptb_iterator env data (m_batch_size m) (m_num_steps m) = Inr ((x, y) # rest)
          \<and> fd = \<lparr> feed_input_data = x, feed_targets = y,
                    feed_initial_state = eval_initial_state env m,
                    feed_weights = replicate (nat (m_batch_size m * m_num_steps m)) 1 \<rparr>
          \<and> r = fst (session_run env (session w) m eval_op fd)
          \<and> run_epoch_loop env m eval_op verbose es (py_enumerate ((x, y) # rest))
               \<lparr> costs = 0, iters = 0, state = eval_initial_state env m,
                 final_chosen_word = PyStr [] \<rparr>
               (emit (PtbIterator data (m_batch_size m) (m_num_steps m)) w)
              = (Inr \<lparr> costs = f_cost r, iters = m_num_steps m, state = f_final_state r,
                       final_chosen_word = cw \<rparr>, w')
          \<and> p = exp (f_cost r / real_of_int (m_num_steps m))
          \<and> cw = PyInt (int (argmax_row (last (f_probs r))))
          \<and> f_probs r \<noteq> []
          \<and> (\<exists>k. cw = PyInt (int k) \<and> k < length (last (f_probs r))
                \<and> (\<forall>j<length (last (f_probs r)). last (f_probs r) ! j \<le> last (f_probs r) ! k)
                \<and> (\<forall>j<k. last (f_probs r) ! j < last (f_probs r) ! k))
          \<and> trace w' = trace w @ [PtbIterator data (m_batch_size m) (m_num_steps m),
                                   SessionRun m eval_op fd]"
    apply (rule exI [of _ es], rule exI [of _ x], rule exI [of _ y], rule exI [of _ rest])
    apply (rule exI [of _ "first_feed env m data"], rule exI [of _ r])
    using h ff pr am by simp
qed

lemmas demo_eval = run_epoch_def epoch_size_of_def py_floordiv_def demo_env_def py_enumerate_def
      run_epoch_body_def np_ones_def run_session_eq demo_session_run_def verbose_progress_def
      last_chosen_word_def np_argmax_axis1_def argmax_row_def py_truediv_def Let_def demo_world_def
      py_mod_def emit_def

lemma unit_model_sizes [simp]: "m_batch_size unit_model = 1" "m_num_steps unit_model = 1"
  by (simp_all add: unit_model_def)

lemma demo_run: "run_epoch (demo_env two_batches) unit_model [1, 3, 5] NoOp False demo_world =
     (Inr (exp 1, PyInt 1),
      demo_world \<lparr> trace := [PtbIterator [1, 3, 5] 1 1,
         SessionRun unit_model NoOp \<lparr> feed_input_data = [[1]], feed_targets = [[3]],
            feed_initial_state = 0, feed_weights = [1] \<rparr>] \<rparr>)"
  by (simp add: demo_eval two_batches_def)

text \<open>The theorem at a reader that yields two batches: only the first is run, and the
  word is the index 1 of the largest entry of the last row of its probabilities.\<close>

theorem run_epoch_first_batch_only_witness:
  "run_epoch (demo_env two_batches) unit_model [1, 3, 5] NoOp False demo_world =
     (Inr (exp 1, PyInt 1),
      demo_world \<lparr> trace := [PtbIterator [1, 3, 5] 1 1,
         SessionRun unit_model NoOp \<lparr> feed_input_data = [[1]], feed_targets = [[3]],
            feed_initial_state = 0, feed_weights = [1] \<rparr>] \<rparr>)
   \<and> session_runs (trace (snd (run_epoch (demo_env two_batches) unit_model [1, 3, 5] NoOp False demo_world))) \<le> 1
   \<and> (\<exists>r. r = fst (session_run (demo_env two_batches) (session demo_world) unit_model NoOp
                 \<lparr> feed_input_data = [[1]], feed_targets = [[3]],
                   feed_initial_state = 0, feed_weights = [1] \<rparr>)
        \<and> exp (1::real) = exp (f_cost r / real_of_int (m_num_steps unit_model))
        \<and> last (f_probs r) = [1 / 4, 1 / 2, 1 / 4])"
  using run_epoch_first_batch_only [of "demo_env two_batches" unit_model "[1, 3, 5]" NoOp False demo_world]
  by (simp add: demo_run) (simp add: demo_env_def demo_world_def demo_session_run_def)


lemma run_epoch_completes:
  assumes it: "ptb_iterator env data (m_batch_size m) (m_num_steps m) = Inr (b # rest)"
    and bs: "0 < m_batch_size m" and ns: "0 < m_num_steps m"
    and es: "epoch_size_of m data = Inr es" and ok: "verbose \<longrightarrow> 10 \<le> es \<or> es < 0"
    and pr: "last_chosen_word (f_probs (fst (session_run env (session w) m eval_op (first_feed env m data)))) = Inr c"
  shows "fst (run_epoch env m data eval_op verbose w) =
     Inr (exp (f_cost (fst (session_run env (session w) m eval_op (first_feed env m data)))
               / real_of_int (m_num_steps m)), PyInt c)"
proof -
  from bs ns have nn: "\<not> m_batch_size m * m_num_steps m < 0"
    by (simp add: mult_less_0_iff)
  have ff: "first_feed env m data = \<lparr> feed_input_data = fst b, feed_targets = snd b,
      feed_initial_state = eval_initial_state env m,
      feed_weights = replicate (nat (m_batch_size m * m_num_steps m)) 1 \<rparr>"
    by (simp add: first_feed_def it case_prod_unfold)
  from ok have d: "\<not> (verbose \<and> es div 10 = 0)"
    by auto
  from ns have n0: "m_num_steps m \<noteq> 0" by simp
  show ?thesis
    using d pr n0
    by (simp add: run_epoch_def es it run_epoch_loop_Cons run_epoch_body_def np_ones_def nn
        run_session_eq verbose_progress_step0 ff [symmetric] Let_def py_truediv_def)
qed


lemma demo_iterator [simp]: "ptb_iterator (demo_env bs) data b n = Inr bs"
  by (simp add: demo_env_def)

lemma epoch_size_of_nonzero:
  "m_batch_size m \<noteq> 0 \<Longrightarrow> m_num_steps m \<noteq> 0 \<Longrightarrow>
     epoch_size_of m data = Inr ((int (length data) div m_batch_size m - 1) div m_num_steps m)"
  by (simp add: epoch_size_of_def py_floordiv_def)








text \<open>
  Claim C1 against the code: on a reader that yields two batches of costs 1 and 3 (one
  step each) \<^verbatim>\<open>run_epoch\<close> returns \<open>exp 1\<close>, the first batch's cost alone, where the
  exponential of the average cost over the data is \<open>exp 2\<close>.
\<close>

theorem run_epoch_drops_later_batches:
  "fst (run_epoch (demo_env two_batches) unit_model [1, 3, 5] NoOp False demo_world) = Inr (exp 1, PyInt 1)
   \<and> perplexity_over_data (demo_env two_batches) unit_model [1, 3, 5] NoOp False demo_world = Inr (exp 2)
   \<and> exp (1::real) \<noteq> exp 2"
  by (simp add: demo_eval two_batches_def perplexity_over_data_def upt_conv_Cons)

text \<open>The unrolling loop from time step \<open>k\<close> on, in closed form.\<close>

lemma unroll_upt:
  assumes "k \<le> n" and "k = 0 \<longrightarrow> rf = reuse"
  shows "unroll c inputs (map int [k..<n]) rf (rnn_state c inputs init reuse k) outs =
     (outs @ map (\<lambda>t. CellOutput c (TimeSlice inputs (int t)) (rnn_state c inputs init reuse t)
                        (reuse \<or> 0 < t)) [k..<n],
      rnn_state c inputs init reuse n)"
  using assms
proof (induction "n - k" arbitrary: k rf outs)
  case 0
  then show ?case by simp
next
  case (Suc d)
  then have lt: "k < n" and d: "d = n - Suc k" by simp_all
  have flag: "(if int k > 0 then True else rf) = (reuse \<or> 0 < k)"
    using Suc.prems(2) by auto
  have step: "unroll c inputs (map int [Suc k..<n]) (reuse \<or> 0 < k)
        (rnn_state c inputs init reuse (Suc k))
        (outs @ [CellOutput c (TimeSlice inputs (int k)) (rnn_state c inputs init reuse k) (reuse \<or> 0 < k)]) =
     ((outs @ [CellOutput c (TimeSlice inputs (int k)) (rnn_state c inputs init reuse k) (reuse \<or> 0 < k)])
        @ map (\<lambda>t. CellOutput c (TimeSlice inputs (int t)) (rnn_state c inputs init reuse t)
                        (reuse \<or> 0 < t)) [Suc k..<n],
      rnn_state c inputs init reuse n)"
    using lt by (intro Suc.hyps(1) d) simp_all
  from lt have "[k..<n] = k # [Suc k..<n]"
    by (simp add: upt_conv_Cons)
  then show ?case
    using step flag by (simp add: Let_def del: of_nat_0_less_iff)
qed

text \<open>
  Claim C9. For every configuration the recurrent core of \<^verbatim>\<open>PTBModel\<close> is a
  \<^verbatim>\<open>MultiRNNCell\<close> of \<^verbatim>\<open>num_layers\<close> copies of a \<^verbatim>\<open>BasicLSTMCell\<close> of \<^verbatim>\<open>hidden_size\<close>
  units, wrapped in dropout exactly when \<^verbatim>\<open>is_training and keep_prob < 1\<close>; the initial
  state is its zero state; the outputs that enter the logits are those of \<^verbatim>\<open>num_steps\<close>
  applications of the cell, step \<open>t\<close> on the slice of the inputs at \<open>t\<close> and on the state
  after \<open>t\<close> steps, every step after the first with variable reuse switched on; the
  final state is the state after \<^verbatim>\<open>num_steps\<close> steps. (A count that is negative gives
  no layer, or no step.)
\<close>

theorem stacked_lstm_unrolled:
  "(let c = MultiRNNCell (replicate (nat (num_layers cfg))
              (if is_training \<and> keep_prob cfg < 1
               then DropoutWrapper (BasicLSTMCell (hidden_size cfg) 0) (keep_prob cfg)
               else BasicLSTMCell (hidden_size cfg) 0));
        M = PTBModel_init is_training cfg reuse;
        inputs = rnn_inputs is_training cfg reuse (m_input_data M);
        init = ZeroState c (batch_size cfg) Float32
    in m_initial_state M = init
     \<and> m_final_state M = rnn_state c inputs init reuse (nat (num_steps cfg))
     \<and> m_logits M =
         Add (MatMul
               (Reshape
                 (Concat 1
                   (map (\<lambda>t. CellOutput c (TimeSlice inputs (int t))
                                (rnn_state c inputs init reuse t) (reuse \<or> 0 < t))
                      [0..<nat (num_steps cfg)]))
                 [- 1, hidden_size cfg])
               (GetVariable ''softmax_w'' [hidden_size cfg, vocab_size cfg] reuse))
             (GetVariable ''softmax_b'' [vocab_size cfg] reuse))"
proof -
  define c where "c = rnn_cell is_training cfg"
  define inputs where "inputs = rnn_inputs is_training cfg reuse (Placeholder Int32 [batch_size cfg, num_steps cfg])"
  define init where "init = ZeroState c (batch_size cfg) Float32"
  have u: "unroll c inputs (py_range (num_steps cfg)) reuse init [] =
     (map (\<lambda>t. CellOutput c (TimeSlice inputs (int t)) (rnn_state c inputs init reuse t)
                        (reuse \<or> 0 < t)) [0..<nat (num_steps cfg)],
      rnn_state c inputs init reuse (nat (num_steps cfg)))"
    using unroll_upt [of 0 "nat (num_steps cfg)" reuse reuse c inputs init "[]"]
    by (simp add: py_range_def)
  have cc: "c = MultiRNNCell (replicate (nat (num_layers cfg))
              (if is_training \<and> keep_prob cfg < 1
               then DropoutWrapper (BasicLSTMCell (hidden_size cfg) 0) (keep_prob cfg)
               else BasicLSTMCell (hidden_size cfg) 0))"
    by (simp add: c_def rnn_cell_def lstm_cell_def)
  have idata: "m_input_data (PTBModel_init is_training cfg reuse) = Placeholder Int32 [batch_size cfg, num_steps cfg]"
    by (simp add: PTBModel_init_def Let_def case_prod_unfold)
  have "m_initial_state (PTBModel_init is_training cfg reuse) = init"
    and "m_final_state (PTBModel_init is_training cfg reuse) = rnn_state c inputs init reuse (nat (num_steps cfg))"
    and "m_logits (PTBModel_init is_training cfg reuse) =
         Add (MatMul
               (Reshape
                 (Concat 1
                   (map (\<lambda>t. CellOutput c (TimeSlice inputs (int t))
                                (rnn_state c inputs init reuse t) (reuse \<or> 0 < t))
                      [0..<nat (num_steps cfg)]))
                 [- 1, hidden_size cfg])
               (GetVariable ''softmax_w'' [hidden_size cfg, vocab_size cfg] reuse))
             (GetVariable ''softmax_b'' [vocab_size cfg] reuse)"
    using u
    by (simp_all add: PTBModel_init_def Let_def c_def [symmetric] inputs_def [symmetric] init_def [symmetric])
  then show ?thesis
    unfolding Let_def idata cc [symmetric] inputs_def [symmetric] init_def [symmetric]
    by simp
qed

text \<open>The small configuration: two plain LSTM layers of 200 units, twenty steps.\<close>

theorem stacked_lstm_unrolled_witness:
  "m_initial_state (PTBModel_init True SmallConfig False)
     = ZeroState (MultiRNNCell [BasicLSTMCell 200 0, BasicLSTMCell 200 0]) 20 Float32
   \<and> m_final_state (PTBModel_init True SmallConfig False)
     = rnn_state (MultiRNNCell [BasicLSTMCell 200 0, BasicLSTMCell 200 0])
         (rnn_inputs True SmallConfig False (m_input_data (PTBModel_init True SmallConfig False)))
         (ZeroState (MultiRNNCell [BasicLSTMCell 200 0, BasicLSTMCell 200 0]) 20 Float32)
         False 20"
  using stacked_lstm_unrolled [of SmallConfig True False]
  by (simp add: Let_def SmallConfig_def numeral_2_eq_2)

text \<open>
  Claim C6. A model built with \<^verbatim>\<open>is_training=True\<close> has the training op that applies,
  by a gradient-descent optimizer on the learning-rate variable, the gradients of the
  cost with respect to the trainable variables clipped by global norm at
  \<^verbatim>\<open>config.max_grad_norm\<close>; a model built with \<^verbatim>\<open>is_training=False\<close> has neither a
  learning-rate variable nor a training op (reading either raises), and a clipped
  gradient is in the model exactly when it is a training model.
\<close>

theorem gradient_clipping_in_training_only:
  "m_train_op (PTBModel_init True cfg reuse) =
      Some (ApplyGradients (GradientDescentOptimizer (Variable 0 False))
              (ClipByGlobalNorm (Gradients (m_cost (PTBModel_init True cfg reuse)) TrainableVariables)
                 (max_grad_norm cfg))
              TrainableVariables)
   \<and> m_lr (PTBModel_init True cfg reuse) = Some (Variable 0 False)
   \<and> m_lr (PTBModel_init False cfg reuse) = None
   \<and> m_train_op (PTBModel_init False cfg reuse) = None
   \<and> lr (PTBModel_init False cfg reuse) = Inl AttributeError
   \<and> train_op (PTBModel_init False cfg reuse) = Inl AttributeError
   \<and> ((\<exists>opt g thr vars. m_train_op (PTBModel_init is_training cfg reuse)
            = Some (ApplyGradients opt (ClipByGlobalNorm g thr) vars)) = is_training)"
  by (cases is_training) (simp_all add: PTBModel_init_def Let_def case_prod_unfold lr_def train_op_def)

text \<open>The small configuration clips at 5.\<close>

theorem gradient_clipping_in_training_only_witness:
  "m_train_op (PTBModel_init True SmallConfig False) =
      Some (ApplyGradients (GradientDescentOptimizer (Variable 0 False))
              (ClipByGlobalNorm (Gradients (m_cost (PTBModel_init True SmallConfig False)) TrainableVariables) 5)
              TrainableVariables)
   \<and> m_train_op (PTBModel_init False SmallConfig True) = None"
  using gradient_clipping_in_training_only [of SmallConfig False True]
    gradient_clipping_in_training_only [of SmallConfig True False]
  by (simp add: SmallConfig_def)

text \<open>
  Claim C3. With \<^verbatim>\<open>generate\<close> false and \<^verbatim>\<open>data_path\<close> given, \<^verbatim>\<open>main\<close> is \<^verbatim>\<open>train()\<close>. With
  \<^verbatim>\<open>generate\<close> given, and the two vocabulary files under \<^verbatim>\<open>model_path_prefix\<close> holding
  JSON documents, \<^verbatim>\<open>main\<close> loads \<^verbatim>\<open>word_to_id.json\<close>, then \<^verbatim>\<open>id_to_word.json\<close>, and is
  \<^verbatim>\<open>generate(word_to_id, id_to_word)\<close> on what it loaded. With neither \<^verbatim>\<open>data_path\<close> nor
  \<^verbatim>\<open>generate\<close> given, \<^verbatim>\<open>main\<close> raises \<^verbatim>\<open>ValueError\<close> and has done nothing.
\<close>

theorem main_dispatch:
  "(\<not> truthy (flag_generate FLAGS) \<and> truthy (flag_data_path FLAGS)
      \<longrightarrow> main env FLAGS w = train env FLAGS w)
   \<and> (truthy (flag_generate FLAGS)
        \<and> os_path_join (flag_model_path_prefix FLAGS) ''word_to_id.json'' = Inr p1
        \<and> os_path_join (flag_model_path_prefix FLAGS) ''id_to_word.json'' = Inr p2
        \<and> files w p1 = Some (JsonFile word_to_id)
        \<and> files w p2 = Some (JsonFile id_to_word)
      \<longrightarrow> main env FLAGS w =
            generate env FLAGS word_to_id id_to_word (emit (JsonLoad p2) (emit (JsonLoad p1) w)))
   \<and> (\<not> truthy (flag_data_path FLAGS) \<and> \<not> truthy (flag_generate FLAGS)
      \<longrightarrow> main env FLAGS w = (Inl ValueError, w))
   \<and> (flag_generate FLAGS = None \<and> flag_data_path FLAGS = None
      \<longrightarrow> main env FLAGS w = (Inl ValueError, w))"
  by (auto simp: main_def open_r_def json_load_def truthy_def)

lemma demo_paths:
  "os_path_join (Some ''out'') ''word_to_id.json'' = Inr ''out/word_to_id.json''"
  "os_path_join (Some ''out'') ''id_to_word.json'' = Inr ''out/id_to_word.json''"
  "os_path_join (Some ''out'') ''ptb.ckpt'' = Inr ''out/ptb.ckpt''"
  by (simp_all add: os_path_join_def)

lemma run_epoch_Inr_world:
  assumes "run_epoch env m data eval_op verbose w = (Inr r, w')"
  shows "trace w' = trace w @ epoch_calls env m data eval_op"
    and "files w' = files w"
    and "np_random w' = np_random w"
    and "session w' = snd (session_run env (session w) m eval_op (first_feed env m data))"
proof -
  obtain p cw where r: "r = (p, cw)" by (cases r)
  from run_epoch_Inr [OF assms [unfolded r]]
  have w': "w' = emit (SessionRun m eval_op (first_feed env m data))
             (emit (PtbIterator data (m_batch_size m) (m_num_steps m)) w
                \<lparr> session := snd (session_run env (session w) m eval_op (first_feed env m data)) \<rparr>)"
    by blast
  show "trace w' = trace w @ epoch_calls env m data eval_op"
    and "files w' = files w"
    and "np_random w' = np_random w"
    and "session w' = snd (session_run env (session w) m eval_op (first_feed env m data))"
    by (simp_all add: w' epoch_calls_def)
qed

lemma save_checkpoint_fields [simp]:
  "trace (save_checkpoint env p w) = trace w @ [SaverSave p]"
  "files (save_checkpoint env p w) = (files w)(p \<mapsto> CheckpointFile (saver_save env (session w)))"
  "session (save_checkpoint env p w) = session w"
  "np_random (save_checkpoint env p w) = np_random w"
  by (simp_all add: save_checkpoint_def)

lemma assign_lr_Inr:
  assumes "assign_lr env m v w = (Inr u, w')"
  shows "trace w' = trace w @ [AssignLr v]" and "files w' = files w" and "np_random w' = np_random w"
  using assms by (auto simp: assign_lr_def split: sum.splits)

lemma train_epoch_Inr:
  assumes "train_epoch env FLAGS tv i w = (Inr u, w')"
  shows "\<exists>training_op ckpt.
      train_op (tv_m tv) = Inr training_op
    \<and> os_path_join (flag_model_path_prefix FLAGS) ''ptb.ckpt'' = Inr ckpt
    \<and> trace w' = trace w @ epoch_steps env FLAGS tv training_op ckpt i
    \<and> files w' = (files w)(ckpt \<mapsto> CheckpointFile (saver_save env (session w')))
    \<and> np_random w' = np_random w"
proof -
  let ?lr = "learning_rate (tv_config tv) * lr_decay (tv_config tv) ^ nat (max (i - max_epoch (tv_config tv)) 0)"
  from assms obtain w1 u1 where a: "assign_lr env (tv_m tv) ?lr w = (Inr u1, w1)"
    by (auto simp: train_epoch_def Let_def split: sum.splits prod.splits)
  from assms a obtain training_op where t: "train_op (tv_m tv) = Inr training_op"
    by (auto simp: train_epoch_def Let_def split: sum.splits prod.splits)
  from assms a t obtain r2 w2 where
    e1: "run_epoch env (tv_m tv) (rd_train_data (tv_raw tv)) training_op True w1 = (Inr r2, w2)"
    by (auto simp: train_epoch_def Let_def split: sum.splits prod.splits)
  from assms a t e1 obtain r3 w3 where
    e2: "run_epoch env (tv_mvalid tv) (rd_valid_data (tv_raw tv)) NoOp False w2 = (Inr r3, w3)"
    by (auto simp: train_epoch_def Let_def split: sum.splits prod.splits)
  from assms a t e1 e2 obtain ckpt where
    p: "os_path_join (flag_model_path_prefix FLAGS) ''ptb.ckpt'' = Inr ckpt"
    and w': "w' = save_checkpoint env ckpt w3"
    by (auto simp: train_epoch_def Let_def split: sum.splits prod.splits)
  have "trace w' = trace w @ epoch_steps env FLAGS tv training_op ckpt i"
    by (simp add: w' run_epoch_Inr_world(1) [OF e2] run_epoch_Inr_world(1) [OF e1]
        assign_lr_Inr(1) [OF a] epoch_steps_def)
  moreover have "files w' = (files w)(ckpt \<mapsto> CheckpointFile (saver_save env (session w')))"
    by (simp add: w' run_epoch_Inr_world(2) [OF e2] run_epoch_Inr_world(2) [OF e1]
        assign_lr_Inr(2) [OF a])
  moreover have "np_random w' = np_random w"
    by (simp add: w' run_epoch_Inr_world(3) [OF e2] run_epoch_Inr_world(3) [OF e1]
        assign_lr_Inr(3) [OF a])
  ultimately show ?thesis using t p by blast
qed

lemma train_loop_Inr:
  assumes "train_loop env FLAGS tv is w = (Inr u, w')" and "is \<noteq> []"
  shows "\<exists>training_op ckpt.
      train_op (tv_m tv) = Inr training_op
    \<and> os_path_join (flag_model_path_prefix FLAGS) ''ptb.ckpt'' = Inr ckpt
    \<and> trace w' = trace w @ concat (map (epoch_steps env FLAGS tv training_op ckpt) is)
    \<and> files w' = (files w)(ckpt \<mapsto> CheckpointFile (saver_save env (session w')))
    \<and> np_random w' = np_random w"
  using assms
proof (induction "is" arbitrary: w)
  case Nil
  then show ?case by simp
next
  case (Cons i rest)
  from Cons.prems(1) obtain u1 w1 where
    ep: "train_epoch env FLAGS tv i w = (Inr u1, w1)"
    and lp: "train_loop env FLAGS tv rest w1 = (Inr u, w')"
    by (auto split: sum.splits prod.splits)
  from train_epoch_Inr [OF ep] obtain training_op ckpt where
    h: "train_op (tv_m tv) = Inr training_op"
       "os_path_join (flag_model_path_prefix FLAGS) ''ptb.ckpt'' = Inr ckpt"
       "trace w1 = trace w @ epoch_steps env FLAGS tv training_op ckpt i"
       "files w1 = (files w)(ckpt \<mapsto> CheckpointFile (saver_save env (session w1)))"
       "np_random w1 = np_random w"
    by blast
  show ?case
  proof (cases "rest = []")
    case True
    with lp have "w' = w1" by simp
    with h True show ?thesis by simp
  next
    case False
    from Cons.IH [OF lp False] h(1,2)
    have "trace w' = trace w1 @ concat (map (epoch_steps env FLAGS tv training_op ckpt) rest)"
      and "files w' = (files w1)(ckpt \<mapsto> CheckpointFile (saver_save env (session w')))"
      and "np_random w' = np_random w1"
      by auto
    with h show ?thesis by simp
  qed
qed


lemma json_dump_fields [simp]:
  "trace (json_dump p j w) = trace w @ [JsonDump p j]"
  "files (json_dump p j w) = (files w)(p \<mapsto> JsonFile j)"
  "session (json_dump p j w) = session w"
  "np_random (json_dump p j w) = np_random w"
  by (simp_all add: json_dump_def)

lemma open_w_fields [simp]:
  "trace (open_w p w) = trace w"
  "files (open_w p w) = (files w)(p \<mapsto> OtherFile)"
  "session (open_w p w) = session w"
  "np_random (open_w p w) = np_random w"
  by (simp_all add: open_w_def)

lemma train_setup_Inr:
  assumes "train_setup env FLAGS w = (Inr tv, w1)"
  shows "\<exists>cfg raw p1 p2.
      get_config FLAGS = Inr cfg
    \<and> ptb_raw_data env (flag_data_path FLAGS) = Inr raw
    \<and> os_path_join (flag_model_path_prefix FLAGS) ''word_to_id.json'' = Inr p1
    \<and> os_path_join (flag_model_path_prefix FLAGS) ''id_to_word.json'' = Inr p2
    \<and> tv = \<lparr> tv_config = cfg, tv_raw = raw, tv_m = PTBModel_init True cfg False,
             tv_mvalid = PTBModel_init False cfg True,
             tv_mtest = PTBModel_init False (cfg \<lparr> batch_size := 1, num_steps := 1 \<rparr>) True \<rparr>
    \<and> trace w1 = trace w @ [ReadRawData (flag_data_path FLAGS),
                             JsonDump p1 (json_of_word_to_id (rd_word_to_id raw)),
                             JsonDump p2 (json_of_id_to_word (rd_id_to_word raw)),
                             InitializeAllVariables]
    \<and> files w1 = (files w)(p1 \<mapsto> JsonFile (json_of_word_to_id (rd_word_to_id raw)),
                            p2 \<mapsto> JsonFile (json_of_id_to_word (rd_id_to_word raw)))
    \<and> session w1 = initialize_all_variables env (init_scale cfg) (new_session env)
    \<and> np_random w1 = np_random w"
  using assms
  by (auto simp: train_setup_def Let_def split: sum.splits)

lemma train_op_training [simp]:
  "train_op (PTBModel_init True cfg reuse) =
     Inr (ApplyGradients (GradientDescentOptimizer (Variable 0 False))
            (ClipByGlobalNorm (Gradients (m_cost (PTBModel_init True cfg reuse)) TrainableVariables)
               (max_grad_norm cfg))
            TrainableVariables)"
  by (simp add: train_op_def PTBModel_init_def Let_def case_prod_unfold)

lemma lr_training [simp]: "lr (PTBModel_init True cfg reuse) = Inr (Variable 0 False)"
  by (simp add: lr_def PTBModel_init_def Let_def case_prod_unfold)

lemma train_epochs_Inr:
  assumes "train_epochs env FLAGS w = (Inr tv, w')"
  shows "\<exists>cfg raw p1 p2 ckpt training_op.
      get_config FLAGS = Inr cfg
    \<and> ptb_raw_data env (flag_data_path FLAGS) = Inr raw
    \<and> os_path_join (flag_model_path_prefix FLAGS) ''word_to_id.json'' = Inr p1
    \<and> os_path_join (flag_model_path_prefix FLAGS) ''id_to_word.json'' = Inr p2
    \<and> os_path_join (flag_model_path_prefix FLAGS) ''ptb.ckpt'' = Inr ckpt
    \<and> train_op (tv_m tv) = Inr training_op
    \<and> tv = \<lparr> tv_config = cfg, tv_raw = raw, tv_m = PTBModel_init True cfg False,
             tv_mvalid = PTBModel_init False cfg True,
             tv_mtest = PTBModel_init False (cfg \<lparr> batch_size := 1, num_steps := 1 \<rparr>) True \<rparr>
    \<and> trace w' = trace w @ [ReadRawData (flag_data_path FLAGS),
                             JsonDump p1 (json_of_word_to_id (rd_word_to_id raw)),
                             JsonDump p2 (json_of_id_to_word (rd_id_to_word raw)),
                             InitializeAllVariables]
                  @ concat (map (epoch_steps env FLAGS tv training_op ckpt) (py_range (max_max_epoch cfg)))
    \<and> (\<forall>p. p \<noteq> ckpt \<longrightarrow> files w' p =
          ((files w)(p1 \<mapsto> JsonFile (json_of_word_to_id (rd_word_to_id raw)),
                     p2 \<mapsto> JsonFile (json_of_id_to_word (rd_id_to_word raw)))) p)
    \<and> (0 < max_max_epoch cfg \<longrightarrow> files w' ckpt = Some (CheckpointFile (saver_save env (session w'))))
    \<and> np_random w' = np_random w"
proof -
  from assms obtain w1 where st: "train_setup env FLAGS w = (Inr tv, w1)"
    by (auto simp: train_epochs_def split: sum.splits prod.splits)
  from assms st obtain u where
    lp: "train_loop env FLAGS tv (py_range (max_max_epoch (tv_config tv))) w1 = (Inr u, w')"
    by (auto simp: train_epochs_def split: sum.splits prod.splits)
  from train_setup_Inr [OF st] obtain cfg raw p1 p2 where
    h: "get_config FLAGS = Inr cfg"
       "ptb_raw_data env (flag_data_path FLAGS) = Inr raw"
       "os_path_join (flag_model_path_prefix FLAGS) ''word_to_id.json'' = Inr p1"
       "os_path_join (flag_model_path_prefix FLAGS) ''id_to_word.json'' = Inr p2"
       "tv = \<lparr> tv_config = cfg, tv_raw = raw, tv_m = PTBModel_init True cfg False,
             tv_mvalid = PTBModel_init False cfg True,
             tv_mtest = PTBModel_init False (cfg \<lparr> batch_size := 1, num_steps := 1 \<rparr>) True \<rparr>"
       "trace w1 = trace w @ [ReadRawData (flag_data_path FLAGS),
                             JsonDump p1 (json_of_word_to_id (rd_word_to_id raw)),
                             JsonDump p2 (json_of_id_to_word (rd_id_to_word raw)),
                             InitializeAllVariables]"
       "files w1 = (files w)(p1 \<mapsto> JsonFile (json_of_word_to_id (rd_word_to_id raw)),
                            p2 \<mapsto> JsonFile (json_of_id_to_word (rd_id_to_word raw)))"
       "np_random w1 = np_random w"
    by blast
  from h(3) obtain prefix where pre: "flag_model_path_prefix FLAGS = Some prefix"
    by (auto simp: os_path_join_def split: option.splits)
  then obtain ckpt where ck: "os_path_join (flag_model_path_prefix FLAGS) ''ptb.ckpt'' = Inr ckpt"
    by (cases "prefix = [] \<or> last prefix = CHR ''/''") (simp_all add: os_path_join_def)
  obtain training_op where t: "train_op (tv_m tv) = Inr training_op"
    by (simp add: h(5))
  have cfg: "tv_config tv = cfg" by (simp add: h(5))
  show ?thesis
  proof (cases "py_range (max_max_epoch cfg) = []")
    case True
    with lp cfg have "w' = w1" by simp
    moreover from True have "\<not> 0 < max_max_epoch cfg"
      by (simp add: py_range_def)
    ultimately show ?thesis
      using h ck t True by simp
  next
    case False
    from train_loop_Inr [OF lp [unfolded cfg] False] t ck
    have "trace w' = trace w1 @ concat (map (epoch_steps env FLAGS tv training_op ckpt) (py_range (max_max_epoch cfg)))"
      and "files w' = (files w1)(ckpt \<mapsto> CheckpointFile (saver_save env (session w')))"
      and "np_random w' = np_random w1"
      by auto
    with h ck t show ?thesis by simp
  qed
qed


lemma train_Inr:
  assumes "train env FLAGS w = (Inr u, w')"
  shows "\<exists>tv w1 r.
      train_epochs env FLAGS w = (Inr tv, w1)
    \<and> run_epoch env (tv_mtest tv) (rd_test_data (tv_raw tv)) NoOp False w1 = (Inr r, w')"
  using assms
  by (auto simp: train_def split: sum.splits prod.splits)

lemma assign_lr_session:
  assumes "assign_lr env m x w = (Inr u, w')" and "lr m = Inr v"
  shows "session w' = session_assign env (session w) v x"
  using assms by (auto simp: assign_lr_def split: sum.splits)

lemma train_epoch_session:
  assumes "train_epoch env FLAGS tv i w = (Inr u, w')"
    and l: "lr (tv_m tv) = Inr v" and t: "train_op (tv_m tv) = Inr training_op"
  shows "session w' = epoch_session env tv v training_op (session w) i"
proof -
  let ?lr = "learning_rate (tv_config tv) * lr_decay (tv_config tv) ^ nat (max (i - max_epoch (tv_config tv)) 0)"
  from assms obtain w1 u1 where a: "assign_lr env (tv_m tv) ?lr w = (Inr u1, w1)"
    by (auto simp: train_epoch_def Let_def split: sum.splits prod.splits)
  from assms a obtain r2 w2 where
    e1: "run_epoch env (tv_m tv) (rd_train_data (tv_raw tv)) training_op True w1 = (Inr r2, w2)"
    by (auto simp: train_epoch_def Let_def split: sum.splits prod.splits)
  from assms a e1 obtain r3 w3 where
    e2: "run_epoch env (tv_mvalid tv) (rd_valid_data (tv_raw tv)) NoOp False w2 = (Inr r3, w3)"
    by (auto simp: train_epoch_def Let_def split: sum.splits prod.splits)
  from assms a e1 e2 obtain ckpt where w': "w' = save_checkpoint env ckpt w3"
    by (auto simp: train_epoch_def Let_def split: sum.splits prod.splits)
  show ?thesis
    by (simp add: w' run_epoch_Inr_world(4) [OF e2] run_epoch_Inr_world(4) [OF e1]
        assign_lr_session [OF a l] epoch_session_def)
qed

lemma train_loop_session:
  assumes "train_loop env FLAGS tv is w = (Inr u, w')"
    and "lr (tv_m tv) = Inr v" and "train_op (tv_m tv) = Inr training_op"
  shows "session w' = foldl (epoch_session env tv v training_op) (session w) is"
  using assms(1)
proof (induction "is" arbitrary: w)
  case Nil
  then show ?case by simp
next
  case (Cons i rest)
  from Cons.prems obtain u1 w1 where
    ep: "train_epoch env FLAGS tv i w = (Inr u1, w1)"
    and lp: "train_loop env FLAGS tv rest w1 = (Inr u, w')"
    by (auto split: sum.splits prod.splits)
  from Cons.IH [OF lp] train_epoch_session [OF ep assms(2,3)] show ?case
    by simp
qed

lemma train_epochs_session:
  assumes "train_epochs env FLAGS w = (Inr tv, w')"
  shows "session w' =
     foldl (epoch_session env tv (Variable 0 False)
              (ApplyGradients (GradientDescentOptimizer (Variable 0 False))
                 (ClipByGlobalNorm (Gradients (m_cost (tv_m tv)) TrainableVariables)
                    (max_grad_norm (tv_config tv)))
                 TrainableVariables))
       (initialize_all_variables env (init_scale (tv_config tv)) (new_session env))
       (map int [0..<nat (max_max_epoch (tv_config tv))])"
proof -
  from assms obtain w1 where st: "train_setup env FLAGS w = (Inr tv, w1)"
    by (auto simp: train_epochs_def split: sum.splits prod.splits)
  from assms st obtain u where
    lp: "train_loop env FLAGS tv (py_range (max_max_epoch (tv_config tv))) w1 = (Inr u, w')"
    by (auto simp: train_epochs_def split: sum.splits prod.splits)
  from train_setup_Inr [OF st] obtain cfg where
    tv: "tv_config tv = cfg" "tv_m tv = PTBModel_init True cfg False"
    and s1: "session w1 = initialize_all_variables env (init_scale cfg) (new_session env)"
    by auto
  have l: "lr (tv_m tv) = Inr (Variable 0 False)"
    by (simp add: tv)
  have t: "train_op (tv_m tv) = Inr (ApplyGradients (GradientDescentOptimizer (Variable 0 False))
                 (ClipByGlobalNorm (Gradients (m_cost (tv_m tv)) TrainableVariables)
                    (max_grad_norm (tv_config tv)))
                 TrainableVariables)"
    by (simp add: tv)
  from train_loop_session [OF lp l t] show ?thesis
    by (simp add: s1 tv py_range_def)
qed

text \<open>
  Claim C4. When \<^verbatim>\<open>train\<close> returns, its calls were, in this order: the reader's
  \<^verbatim>\<open>ptb_raw_data\<close> on \<^verbatim>\<open>data_path\<close> (then the two vocabulary files and the initialisation of
  the variables); for each \<open>i\<close> from 0 to \<^verbatim>\<open>max_max_epoch - 1\<close>, in increasing order, the
  assignment of the learning rate \<^verbatim>\<open>learning_rate * lr_decay ** max(i - max_epoch, 0)\<close>, one
  epoch of the training model on the training data with its training op, one epoch of
  the validation model on the validation data with \<^verbatim>\<open>no_op\<close>, and the saving of the
  checkpoint; and last one epoch of the test model (batch size 1, one step) on the test
  data with \<^verbatim>\<open>no_op\<close>. An epoch is one call of the iterator and one \<^verbatim>\<open>session.run\<close>.
  The steps have their effect on the session in the same order: from the initialised
  variables, each epoch assigns its rate to the variable \<^verbatim>\<open>m.lr\<close>, then makes the
  training run, then the validation run; the checkpoint file holds the session after
  the last epoch, and the session \<^verbatim>\<open>train\<close> leaves is that session after the test run.
\<close>

theorem train_order_of_steps:
  assumes "train env FLAGS w = (Inr (), w')"
  shows "\<exists>cfg raw p1 p2 ckpt.
      get_config FLAGS = Inr cfg
    \<and> ptb_raw_data env (flag_data_path FLAGS) = Inr raw
    \<and> os_path_join (flag_model_path_prefix FLAGS) ''word_to_id.json'' = Inr p1
    \<and> os_path_join (flag_model_path_prefix FLAGS) ''id_to_word.json'' = Inr p2
    \<and> os_path_join (flag_model_path_prefix FLAGS) ''ptb.ckpt'' = Inr ckpt
    \<and> (let m = PTBModel_init True cfg False;
            mvalid = PTBModel_init False cfg True;
            mtest = PTBModel_init False (cfg \<lparr> batch_size := 1, num_steps := 1 \<rparr>) True;
            lr_var = Variable 0 False;
            training_op = ApplyGradients (GradientDescentOptimizer lr_var)
                (ClipByGlobalNorm (Gradients (m_cost m) TrainableVariables) (max_grad_norm cfg))
                TrainableVariables;
            rate = (\<lambda>i. learning_rate cfg * lr_decay cfg ^ nat (max (i - max_epoch cfg) 0));
            epochs = map int [0..<nat (max_max_epoch cfg)];
            epoch = (\<lambda>s i.
                snd (session_run env
                  (snd (session_run env (session_assign env s lr_var (rate i))
                     m training_op (first_feed env m (rd_train_data raw))))
                  mvalid NoOp (first_feed env mvalid (rd_valid_data raw))));
            trained = foldl epoch (initialize_all_variables env (init_scale cfg) (new_session env)) epochs
        in lr m = Inr lr_var
         \<and> train_op m = Inr training_op
         \<and> trace w' = trace w
             @ [ReadRawData (flag_data_path FLAGS),
                JsonDump p1 (json_of_word_to_id (rd_word_to_id raw)),
                JsonDump p2 (json_of_id_to_word (rd_id_to_word raw)),
                InitializeAllVariables]
             @ concat (map (\<lambda>i.
                  [AssignLr (rate i),
                   PtbIterator (rd_train_data raw) (batch_size cfg) (num_steps cfg),
                   SessionRun m training_op (first_feed env m (rd_train_data raw)),
                   PtbIterator (rd_valid_data raw) (batch_size cfg) (num_steps cfg),
                   SessionRun mvalid NoOp (first_feed env mvalid (rd_valid_data raw)),
                   SaverSave ckpt])
                 epochs)
             @ [PtbIterator (rd_test_data raw) 1 1,
                SessionRun mtest NoOp (first_feed env mtest (rd_test_data raw))]
         \<and> session w' = snd (session_run env trained mtest NoOp (first_feed env mtest (rd_test_data raw)))
         \<and> (0 < max_max_epoch cfg \<longrightarrow> files w' ckpt = Some (CheckpointFile (saver_save env trained))))"
proof -
  from train_Inr [OF assms] obtain tv w1 r where
    ep: "train_epochs env FLAGS w = (Inr tv, w1)"
    and te: "run_epoch env (tv_mtest tv) (rd_test_data (tv_raw tv)) NoOp False w1 = (Inr r, w')"
    by blast
  from train_epochs_Inr [OF ep] obtain cfg raw p1 p2 ckpt training_op where
    h: "get_config FLAGS = Inr cfg"
       "ptb_raw_data env (flag_data_path FLAGS) = Inr raw"
       "os_path_join (flag_model_path_prefix FLAGS) ''word_to_id.json'' = Inr p1"
       "os_path_join (flag_model_path_prefix FLAGS) ''id_to_word.json'' = Inr p2"
       "os_path_join (flag_model_path_prefix FLAGS) ''ptb.ckpt'' = Inr ckpt"
    and top: "train_op (tv_m tv) = Inr training_op"
    and tv: "tv = \<lparr> tv_config = cfg, tv_raw = raw, tv_m = PTBModel_init True cfg False,
             tv_mvalid = PTBModel_init False cfg True,
             tv_mtest = PTBModel_init False (cfg \<lparr> batch_size := 1, num_steps := 1 \<rparr>) True \<rparr>"
    and tr: "trace w1 = trace w @ [ReadRawData (flag_data_path FLAGS),
                             JsonDump p1 (json_of_word_to_id (rd_word_to_id raw)),
                             JsonDump p2 (json_of_id_to_word (rd_id_to_word raw)),
                             InitializeAllVariables]
                  @ concat (map (epoch_steps env FLAGS tv training_op ckpt) (py_range (max_max_epoch cfg)))"
    and fl: "0 < max_max_epoch cfg \<longrightarrow> files w1 ckpt = Some (CheckpointFile (saver_save env (session w1)))"
    by blast
  let ?m = "PTBModel_init True cfg False"
  let ?mvalid = "PTBModel_init False cfg True"
  let ?mtest = "PTBModel_init False (cfg \<lparr> batch_size := 1, num_steps := 1 \<rparr>) True"
  let ?op = "ApplyGradients (GradientDescentOptimizer (Variable 0 False))
                (ClipByGlobalNorm (Gradients (m_cost ?m) TrainableVariables) (max_grad_norm cfg))
                TrainableVariables"
  let ?rate = "\<lambda>i. learning_rate cfg * lr_decay cfg ^ nat (max (i - max_epoch cfg) 0)"
  let ?epoch = "\<lambda>s i.
                snd (session_run env
                  (snd (session_run env (session_assign env s (Variable 0 False) (?rate i))
                     ?m ?op (first_feed env ?m (rd_train_data raw))))
                  ?mvalid NoOp (first_feed env ?mvalid (rd_valid_data raw)))"
  let ?trained = "foldl ?epoch (initialize_all_variables env (init_scale cfg) (new_session env))
                    (map int [0..<nat (max_max_epoch cfg)])"
  from top have opv: "training_op = ?op"
    by (simp add: tv)
  have s1: "session w1 = ?trained"
    using train_epochs_session [OF ep]
    by (simp add: tv epoch_session_def [abs_def])
  have sw: "session w' = snd (session_run env ?trained ?mtest NoOp (first_feed env ?mtest (rd_test_data raw)))"
    using run_epoch_Inr_world(4) [OF te] by (simp add: tv s1)
  have fw: "0 < max_max_epoch cfg \<longrightarrow> files w' ckpt = Some (CheckpointFile (saver_save env ?trained))"
    using fl run_epoch_Inr_world(2) [OF te] by (simp add: s1)
  have "trace w' = trace w1 @ epoch_calls env (tv_mtest tv) (rd_test_data (tv_raw tv)) NoOp"
    by (rule run_epoch_Inr_world(1) [OF te])
  then have tw: "trace w' = trace w
             @ [ReadRawData (flag_data_path FLAGS),
                JsonDump p1 (json_of_word_to_id (rd_word_to_id raw)),
                JsonDump p2 (json_of_id_to_word (rd_id_to_word raw)),
                InitializeAllVariables]
             @ concat (map (\<lambda>i.
                  [AssignLr (?rate i),
                   PtbIterator (rd_train_data raw) (batch_size cfg) (num_steps cfg),
                   SessionRun ?m ?op (first_feed env ?m (rd_train_data raw)),
                   PtbIterator (rd_valid_data raw) (batch_size cfg) (num_steps cfg),
                   SessionRun ?mvalid NoOp (first_feed env ?mvalid (rd_valid_data raw)),
                   SaverSave ckpt])
                 (map int [0..<nat (max_max_epoch cfg)]))
             @ [PtbIterator (rd_test_data raw) 1 1,
                SessionRun ?mtest NoOp (first_feed env ?mtest (rd_test_data raw))]"
    by (simp add: tr tv opv epoch_steps_def [abs_def] epoch_calls_def py_range_def)
  show ?thesis
    apply (rule exI [of _ cfg])
    apply (rule exI [of _ raw])
    apply (rule exI [of _ p1])
    apply (rule exI [of _ p2])
    apply (rule exI [of _ ckpt])
    unfolding Let_def
    using h tw sw fw
    by (simp only: lr_training train_op_training simp_thms)
qed


text \<open>Runs in the small environment.\<close>

lemma demo_config [simp]: "get_config demo_flags = Inr TestConfig"
  by (simp add: get_config_def demo_flags_def)

lemma demo_raw_data [simp]: "ptb_raw_data (demo_env bs) (flag_data_path demo_flags) = Inr demo_raw"
  by (simp add: demo_env_def demo_flags_def)

lemma demo_prefix [simp]: "flag_model_path_prefix demo_flags = Some ''out''"
  by (simp add: demo_flags_def)

lemma demo_run_epoch_ok:
  assumes "0 < m_batch_size m" "0 < m_num_steps m"
    and "epoch_size_of m data = Inr es" and "verbose \<longrightarrow> 10 \<le> es \<or> es < 0"
  shows "fst (run_epoch (demo_env two_batches) m data eval_op verbose w) =
      Inr (exp (1 / real_of_int (m_num_steps m)), PyInt 1)"
proof -
  have ff: "first_feed (demo_env two_batches) m data =
      \<lparr> feed_input_data = [[1]], feed_targets = [[3]], feed_initial_state = 0,
        feed_weights = replicate (nat (m_batch_size m * m_num_steps m)) 1 \<rparr>"
    by (simp add: first_feed_def two_batches_def) (simp add: demo_env_def)
  have sr: "fst (session_run (demo_env two_batches) (session w) m eval_op
               (first_feed (demo_env two_batches) m data))
      = \<lparr> f_cost = 1, f_final_state = Suc 0, f_logits = [[1, 0, 0], [0, 2, 1]],
          f_probs = [[1 / 2, 1 / 4, 1 / 4], [1 / 4, 1 / 2, 1 / 4]] \<rparr>"
    by (simp add: ff) (simp add: demo_env_def demo_session_run_def)
  have lc: "last_chosen_word (f_probs (fst (session_run (demo_env two_batches) (session w) m eval_op
               (first_feed (demo_env two_batches) m data)))) = Inr 1"
    by (simp add: sr last_chosen_word_def np_argmax_axis1_def argmax_row_def)
  have it: "ptb_iterator (demo_env two_batches) data (m_batch_size m) (m_num_steps m)
      = Inr (([[1]], [[3]]) # [([[3]], [[5]])])"
    by (simp add: two_batches_def)
  from run_epoch_completes [OF it assms lc] show ?thesis
    by (simp add: sr)
qed

lemma demo_train_ok: "fst (train (demo_env two_batches) demo_flags demo_world) = Inr ()"
proof -
  let ?env = "demo_env two_batches"
  obtain tv w1 where st: "train_setup ?env demo_flags demo_world = (Inr tv, w1)"
    and tv: "tv = \<lparr> tv_config = TestConfig, tv_raw = demo_raw, tv_m = PTBModel_init True TestConfig False,
             tv_mvalid = PTBModel_init False TestConfig True,
             tv_mtest = PTBModel_init False (TestConfig \<lparr> batch_size := 1, num_steps := 1 \<rparr>) True \<rparr>"
    by (simp add: train_setup_def Let_def demo_paths)
  have re: "fst (run_epoch ?env m data eval_op verbose w) \<noteq> Inl e" 
    if "0 < m_batch_size m" "0 < m_num_steps m" "epoch_size_of m data = Inr es" "verbose \<longrightarrow> 10 \<le> es \<or> es < 0"
    for m data eval_op verbose w e es
    using demo_run_epoch_ok [OF that] by simp
  have e1: "\<exists>r w'. run_epoch ?env (tv_m tv) (rd_train_data (tv_raw tv)) eval_op True w = (Inr r, w')" for eval_op w
    using demo_run_epoch_ok [of "tv_m tv" "rd_train_data (tv_raw tv)" 10 True eval_op w]
    by (cases "run_epoch ?env (tv_m tv) (rd_train_data (tv_raw tv)) eval_op True w")
       (simp add: tv TestConfig_def demo_raw_def epoch_size_of_def py_floordiv_def)
  have e2: "\<exists>r w'. run_epoch ?env (tv_mvalid tv) (rd_valid_data (tv_raw tv)) NoOp False w = (Inr r, w')" for w
    using demo_run_epoch_ok [of "tv_mvalid tv" "rd_valid_data (tv_raw tv)" 1 False NoOp w]
    by (cases "run_epoch ?env (tv_mvalid tv) (rd_valid_data (tv_raw tv)) NoOp False w")
       (simp add: tv TestConfig_def demo_raw_def epoch_size_of_def py_floordiv_def)
  have e3: "\<exists>r w'. run_epoch ?env (tv_mtest tv) (rd_test_data (tv_raw tv)) NoOp False w = (Inr r, w')" for w
    using demo_run_epoch_ok [of "tv_mtest tv" "rd_test_data (tv_raw tv)" 2 False NoOp w]
    by (cases "run_epoch ?env (tv_mtest tv) (rd_test_data (tv_raw tv)) NoOp False w")
       (simp add: tv TestConfig_def demo_raw_def epoch_size_of_def py_floordiv_def)
  have ep: "\<exists>w'. train_epoch ?env demo_flags tv i w = (Inr (), w')" for i w
  proof -
    obtain u wa where a: "assign_lr ?env (tv_m tv)
        (learning_rate (tv_config tv) * lr_decay (tv_config tv) ^ nat (max (i - max_epoch (tv_config tv)) 0)) w = (Inr u, wa)"
      by (simp add: assign_lr_def tv)
    from e1 obtain r1 wb where b: "run_epoch ?env (tv_m tv) (rd_train_data (tv_raw tv))
         (ApplyGradients (GradientDescentOptimizer (Variable 0 False))
            (ClipByGlobalNorm (Gradients (m_cost (tv_m tv)) TrainableVariables) (max_grad_norm TestConfig))
            TrainableVariables) True wa = (Inr r1, wb)"
      by blast
    from e2 obtain r2 wc where c: "run_epoch ?env (tv_mvalid tv) (rd_valid_data (tv_raw tv)) NoOp False wb = (Inr r2, wc)"
      by blast
    show ?thesis
      using a b c by (simp add: train_epoch_def Let_def tv demo_paths)
  qed
  have "py_range (max_max_epoch (tv_config tv)) = [0]"
    by (simp add: tv TestConfig_def py_range_def)
  moreover from ep obtain w2 where "train_epoch ?env demo_flags tv 0 w1 = (Inr (), w2)"
    by blast
  ultimately have lp: "train_loop ?env demo_flags tv (py_range (max_max_epoch (tv_config tv))) w1 = (Inr (), w2)"
    by simp
  from e3 obtain r3 w3 where "run_epoch ?env (tv_mtest tv) (rd_test_data (tv_raw tv)) NoOp False w2 = (Inr r3, w3)"
    by blast
  with st lp show ?thesis
    by (simp add: train_def train_epochs_def)
qed


text \<open>Runs in the second environment, on the small configuration: thirteen epochs, the
  learning rate halved from the sixth on.\<close>

lemma small_config [simp]: "get_config small_flags = Inr SmallConfig"
  by (simp add: get_config_def small_flags_def)

lemma small_prefix [simp]: "flag_model_path_prefix small_flags = Some ''out''"
  by (simp add: small_flags_def)

lemma small_data_path [simp]: "flag_data_path small_flags = Some ''data''"
  by (simp add: small_flags_def)

lemma rate_raw_data [simp]: "ptb_raw_data rate_env (Some p) = Inr rate_raw"
  by (simp add: rate_env_def)

lemma rate_iterator:
  "ptb_iterator rate_env data bs ns =
     Inr (replicate (nat ((int (length data) div bs - 1) div ns)) (zero_batch bs ns))"
  by (simp add: rate_env_def)

lemma rate_first_feed:
  assumes "0 < (int (length data) div m_batch_size m - 1) div m_num_steps m"
  shows "first_feed rate_env m data =
     \<lparr> feed_input_data = replicate (nat (m_batch_size m)) (replicate (nat (m_num_steps m)) 0),
       feed_targets = replicate (nat (m_batch_size m)) (replicate (nat (m_num_steps m)) 0),
       feed_initial_state = 0,
       feed_weights = replicate (nat (m_batch_size m * m_num_steps m)) 1 \<rparr>"
proof -
  from assms obtain k where "nat ((int (length data) div m_batch_size m - 1) div m_num_steps m) = Suc k"
    by (cases "nat ((int (length data) div m_batch_size m - 1) div m_num_steps m)") auto
  then show ?thesis
    by (simp add: first_feed_def rate_iterator zero_batch_def) (simp add: rate_env_def)
qed

lemma rate_run_epoch_ok:
  assumes bs: "0 < m_batch_size m" and ns: "0 < m_num_steps m"
    and es: "0 < (int (length data) div m_batch_size m - 1) div m_num_steps m"
    and ok: "verbose \<longrightarrow> 10 \<le> (int (length data) div m_batch_size m - 1) div m_num_steps m"
  shows "\<exists>r w'. run_epoch rate_env m data eval_op verbose w = (Inr r, w')"
proof -
  let ?es = "(int (length data) div m_batch_size m - 1) div m_num_steps m"
  from es obtain k where "nat ?es = Suc k"
    by (cases "nat ?es") auto
  then have it: "ptb_iterator rate_env data (m_batch_size m) (m_num_steps m)
      = Inr (zero_batch (m_batch_size m) (m_num_steps m) # replicate k (zero_batch (m_batch_size m) (m_num_steps m)))"
    by (simp add: rate_iterator)
  have eso: "epoch_size_of m data = Inr ?es"
    using bs ns by (simp add: epoch_size_of_nonzero)
  have lc: "last_chosen_word (f_probs (fst (session_run rate_env (session w) m eval_op
               (first_feed rate_env m data)))) = Inr 1"
    by (simp add: rate_env_def rate_session_run_def last_chosen_word_def np_argmax_axis1_def argmax_row_def)
  from ok have ok': "verbose \<longrightarrow> 10 \<le> ?es \<or> ?es < 0" by simp
  from run_epoch_completes [OF it bs ns eso ok' lc] show ?thesis
    by (cases "run_epoch rate_env m data eval_op verbose w") simp
qed

lemma train_loop_returns:
  assumes "\<And>i w. \<exists>w'. train_epoch env FLAGS tv i w = (Inr (), w')"
  shows "\<exists>w'. train_loop env FLAGS tv is w = (Inr (), w')"
proof (induction "is" arbitrary: w)
  case Nil
  show ?case by simp
next
  case (Cons i rest)
  from assms obtain w1 where "train_epoch env FLAGS tv i w = (Inr (), w1)"
    by blast
  with Cons.IH [of w1] show ?case by simp
qed

lemma rate_train_ok: "fst (train rate_env small_flags rate_world) = Inr ()"
proof -
  let ?env = "rate_env"
  obtain tv w1 where st: "train_setup ?env small_flags rate_world = (Inr tv, w1)"
    and tv: "tv = \<lparr> tv_config = SmallConfig, tv_raw = rate_raw, tv_m = PTBModel_init True SmallConfig False,
             tv_mvalid = PTBModel_init False SmallConfig True,
             tv_mtest = PTBModel_init False (SmallConfig \<lparr> batch_size := 1, num_steps := 1 \<rparr>) True \<rparr>"
    by (simp add: train_setup_def Let_def demo_paths)
  have e1: "\<exists>r w'. run_epoch ?env (tv_m tv) (rd_train_data (tv_raw tv)) eval_op True w = (Inr r, w')" for eval_op w
    by (rule rate_run_epoch_ok) (simp_all add: tv SmallConfig_def rate_raw_def)
  have e2: "\<exists>r w'. run_epoch ?env (tv_mvalid tv) (rd_valid_data (tv_raw tv)) NoOp False w = (Inr r, w')" for w
    by (rule rate_run_epoch_ok) (simp_all add: tv SmallConfig_def rate_raw_def)
  have e3: "\<exists>r w'. run_epoch ?env (tv_mtest tv) (rd_test_data (tv_raw tv)) NoOp False w = (Inr r, w')" for w
    by (rule rate_run_epoch_ok) (simp_all add: tv SmallConfig_def rate_raw_def)
  have ep: "\<exists>w'. train_epoch ?env small_flags tv i w = (Inr (), w')" for i w
  proof -
    obtain u wa where a: "assign_lr ?env (tv_m tv)
        (learning_rate (tv_config tv) * lr_decay (tv_config tv) ^ nat (max (i - max_epoch (tv_config tv)) 0)) w = (Inr u, wa)"
      by (simp add: assign_lr_def tv)
    from e1 obtain r1 wb where b: "run_epoch ?env (tv_m tv) (rd_train_data (tv_raw tv))
         (ApplyGradients (GradientDescentOptimizer (Variable 0 False))
            (ClipByGlobalNorm (Gradients (m_cost (tv_m tv)) TrainableVariables) (max_grad_norm SmallConfig))
            TrainableVariables) True wa = (Inr r1, wb)"
      by blast
    from e2 obtain r2 wc where c: "run_epoch ?env (tv_mvalid tv) (rd_valid_data (tv_raw tv)) NoOp False wb = (Inr r2, wc)"
      by blast
    show ?thesis
      using a b c by (simp add: train_epoch_def Let_def tv demo_paths)
  qed
  from train_loop_returns [of ?env small_flags tv "py_range (max_max_epoch (tv_config tv))" w1, OF ep]
  obtain w2 where lp: "train_loop ?env small_flags tv (py_range (max_max_epoch (tv_config tv))) w1 = (Inr (), w2)"
    by blast
  from e3 obtain r3 w3 where "run_epoch ?env (tv_mtest tv) (rd_test_data (tv_raw tv)) NoOp False w2 = (Inr r3, w3)"
    by blast
  with st lp show ?thesis
    by (simp add: train_def train_epochs_def)
qed

lemma upt_13: "[0..<13] = [0, 1, 2, 3, 4, 5, 6, 7, 8, 9, 10, 11, 12::nat]"
  by (simp add: eval_nat_numeral upt_rec)

theorem train_order_of_steps_witness:
  "fst (train rate_env small_flags rate_world) = Inr ()
   \<and> session (snd (train rate_env small_flags rate_world)) = (1 / 256, 7803 / 1280)
   \<and> files (snd (train rate_env small_flags rate_world)) ''out/ptb.ckpt''
        = Some (CheckpointFile (1 / 256, 7803 / 1280))
   \<and> trace (snd (train rate_env small_flags rate_world)) =
       [ReadRawData (Some ''data''),
        JsonDump ''out/word_to_id.json'' (JObj [(''<bos>'', JInt 0), (''the'', JInt 1)]),
        JsonDump ''out/id_to_word.json'' (JObj [(''0'', JStr ''<bos>''), (''1'', JStr ''the'')]),
        InitializeAllVariables]
       @ concat (map (\<lambda>rate.
           [AssignLr rate,
            PtbIterator (replicate 4020 0) 20 20,
            SessionRun (PTBModel_init True SmallConfig False)
              (ApplyGradients (GradientDescentOptimizer (Variable 0 False))
                (ClipByGlobalNorm
                   (Gradients (m_cost (PTBModel_init True SmallConfig False)) TrainableVariables) 5)
                TrainableVariables)
              \<lparr> feed_input_data = replicate 20 (replicate 20 0),
                feed_targets = replicate 20 (replicate 20 0),
                feed_initial_state = 0, feed_weights = replicate 400 1 \<rparr>,
            PtbIterator (replicate 420 0) 20 20,
            SessionRun (PTBModel_init False SmallConfig True) NoOp
              \<lparr> feed_input_data = replicate 20 (replicate 20 0),
                feed_targets = replicate 20 (replicate 20 0),
                feed_initial_state = 0, feed_weights = replicate 400 1 \<rparr>,
            SaverSave ''out/ptb.ckpt''])
          [1, 1, 1, 1, 1, 1 / 2, 1 / 4, 1 / 8, 1 / 16, 1 / 32, 1 / 64, 1 / 128, 1 / 256])
       @ [PtbIterator (replicate 3 0) 1 1,
          SessionRun (PTBModel_init False (SmallConfig \<lparr> batch_size := 1, num_steps := 1 \<rparr>) True) NoOp
            \<lparr> feed_input_data = [[0]], feed_targets = [[0]],
              feed_initial_state = 0, feed_weights = [1] \<rparr>]"
proof -
  have eq: "train rate_env small_flags rate_world =
      (Inr (), snd (train rate_env small_flags rate_world))"
    using rate_train_ok by (simp add: prod_eq_iff)
  have s0: "py_str 0 = ''0''" and s1: "py_str 1 = ''1''"
    by (simp_all add: py_str_def str_of_nat.simps digit_char_def)
  have f1: "first_feed rate_env (PTBModel_init True SmallConfig False) (replicate 4020 0) =
       \<lparr> feed_input_data = replicate 20 (replicate 20 0),
         feed_targets = replicate 20 (replicate 20 0),
         feed_initial_state = 0, feed_weights = replicate 400 1 \<rparr>"
    by (subst rate_first_feed) (simp_all add: SmallConfig_def)
  have f2: "first_feed rate_env (PTBModel_init False SmallConfig True) (replicate 420 0) =
       \<lparr> feed_input_data = replicate 20 (replicate 20 0),
         feed_targets = replicate 20 (replicate 20 0),
         feed_initial_state = 0, feed_weights = replicate 400 1 \<rparr>"
    by (subst rate_first_feed) (simp_all add: SmallConfig_def)
  have f3: "first_feed rate_env (PTBModel_init False (SmallConfig \<lparr> batch_size := 1, num_steps := 1 \<rparr>) True)
        (replicate 3 0) =
       \<lparr> feed_input_data = [[0]], feed_targets = [[0]],
         feed_initial_state = 0, feed_weights = [1] \<rparr>"
    by (subst rate_first_feed) (simp_all add: SmallConfig_def)
  have sr: "snd (session_run rate_env s m eval_op fd) = (if eval_op = NoOp then s else (fst s, snd s + fst s))"
    for s m eval_op fd
    by (simp add: rate_env_def rate_session_run_def)
  have sa: "session_assign rate_env s v x = (x, snd s)" for s v x
    by (simp add: rate_env_def)
  have si: "initialize_all_variables rate_env x s = (0, x)" "saver_save rate_env s = s" for x s
    by (simp_all add: rate_env_def)
  have cf: "learning_rate SmallConfig = 1" "lr_decay SmallConfig = 1 / 2" "max_epoch SmallConfig = 4"
    "max_max_epoch SmallConfig = 13" "init_scale SmallConfig = 1 / 10" "max_grad_norm SmallConfig = 5"
    "batch_size SmallConfig = 20" "num_steps SmallConfig = 20"
    by (simp_all add: SmallConfig_def)
  have rw: "rd_train_data rate_raw = replicate 4020 0" "rd_valid_data rate_raw = replicate 420 0"
    "rd_test_data rate_raw = replicate 3 0"
    "rd_word_to_id rate_raw = [(''<bos>'', 0), (''the'', 1)]"
    "rd_id_to_word rate_raw = [(0, ''<bos>''), (1, ''the'')]"
    by (simp_all add: rate_raw_def)
  have tr0: "trace rate_world = []"
    by (simp add: rate_world_def)
  from train_order_of_steps [OF eq] rate_train_ok show ?thesis
    by (simp add: Let_def demo_paths)
       (simp add: f1 f2 f3 sr sa si cf rw tr0 upt_13 json_of_word_to_id_def
          json_of_id_to_word_def s0 s1 power_one_over)
qed

lemma sample_chain_0 [simp]: "sample_chain env m s0 0 = s0"
  by (simp add: sample_chain_def)

lemma sample_chain_Suc: "sample_chain env m s0 (Suc k) = sample_next env m (sample_chain env m s0 k)"
  by (simp add: sample_chain_def)

lemma sample_chain_shift: "sample_chain env m (sample_next env m s0) k = sample_chain env m s0 (Suc k)"
  by (simp add: sample_chain_def funpow_swap1)

lemma sample_next_trace:
  "trace (snd (sample_next env m s)) = trace (snd s)
     @ [SessionRun m NoOp (sample_feed (fst (fst s)) (snd (fst s))), RandomChoice 10002 (sample_probs env m s)]"
  by (simp add: sample_next_def run_session_eq Let_def case_prod_unfold)

lemma sample_next_files: "files (snd (sample_next env m s)) = files (snd s)"
  by (simp add: sample_next_def run_session_eq Let_def case_prod_unfold)

text \<open>One pass through the body of the sampling loop that goes on to the next.\<close>

lemma generate_loop_Cons_Inr:
  assumes "generate_loop env m d (i # is) nw st sent w = (Inr sent', w')"
  shows "\<exists>n word.
      random_choice env (np_random (snd (run_session env m NoOp (sample_feed nw st) w))) 10002
          (sample_probs env m ((nw, st), w)) = (Inr n, np_random (snd (sample_next env m ((nw, st), w))))
    \<and> fst (fst (sample_next env m ((nw, st), w))) = n
    \<and> py_getitem d (py_str n) = Inr word
    \<and> generate_loop env m d is n (snd (fst (sample_next env m ((nw, st), w)))) (sent @ [word])
          (snd (sample_next env m ((nw, st), w))) = (Inr sent', w')"
  using assms
  by (auto simp: sample_next_def sample_probs_def run_session_eq Let_def case_prod_unfold
      emit_def prod_eq_iff split: list.splits sum.splits prod.splits)


lemma generate_loop_Inr:
  assumes "generate_loop env m d is nw st sent w = (Inr sent', w')"
  shows "\<exists>ws. sent' = sent @ ws \<and> length ws = length is
     \<and> w' = snd (sample_chain env m ((nw, st), w) (length is))
     \<and> (\<forall>k<length is.
           random_choice env
               (np_random (snd (run_session env m NoOp
                  (sample_feed (fst (fst (sample_chain env m ((nw, st), w) k)))
                               (snd (fst (sample_chain env m ((nw, st), w) k))))
                  (snd (sample_chain env m ((nw, st), w) k)))))
               10002 (sample_probs env m (sample_chain env m ((nw, st), w) k))
             = (Inr (fst (fst (sample_chain env m ((nw, st), w) (Suc k)))),
                np_random (snd (sample_chain env m ((nw, st), w) (Suc k))))
         \<and> py_getitem d (py_str (fst (fst (sample_chain env m ((nw, st), w) (Suc k))))) = Inr (ws ! k))"
  using assms
proof (induction "is" arbitrary: nw st sent w)
  case Nil
  then show ?case by simp
next
  case (Cons i rest)
  let ?s1 = "sample_next env m ((nw, st), w)"
  from generate_loop_Cons_Inr [OF Cons.prems] obtain n word where
    ch: "random_choice env (np_random (snd (run_session env m NoOp (sample_feed nw st) w))) 10002
          (sample_probs env m ((nw, st), w)) = (Inr n, np_random (snd ?s1))"
    and n: "fst (fst ?s1) = n"
    and wd: "py_getitem d (py_str n) = Inr word"
    and rest: "generate_loop env m d rest n (snd (fst ?s1)) (sent @ [word]) (snd ?s1) = (Inr sent', w')"
    by blast
  have s1: "((n, snd (fst ?s1)), snd ?s1) = ?s1"
    using n by (simp add: prod_eq_iff)
  from Cons.IH [OF rest] obtain ws where
    ih: "sent' = (sent @ [word]) @ ws" "length ws = length rest"
        "w' = snd (sample_chain env m ?s1 (length rest))"
        "\<forall>k<length rest.
           random_choice env
               (np_random (snd (run_session env m NoOp
                  (sample_feed (fst (fst (sample_chain env m ?s1 k)))
                               (snd (fst (sample_chain env m ?s1 k))))
                  (snd (sample_chain env m ?s1 k)))))
               10002 (sample_probs env m (sample_chain env m ?s1 k))
             = (Inr (fst (fst (sample_chain env m ?s1 (Suc k)))),
                np_random (snd (sample_chain env m ?s1 (Suc k))))
         \<and> py_getitem d (py_str (fst (fst (sample_chain env m ?s1 (Suc k))))) = Inr (ws ! k)"
    unfolding s1 by blast
  let ?c = "sample_chain env m ((nw, st), w)"
  have step: "random_choice env
               (np_random (snd (run_session env m NoOp
                  (sample_feed (fst (fst (?c k))) (snd (fst (?c k)))) (snd (?c k)))))
               10002 (sample_probs env m (?c k))
             = (Inr (fst (fst (?c (Suc k)))), np_random (snd (?c (Suc k))))
         \<and> py_getitem d (py_str (fst (fst (?c (Suc k))))) = Inr ((word # ws) ! k)"
    if "k < length (i # rest)" for k
  proof (cases k)
    case 0
    with ch n wd show ?thesis
      by (simp add: sample_chain_Suc)
  next
    case (Suc j)
    with that have "j < length rest" by simp
    with ih(4) Suc show ?thesis
      by (simp add: sample_chain_shift)
  qed
  show ?case
    apply (rule exI [of _ "word # ws"])
    using ih(1,2,3) step by (simp add: sample_chain_shift)
qed

lemma run_session_fields [simp]:
  "np_random (snd (run_session env m eval_op fd w)) = np_random w"
  "files (snd (run_session env m eval_op fd w)) = files w"
  "trace (snd (run_session env m eval_op fd w)) = trace w @ [SessionRun m eval_op fd]"
  "session (snd (run_session env m eval_op fd w)) = snd (session_run env (session w) m eval_op fd)"
  by (simp_all add: run_session_eq)

lemma sample_chain_trace:
  "trace (snd (sample_chain env m s0 k)) = trace (snd s0)
     @ concat (map (\<lambda>j. [SessionRun m NoOp (sample_feed (fst (fst (sample_chain env m s0 j)))
                                                  (snd (fst (sample_chain env m s0 j)))),
                          RandomChoice 10002 (sample_probs env m (sample_chain env m s0 j))])
                [0..<k])"
  by (induction k) (simp_all add: sample_chain_Suc sample_next_trace)

lemma sample_chain_files: "files (snd (sample_chain env m s0 k)) = files (snd s0)"
  by (induction k) (simp_all add: sample_chain_Suc sample_next_files)

lemma sample_chain_state:
  "snd (fst (sample_chain env m s0 (Suc k))) =
     f_final_state (fst (run_session env m NoOp
        (sample_feed (fst (fst (sample_chain env m s0 k))) (snd (fst (sample_chain env m s0 k))))
        (snd (sample_chain env m s0 k))))"
  by (simp add: sample_chain_Suc sample_next_def Let_def case_prod_unfold)

lemma json_strings_Inr: "json_strings vs = Inr ss \<Longrightarrow> vs = map JStr ss"
  by (induction vs arbitrary: ss rule: json_strings.induct) (auto split: sum.splits)

lemma restore_checkpoint_Inr:
  assumes "restore_checkpoint env p w = (Inr u, w')"
  shows "\<exists>c. files w p = Some (CheckpointFile c)
     \<and> w' = emit (SaverRestore p) (w \<lparr> session := saver_restore env (session w) c \<rparr>)"
  using assms
  by (auto simp: restore_checkpoint_def split: option.splits file_content.splits)

lemma sample_sentence_Inr:
  assumes "sample_sentence env m word_to_id id_to_word w = (Inr u, w')"
  shows "\<exists>b bos ws.
      py_getitem word_to_id ''<bos>'' = Inr b \<and> py_int env b = Inr bos \<and> length ws = 30
    \<and> (let warm = run_session env m NoOp (sample_feed 0 (eval_initial_state env m)) w;
            s = sample_chain env m ((bos, f_final_state (fst warm)), snd warm)
        in (\<forall>k<30.
               random_choice env (np_random (snd (s k))) 10002 (sample_probs env m (s k))
                 = (Inr (fst (fst (s (Suc k)))), np_random (snd (s (Suc k))))
             \<and> py_getitem id_to_word (py_str (fst (fst (s (Suc k))))) = Inr (JStr (ws ! k)))
         \<and> w' = emit (Print (py_join '' '' ws)) (emit (Print ''SENTENCE:'') (snd (s 30))))"
proof -
  let ?warm = "run_session env m NoOp (sample_feed 0 (eval_initial_state env m)) w"
  from assms obtain b where b: "py_getitem word_to_id ''<bos>'' = Inr b"
    by (auto simp: sample_sentence_def Let_def case_prod_unfold split: sum.splits)
  from assms b obtain bos where bos: "py_int env b = Inr bos"
    by (auto simp: sample_sentence_def Let_def case_prod_unfold split: sum.splits)
  obtain res w2 where
    lp0: "generate_loop env m id_to_word (py_range 30) bos (f_final_state (fst ?warm)) [] (snd ?warm)
          = (res, w2)"
    by (cases "generate_loop env m id_to_word (py_range 30) bos (f_final_state (fst ?warm)) []
          (snd ?warm)") blast
  from assms b bos lp0 obtain sentence where res: "res = Inr sentence"
    by (cases res) (auto simp: sample_sentence_def Let_def case_prod_unfold)
  note lp = lp0 [unfolded res]
  from assms b bos lp obtain ws where
    js: "json_strings sentence = Inr ws"
    and w': "w' = emit (Print (py_join '' '' ws)) (emit (Print ''SENTENCE:'') w2)"
    by (cases "json_strings sentence") (auto simp: sample_sentence_def Let_def case_prod_unfold)
  have len: "length (py_range 30) = 30"
    by (simp add: py_range_def)
  let ?s = "sample_chain env m ((bos, f_final_state (fst ?warm)), snd ?warm)"
  from generate_loop_Inr [OF lp] obtain vs where
    g: "sentence = [] @ vs" "length vs = 30" "w2 = snd (?s 30)"
       "\<forall>k<30.
           random_choice env
               (np_random (snd (run_session env m NoOp
                  (sample_feed (fst (fst (?s k))) (snd (fst (?s k)))) (snd (?s k)))))
               10002 (sample_probs env m (?s k))
             = (Inr (fst (fst (?s (Suc k)))), np_random (snd (?s (Suc k))))
         \<and> py_getitem id_to_word (py_str (fst (fst (?s (Suc k))))) = Inr (vs ! k)"
    unfolding len by blast
  from json_strings_Inr [OF js] g(1) have vs: "vs = map JStr ws" by simp
  with g(2) have lw: "length ws = 30" by simp
  have "\<forall>k<30.
           random_choice env (np_random (snd (?s k))) 10002 (sample_probs env m (?s k))
             = (Inr (fst (fst (?s (Suc k)))), np_random (snd (?s (Suc k))))
         \<and> py_getitem id_to_word (py_str (fst (fst (?s (Suc k))))) = Inr (JStr (ws ! k))"
    using g(4) lw by (simp add: vs)
  with b bos lw w' g(3) show ?thesis
    by (simp add: Let_def) blast
qed


lemma generate_restored:
  assumes "get_config FLAGS = Inr cfg"
    and "os_path_join (flag_model_path_prefix FLAGS) ''ptb.ckpt'' = Inr ckpt"
    and "files w ckpt = Some (CheckpointFile c)"
  shows "generate env FLAGS word_to_id id_to_word w =
     sample_sentence env (PTBModel_init False (cfg \<lparr> num_steps := 1, batch_size := 1 \<rparr>) False)
       word_to_id id_to_word
       (emit (SaverRestore ckpt) (w \<lparr> session := saver_restore env (new_session env) c \<rparr>))"
  using assms
  by (simp add: generate_def Let_def open_r_def restore_checkpoint_def)

lemma generate_Inr:
  assumes "generate env FLAGS word_to_id id_to_word w = (Inr u, w')"
  shows "\<exists>cfg ckpt c.
      get_config FLAGS = Inr cfg
    \<and> os_path_join (flag_model_path_prefix FLAGS) ''ptb.ckpt'' = Inr ckpt
    \<and> files w ckpt = Some (CheckpointFile c)"
proof -
  from assms obtain cfg where cfg: "get_config FLAGS = Inr cfg"
    by (cases "get_config FLAGS") (auto simp: generate_def)
  from assms cfg obtain ckpt where
    ck: "os_path_join (flag_model_path_prefix FLAGS) ''ptb.ckpt'' = Inr ckpt"
    by (cases "os_path_join (flag_model_path_prefix FLAGS) ''ptb.ckpt''")
       (auto simp: generate_def Let_def)
  from assms cfg ck obtain c where "files w ckpt = Some (CheckpointFile c)"
    by (auto simp: generate_def Let_def open_r_def restore_checkpoint_def
        split: option.splits file_content.splits)
  with cfg ck show ?thesis by blast
qed

lemma generate_loop_Cons_probs:
  assumes "generate_loop env m d (i # is) nw st sent w = (Inr sent', w')"
  shows "f_probs (fst (session_run env (session w) m NoOp (sample_feed nw st))) \<noteq> []"
  using assms
  by (auto simp: run_session_eq Let_def case_prod_unfold split: list.splits)

lemma sample_next_session:
  "session (snd (sample_next env m s)) =
     snd (session_run env (session (snd s)) m NoOp (sample_feed (fst (fst s)) (snd (fst s))))"
  by (simp add: sample_next_def run_session_eq Let_def case_prod_unfold)

lemma generate_loop_probs:
  assumes "generate_loop env m d is nw st sent w = (Inr sent', w')"
  shows "\<forall>k<length is.
     f_probs (fst (session_run env (session (snd (sample_chain env m ((nw, st), w) k))) m NoOp
        (sample_feed (fst (fst (sample_chain env m ((nw, st), w) k)))
                     (snd (fst (sample_chain env m ((nw, st), w) k)))))) \<noteq> []"
  using assms
proof (induction "is" arbitrary: nw st sent w)
  case Nil
  then show ?case by simp
next
  case (Cons i rest)
  let ?s1 = "sample_next env m ((nw, st), w)"
  from generate_loop_Cons_Inr [OF Cons.prems] obtain n word where
    n: "fst (fst ?s1) = n"
    and rest: "generate_loop env m d rest n (snd (fst ?s1)) (sent @ [word]) (snd ?s1) = (Inr sent', w')"
    by blast
  have s1: "((n, snd (fst ?s1)), snd ?s1) = ?s1"
    using n by (simp add: prod_eq_iff)
  note ih = Cons.IH [OF rest, unfolded s1]
  show ?case
  proof (intro allI impI)
    fix k assume k: "k < length (i # rest)"
    show "f_probs (fst (session_run env (session (snd (sample_chain env m ((nw, st), w) k))) m NoOp
        (sample_feed (fst (fst (sample_chain env m ((nw, st), w) k)))
                     (snd (fst (sample_chain env m ((nw, st), w) k)))))) \<noteq> []"
    proof (cases k)
      case 0
      with generate_loop_Cons_probs [OF Cons.prems] show ?thesis by simp
    next
      case (Suc j)
      with k have "j < length rest" by simp
      with ih Suc show ?thesis
        by (simp add: sample_chain_shift)
    qed
  qed
qed

lemma py_join_concat:
  "ws \<noteq> [] \<Longrightarrow> py_join sep ws = hd ws @ concat (map (\<lambda>x. sep @ x) (tl ws))"
  by (induction sep ws rule: py_join.induct) simp_all

lemma py_getitem_Inr:
  "py_getitem d k = Inr v \<Longrightarrow> \<exists>kvs. d = JObj kvs \<and> map_of kvs k = Some v"
  by (auto simp: py_getitem_def split: json.splits option.splits)

lemma py_int_Inr:
  "py_int env b = Inr n \<Longrightarrow> b = JInt n \<or> (\<exists>s. b = JStr s \<and> int_of_str env s = Inr n)"
  by (auto simp: py_int_def split: json.splits)

lemma sample_sentence_probs:
  assumes "sample_sentence env m word_to_id id_to_word w = (Inr u, w')"
    and "py_getitem word_to_id ''<bos>'' = Inr b" and "py_int env b = Inr bos"
  shows "\<forall>k<30.
     f_probs (fst (session_run env
        (session (snd (sample_chain env m
           ((bos, f_final_state (fst (run_session env m NoOp (sample_feed 0 (eval_initial_state env m)) w))),
            snd (run_session env m NoOp (sample_feed 0 (eval_initial_state env m)) w)) k))) m NoOp
        (sample_feed
           (fst (fst (sample_chain env m
              ((bos, f_final_state (fst (run_session env m NoOp (sample_feed 0 (eval_initial_state env m)) w))),
               snd (run_session env m NoOp (sample_feed 0 (eval_initial_state env m)) w)) k)))
           (snd (fst (sample_chain env m
              ((bos, f_final_state (fst (run_session env m NoOp (sample_feed 0 (eval_initial_state env m)) w))),
               snd (run_session env m NoOp (sample_feed 0 (eval_initial_state env m)) w)) k)))))) \<noteq> []"
proof -
  let ?warm = "run_session env m NoOp (sample_feed 0 (eval_initial_state env m)) w"
  obtain res w2 where
    lp0: "generate_loop env m id_to_word (py_range 30) bos (f_final_state (fst ?warm)) [] (snd ?warm)
          = (res, w2)"
    by (cases "generate_loop env m id_to_word (py_range 30) bos (f_final_state (fst ?warm)) []
          (snd ?warm)") blast
  from assms lp0 obtain sentence where res: "res = Inr sentence"
    by (cases res) (auto simp: sample_sentence_def Let_def case_prod_unfold)
  have len: "length (py_range 30) = 30"
    by (simp add: py_range_def)
  from generate_loop_probs [OF lp0 [unfolded res]] show ?thesis
    unfolding len .
qed

text \<open>What a returning \<^verbatim>\<open>generate\<close> has done from its first \<^verbatim>\<open>session.run\<close> on, with the
  loop's variables before step \<open>k\<close> as sequences: the word, the RNN state, the state of
  numpy's generator and the session.\<close>

lemma sample_sentence_steps:
  assumes "sample_sentence env m word_to_id id_to_word w0 = (Inr u, w')"
  shows "\<exists>w2i i2w b bos ws word st g s.
      word_to_id = JObj w2i \<and> id_to_word = JObj i2w
    \<and> map_of w2i ''<bos>'' = Some b
    \<and> (b = JInt bos \<or> (\<exists>str. b = JStr str \<and> int_of_str env str = Inr bos))
    \<and> length ws = 30
    \<and> word 0 = bos
    \<and> st 0 = f_final_state (fst (session_run env (session w0) m NoOp
                \<lparr> feed_input_data = [[0]], feed_targets = [[0]],
                  feed_initial_state = eval_initial_state env m, feed_weights = [1] \<rparr>))
    \<and> s 0 = snd (session_run env (session w0) m NoOp
                \<lparr> feed_input_data = [[0]], feed_targets = [[0]],
                  feed_initial_state = eval_initial_state env m, feed_weights = [1] \<rparr>)
    \<and> g 0 = np_random w0
    \<and> (\<forall>k<30.
           f_probs (fst (session_run env (s k) m NoOp
                \<lparr> feed_input_data = [[word k]], feed_targets = [[0]],
                  feed_initial_state = st k, feed_weights = [1] \<rparr>)) \<noteq> []
         \<and> random_choice env (g k) 10002 (hd (f_probs (fst (session_run env (s k) m NoOp
                \<lparr> feed_input_data = [[word k]], feed_targets = [[0]],
                  feed_initial_state = st k, feed_weights = [1] \<rparr>))))
             = (Inr (word (Suc k)), g (Suc k))
         \<and> st (Suc k) = f_final_state (fst (session_run env (s k) m NoOp
                \<lparr> feed_input_data = [[word k]], feed_targets = [[0]],
                  feed_initial_state = st k, feed_weights = [1] \<rparr>))
         \<and> s (Suc k) = snd (session_run env (s k) m NoOp
                \<lparr> feed_input_data = [[word k]], feed_targets = [[0]],
                  feed_initial_state = st k, feed_weights = [1] \<rparr>)
         \<and> map_of i2w (py_str (word (Suc k))) = Some (JStr (ws ! k)))
    \<and> trace w' = trace w0
          @ [SessionRun m NoOp \<lparr> feed_input_data = [[0]], feed_targets = [[0]],
                  feed_initial_state = eval_initial_state env m, feed_weights = [1] \<rparr>]
          @ concat (map (\<lambda>k. [SessionRun m NoOp
                                 \<lparr> feed_input_data = [[word k]], feed_targets = [[0]],
                                   feed_initial_state = st k, feed_weights = [1] \<rparr>,
                               RandomChoice 10002 (hd (f_probs (fst (session_run env (s k) m NoOp
                                 \<lparr> feed_input_data = [[word k]], feed_targets = [[0]],
                                   feed_initial_state = st k, feed_weights = [1] \<rparr>))))])
                     [0..<30])
          @ [Print ''SENTENCE:'', Print (hd ws @ concat (map (\<lambda>x. '' '' @ x) (tl ws)))]
    \<and> session w' = s 30
    \<and> np_random w' = g 30
    \<and> files w' = files w0"
proof -
  define warm where "warm = run_session env m NoOp (sample_feed 0 (eval_initial_state env m)) w0"
  from sample_sentence_Inr [OF assms] obtain b bos ws where
    g: "py_getitem word_to_id ''<bos>'' = Inr b" "py_int env b = Inr bos" "length ws = 30"
    and ch: "\<forall>k<30.
               random_choice env (np_random (snd (sample_chain env m ((bos, f_final_state (fst warm)), snd warm) k)))
                   10002 (sample_probs env m (sample_chain env m ((bos, f_final_state (fst warm)), snd warm) k))
                 = (Inr (fst (fst (sample_chain env m ((bos, f_final_state (fst warm)), snd warm) (Suc k)))),
                    np_random (snd (sample_chain env m ((bos, f_final_state (fst warm)), snd warm) (Suc k))))
             \<and> py_getitem id_to_word
                  (py_str (fst (fst (sample_chain env m ((bos, f_final_state (fst warm)), snd warm) (Suc k)))))
                 = Inr (JStr (ws ! k))"
    and w': "w' = emit (Print (py_join '' '' ws)) (emit (Print ''SENTENCE:'')
                (snd (sample_chain env m ((bos, f_final_state (fst warm)), snd warm) 30)))"
    unfolding Let_def warm_def by blast
  define ch0 where "ch0 = sample_chain env m ((bos, f_final_state (fst warm)), snd warm)"
  define word where "word = (\<lambda>k. fst (fst (ch0 k)))"
  define st where "st = (\<lambda>k. snd (fst (ch0 k)))"
  define gs where "gs = (\<lambda>k. np_random (snd (ch0 k)))"
  define s where "s = (\<lambda>k. session (snd (ch0 k)))"
  let ?feed = "\<lambda>n h. \<lparr> feed_input_data = [[n]], feed_targets = [[0::int]],
                             feed_initial_state = h, feed_weights = [1::real] \<rparr>"
  let ?warm = "session_run env (session w0) m NoOp (?feed 0 (eval_initial_state env m))"
  let ?run = "\<lambda>k. session_run env (s k) m NoOp (?feed (word k) (st k))"
  from py_getitem_Inr [OF g(1)] obtain w2i where
    w2i: "word_to_id = JObj w2i" "map_of w2i ''<bos>'' = Some b"
    by blast
  from ch have "py_getitem id_to_word (py_str (fst (fst (ch0 (Suc 0))))) = Inr (JStr (ws ! 0))"
    by (simp add: ch0_def)
  from py_getitem_Inr [OF this] obtain i2w where i2w: "id_to_word = JObj i2w"
    by blast
  note bi = py_int_Inr [OF g(2)]
  have wf: "fst warm = fst ?warm" "session (snd warm) = snd ?warm" "np_random (snd warm) = np_random w0"
    by (simp_all add: warm_def run_session_eq sample_feed_def)
  have a0: "word 0 = bos" and a1: "st 0 = f_final_state (fst ?warm)" and a2: "s 0 = snd ?warm"
    and a3: "gs 0 = np_random w0"
    by (simp_all add: word_def st_def s_def gs_def ch0_def wf)
  have pr: "\<forall>k<30. f_probs (fst (?run k)) \<noteq> []"
    using sample_sentence_probs [OF assms g(1) g(2)]
    by (simp add: s_def word_def st_def ch0_def warm_def sample_feed_def)
  have sp: "sample_probs env m (ch0 k) = hd (f_probs (fst (?run k)))" for k
    by (simp add: sample_probs_def run_session_eq sample_feed_def s_def word_def st_def)
  have step: "\<forall>k<30.
               f_probs (fst (?run k)) \<noteq> []
             \<and> random_choice env (gs k) 10002 (hd (f_probs (fst (?run k))))
                 = (Inr (word (Suc k)), gs (Suc k))
             \<and> st (Suc k) = f_final_state (fst (?run k))
             \<and> s (Suc k) = snd (?run k)
             \<and> map_of i2w (py_str (word (Suc k))) = Some (JStr (ws ! k))"
  proof (intro allI impI)
    fix k :: nat assume k: "k < 30"
    from ch k have c1: "random_choice env (gs k) 10002 (sample_probs env m (ch0 k))
                 = (Inr (word (Suc k)), gs (Suc k))"
      and c2: "py_getitem id_to_word (py_str (word (Suc k))) = Inr (JStr (ws ! k))"
      by (simp_all add: ch0_def gs_def word_def)
    have c3: "st (Suc k) = f_final_state (fst (?run k))"
      unfolding st_def ch0_def
      by (simp add: sample_chain_state run_session_eq sample_feed_def s_def word_def st_def ch0_def)
    have c4: "s (Suc k) = snd (?run k)"
      unfolding s_def ch0_def
      by (simp add: sample_chain_Suc sample_next_session sample_feed_def s_def word_def st_def ch0_def)
    from c2 have c5: "map_of i2w (py_str (word (Suc k))) = Some (JStr (ws ! k))"
      by (auto simp: i2w py_getitem_def split: option.splits)
    from pr k c1 c3 c4 c5
    show "f_probs (fst (?run k)) \<noteq> []
             \<and> random_choice env (gs k) 10002 (hd (f_probs (fst (?run k))))
                 = (Inr (word (Suc k)), gs (Suc k))
             \<and> st (Suc k) = f_final_state (fst (?run k))
             \<and> s (Suc k) = snd (?run k)
             \<and> map_of i2w (py_str (word (Suc k))) = Some (JStr (ws ! k))"
      by (simp add: sp)
  qed
  from g(3) have ne: "ws \<noteq> []" by auto
  have t1: "trace w' = trace (snd warm)
              @ concat (map (\<lambda>j. [SessionRun m NoOp (sample_feed (fst (fst (ch0 j))) (snd (fst (ch0 j)))),
                                   RandomChoice 10002 (sample_probs env m (ch0 j))])
                         [0..<30])
              @ [Print ''SENTENCE:'', Print (py_join '' '' ws)]"
    by (simp add: w' sample_chain_trace ch0_def)
  have t2: "trace (snd warm) = trace w0 @ [SessionRun m NoOp (?feed 0 (eval_initial_state env m))]"
    by (simp add: warm_def sample_feed_def)
  have t3: "(\<lambda>j. [SessionRun m NoOp (sample_feed (fst (fst (ch0 j))) (snd (fst (ch0 j)))),
                  RandomChoice 10002 (sample_probs env m (ch0 j))])
          = (\<lambda>k. [SessionRun m NoOp (?feed (word k) (st k)),
                   RandomChoice 10002 (hd (f_probs (fst (?run k))))])"
    by (simp add: sp sample_feed_def) (simp add: word_def st_def)
  have tr: "trace w' = trace w0
              @ [SessionRun m NoOp (?feed 0 (eval_initial_state env m))]
              @ concat (map (\<lambda>k. [SessionRun m NoOp (?feed (word k) (st k)),
                                   RandomChoice 10002 (hd (f_probs (fst (?run k))))])
                         [0..<30])
              @ [Print ''SENTENCE:'', Print (hd ws @ concat (map (\<lambda>x. '' '' @ x) (tl ws)))]"
    unfolding t1 t2 t3 py_join_concat [OF ne] by (simp only: append_assoc)
  have e1: "session w' = s 30" and e2: "np_random w' = gs 30"
    by (simp_all add: w' s_def gs_def ch0_def)
  have e3: "files w' = files w0"
    by (simp add: w' sample_chain_files warm_def)
  note facts = w2i i2w bi g(3) a0 a1 a2 a3 step tr e1 e2 e3
  show ?thesis
    apply (rule exI [of _ w2i], rule exI [of _ i2w])
    apply (rule exI [of _ b], rule exI [of _ bos], rule exI [of _ ws])
    apply (rule exI [of _ word], rule exI [of _ st], rule exI [of _ gs], rule exI [of _ s])
    using facts by (intro conjI) assumption+
qed

text \<open>
  Claim C5. When \<^verbatim>\<open>generate\<close> returns, it has restored the checkpoint into a new session,
  made the warm-up run on the input \<^verbatim>\<open>[[0]]\<close>, and then made exactly thirty sampling steps.
  With \<open>word k\<close>, \<open>st k\<close>, \<open>s k\<close> and \<open>g k\<close> the word, the RNN state, the session and the
  state of numpy's generator before step \<open>k\<close>: the first word is
  \<^verbatim>\<open>int(word_to_id["<bos>"])\<close> and the first state the final state of the warm-up run; step
  \<open>k\<close> runs the model on the feed \<^verbatim>\<open>[[word k]]\<close>, \<^verbatim>\<open>np.zeros((1, 1))\<close>, \<open>st k\<close>, \<^verbatim>\<open>np.ones(1)\<close>,
  draws the next word with \<^verbatim>\<open>np.random.choice(10002, p=probs[0])\<close> from the first row of
  the probabilities of that run, takes the final state of that run as the next state, and
  appends \<^verbatim>\<open>id_to_word[str(next_word)]\<close>, a string; the thirty words, joined by single
  spaces, are the last line printed, after \<^verbatim>\<open>SENTENCE:\<close>.
\<close>

theorem generate_thirty_words:
  assumes "generate env FLAGS word_to_id id_to_word w = (Inr (), w')"
  shows "\<exists>cfg ckpt c w2i i2w b bos ws word st g s.
      get_config FLAGS = Inr cfg
    \<and> os_path_join (flag_model_path_prefix FLAGS) ''ptb.ckpt'' = Inr ckpt
    \<and> files w ckpt = Some (CheckpointFile c)
    \<and> word_to_id = JObj w2i \<and> id_to_word = JObj i2w
    \<and> map_of w2i ''<bos>'' = Some b
    \<and> (b = JInt bos \<or> (\<exists>str. b = JStr str \<and> int_of_str env str = Inr bos))
    \<and> length ws = 30
    \<and> (let m = PTBModel_init False (cfg \<lparr> num_steps := 1, batch_size := 1 \<rparr>) False;
            feed = (\<lambda>n h. \<lparr> feed_input_data = [[n]], feed_targets = [[0]],
                             feed_initial_state = h, feed_weights = [1] \<rparr>);
            warm = session_run env (saver_restore env (new_session env) c) m NoOp
                     (feed 0 (eval_initial_state env m));
            run = (\<lambda>k. session_run env (s k) m NoOp (feed (word k) (st k)))
        in word 0 = bos
         \<and> st 0 = f_final_state (fst warm)
         \<and> s 0 = snd warm
         \<and> g 0 = np_random w
         \<and> (\<forall>k<30.
               f_probs (fst (run k)) \<noteq> []
             \<and> random_choice env (g k) 10002 (hd (f_probs (fst (run k))))
                 = (Inr (word (Suc k)), g (Suc k))
             \<and> st (Suc k) = f_final_state (fst (run k))
             \<and> s (Suc k) = snd (run k)
             \<and> map_of i2w (py_str (word (Suc k))) = Some (JStr (ws ! k)))
         \<and> trace w' = trace w
              @ [SaverRestore ckpt, SessionRun m NoOp (feed 0 (eval_initial_state env m))]
              @ concat (map (\<lambda>k. [SessionRun m NoOp (feed (word k) (st k)),
                                   RandomChoice 10002 (hd (f_probs (fst (run k))))])
                         [0..<30])
              @ [Print ''SENTENCE:'', Print (hd ws @ concat (map (\<lambda>x. '' '' @ x) (tl ws)))]
         \<and> session w' = s 30
         \<and> np_random w' = g 30
         \<and> files w' = files w)"
proof -
  from generate_Inr [OF assms] obtain cfg ckpt c where
    h: "get_config FLAGS = Inr cfg"
       "os_path_join (flag_model_path_prefix FLAGS) ''ptb.ckpt'' = Inr ckpt"
       "files w ckpt = Some (CheckpointFile c)"
    by blast
  define m where "m = PTBModel_init False (cfg \<lparr> num_steps := 1, batch_size := 1 \<rparr>) False"
  define w0 where "w0 = emit (SaverRestore ckpt) (w \<lparr> session := saver_restore env (new_session env) c \<rparr>)"
  from assms generate_restored [OF h]
  have ss: "sample_sentence env m word_to_id id_to_word w0 = (Inr (), w')"
    by (simp add: m_def w0_def)
  have f0: "session w0 = saver_restore env (new_session env) c" "np_random w0 = np_random w"
    "files w0 = files w"
    by (simp_all add: w0_def)
  have f1: "trace w0 = trace w @ [SaverRestore ckpt]"
    by (simp add: w0_def)
  let ?feed = "\<lambda>n h. \<lparr> feed_input_data = [[n]], feed_targets = [[0::int]],
                             feed_initial_state = h, feed_weights = [1::real] \<rparr>"
  from sample_sentence_steps [OF ss, unfolded f0] obtain w2i i2w b bos ws word st g s where
    k: "word_to_id = JObj w2i" "id_to_word = JObj i2w"
       "map_of w2i ''<bos>'' = Some b"
       "b = JInt bos \<or> (\<exists>str. b = JStr str \<and> int_of_str env str = Inr bos)"
       "length ws = 30"
       "word 0 = bos"
       "st 0 = f_final_state (fst (session_run env (saver_restore env (new_session env) c) m NoOp
                (?feed 0 (eval_initial_state env m))))"
       "s 0 = snd (session_run env (saver_restore env (new_session env) c) m NoOp
                (?feed 0 (eval_initial_state env m)))"
       "g 0 = np_random w"
       "\<forall>k<30.
           f_probs (fst (session_run env (s k) m NoOp (?feed (word k) (st k)))) \<noteq> []
         \<and> random_choice env (g k) 10002
               (hd (f_probs (fst (session_run env (s k) m NoOp (?feed (word k) (st k))))))
             = (Inr (word (Suc k)), g (Suc k))
         \<and> st (Suc k) = f_final_state (fst (session_run env (s k) m NoOp (?feed (word k) (st k))))
         \<and> s (Suc k) = snd (session_run env (s k) m NoOp (?feed (word k) (st k)))
         \<and> map_of i2w (py_str (word (Suc k))) = Some (JStr (ws ! k))"
    and tr0: "trace w' = trace w0
          @ [SessionRun m NoOp (?feed 0 (eval_initial_state env m))]
          @ concat (map (\<lambda>k. [SessionRun m NoOp (?feed (word k) (st k)),
                               RandomChoice 10002
                                 (hd (f_probs (fst (session_run env (s k) m NoOp (?feed (word k) (st k))))))])
                     [0..<30])
          @ [Print ''SENTENCE:'', Print (hd ws @ concat (map (\<lambda>x. '' '' @ x) (tl ws)))]"
    and e: "session w' = s 30" "np_random w' = g 30" "files w' = files w"
    by blast
  have ap: "(xs @ [x]) @ [y] @ ys = xs @ [x, y] @ ys" for xs ys :: "'b event list" and x y
    by simp
  have tr: "trace w' = trace w
          @ [SaverRestore ckpt, SessionRun m NoOp (?feed 0 (eval_initial_state env m))]
          @ concat (map (\<lambda>k. [SessionRun m NoOp (?feed (word k) (st k)),
                               RandomChoice 10002
                                 (hd (f_probs (fst (session_run env (s k) m NoOp (?feed (word k) (st k))))))])
                     [0..<30])
          @ [Print ''SENTENCE:'', Print (hd ws @ concat (map (\<lambda>x. '' '' @ x) (tl ws)))]"
    unfolding tr0 f1 by (rule ap)
  note facts = h k tr e
  show ?thesis
    apply (rule exI [of _ cfg], rule exI [of _ ckpt], rule exI [of _ c])
    apply (rule exI [of _ w2i], rule exI [of _ i2w])
    apply (rule exI [of _ b], rule exI [of _ bos], rule exI [of _ ws])
    apply (rule exI [of _ word], rule exI [of _ st], rule exI [of _ g], rule exI [of _ s])
    unfolding Let_def
    using facts [unfolded m_def] by (intro conjI) assumption+
qed

lemmas train_eval = train_def train_epochs_def train_setup_def train_epoch_def assign_lr_def
  save_checkpoint_def json_dump_def open_w_def demo_paths demo_flags_def get_config_def
  first_feed_def

lemma demo_trained_fields:
  "fst (train (demo_env two_batches) demo_flags demo_world) = Inr ()"
  "files demo_trained_world =
     [''out/word_to_id.json'' \<mapsto> JsonFile (JObj [(''<bos>'', JInt 0), (''the'', JInt 1)]),
      ''out/id_to_word.json'' \<mapsto> JsonFile (JObj [(''0'', JStr ''<bos>''), (''1'', JStr ''the'')]),
      ''out/ptb.ckpt'' \<mapsto> CheckpointFile 2]"
  "session demo_trained_world = 2"
  "np_random demo_trained_world = 0"
  unfolding demo_trained_world_def
  by (simp_all add: train_eval demo_eval two_batches_def TestConfig_def demo_raw_def py_range_def
      json_of_word_to_id_def json_of_id_to_word_def py_str_def str_of_nat.simps digit_char_def)


lemma py_str_01: "py_str 0 = ''0''" "py_str 1 = ''1''"
  by (simp_all add: py_str_def str_of_nat.simps digit_char_def)

lemma demo_choice: "random_choice (demo_env bs) g n p = (Inr (int (g mod 2)), Suc g)"
  by (simp add: demo_env_def)

lemma demo_lookup:
  "py_getitem demo_id_to_word (py_str (int (g mod 2))) =
     Inr (JStr (if g mod 2 = 0 then ''<bos>'' else ''the''))"
proof -
  have "g mod 2 = 0 \<or> g mod 2 = 1" by arith
  then show ?thesis
    by (auto simp: py_getitem_def demo_id_to_word_def py_str_01)
qed

lemma json_strings_map [simp]: "json_strings (map JStr ss) = Inr ss"
  by (induction ss) simp_all

lemma demo_generate_loop:
  "\<exists>ws w'. generate_loop (demo_env bs) m demo_id_to_word is nw st (map JStr ss) w
      = (Inr (map JStr ws), w')"
proof (induction "is" arbitrary: nw st ss w)
  case Nil
  show ?case by auto
next
  case (Cons i rest)
  have pr: "f_probs (fst (session_run (demo_env bs) s m NoOp fd))
      = [[1 / 2, 1 / 4, 1 / 4], [1 / 4, 1 / 2, 1 / 4]]" for s fd
    by (simp add: demo_env_def demo_session_run_def)
  have app: "map JStr ss @ [JStr x] = map JStr (ss @ [x])" for x
    by simp
  show ?case
    by (simp add: run_session_eq pr demo_choice demo_lookup Let_def app Cons.IH
        del: map_append)
qed

lemma demo_generate_sentence:
  "fst (generate (demo_env two_batches) demo_generate_flags demo_word_to_id demo_id_to_word
         demo_trained_world) = Inr ()"
proof -
  let ?env = "demo_env two_batches"
  let ?m = "PTBModel_init False (TestConfig \<lparr> num_steps := 1, batch_size := 1 \<rparr>) False"
  have cfg: "get_config demo_generate_flags = Inr TestConfig"
    by (simp add: get_config_def demo_generate_flags_def)
  have ck: "os_path_join (flag_model_path_prefix demo_generate_flags) ''ptb.ckpt'' = Inr ''out/ptb.ckpt''"
    by (simp add: demo_generate_flags_def demo_paths)
  have fl: "files demo_trained_world ''out/ptb.ckpt'' = Some (CheckpointFile 2)"
    by (simp add: demo_trained_fields)
  have bos: "py_getitem demo_word_to_id ''<bos>'' = Inr (JInt 0)"
    by (simp add: py_getitem_def demo_word_to_id_def)
  have "fst (sample_sentence ?env ?m demo_word_to_id demo_id_to_word w) = Inr ()" for w
  proof -
    let ?warm = "run_session ?env ?m NoOp (sample_feed 0 (eval_initial_state ?env ?m)) w"
    from demo_generate_loop [of two_batches ?m "py_range 30" 0 "f_final_state (fst ?warm)" "[]" "snd ?warm"]
    obtain ws w' where "generate_loop ?env ?m demo_id_to_word (py_range 30) 0
        (f_final_state (fst ?warm)) [] (snd ?warm) = (Inr (map JStr ws), w')"
      by auto
    then show ?thesis
      by (simp add: sample_sentence_def bos py_int_def Let_def case_prod_unfold)
  qed
  then show ?thesis
    by (simp add: generate_restored [OF cfg ck fl])
qed


lemma demo_session_run:
  "session_run (demo_env bs) x m NoOp fd =
      (\<lparr> f_cost = real_of_int (sum_list (concat (feed_input_data fd))),
         f_final_state = Suc (feed_initial_state fd),
         f_logits = [[1, 0, 0], [0, 2, 1]],
         f_probs = [[1 / 2, 1 / 4, 1 / 4], [1 / 4, 1 / 2, 1 / 4]] \<rparr>, x)"
  by (simp add: demo_env_def demo_session_run_def)

lemma demo_restore: "saver_restore (demo_env bs) x y = y" "eval_initial_state (demo_env bs) m = 0"
  by (simp_all add: demo_env_def)

lemma upt_30: "[0..<30] = [0, 1, 2, 3, 4, 5, 6, 7, 8, 9, 10, 11, 12, 13, 14, 15, 16, 17, 18, 19,
    20, 21, 22, 23, 24, 25, 26, 27, 28, 29::nat]"
  by (simp add: eval_nat_numeral upt_rec)

text \<open>The sampling in the small environment: the random choice alternates between the
  ids 0 and 1, so the words alternate between \<^verbatim>\<open><bos>\<close> and \<^verbatim>\<open>the\<close>; each step is fed the
  word sampled in the step before (the first the id of \<^verbatim>\<open><bos>\<close>) and a state one larger
  than the step before.\<close>

lemma demo_sampled_words:
  fixes word :: "nat \<Rightarrow> int" and st g :: "nat \<Rightarrow> nat"
  assumes len: "length ws = 30" and w0: "word 0 = 0" and g0: "g 0 = 0" and st0: "st 0 = Suc 0"
    and wS: "\<And>k. k < 30 \<Longrightarrow> word (Suc k) = int (g k mod 2)"
    and gS: "\<And>k. k < 30 \<Longrightarrow> g (Suc k) = Suc (g k)"
    and stS: "\<And>k. k < 30 \<Longrightarrow> st (Suc k) = Suc (st k)"
    and look: "\<And>k. k < 30 \<Longrightarrow>
        map_of [(''0'', JStr ''<bos>''), (''1'', JStr ''the'')] (py_str (word (Suc k))) = Some (JStr (ws ! k))"
  shows "hd ws @ concat (map (\<lambda>x. '' '' @ x) (tl ws)) = ''<bos> the <bos> the <bos> the <bos> the <bos> the <bos> the <bos> the <bos> the <bos> the <bos> the <bos> the <bos> the <bos> the <bos> the <bos> the''"
    and "map (\<lambda>k. f (word k) (st k)) [0..<30] = map (\<lambda>(n, h). f n h)
           [(0, 1), (0, 2), (1, 3), (0, 4), (1, 5), (0, 6), (1, 7), (0, 8), (1, 9), (0,
            10), (1, 11), (0, 12), (1, 13), (0, 14), (1, 15), (0, 16), (1, 17), (0, 18),
            (1, 19), (0, 20), (1, 21), (0, 22), (1, 23), (0, 24), (1, 25), (0, 26), (1,
            27), (0, 28), (1, 29), (0, 30)]"
    and "g 30 = 30"
proof -
  have gk: "k \<le> 30 \<Longrightarrow> g k = k \<and> st k = Suc k" for k
  proof (induction k)
    case 0
    show ?case by (simp add: g0 st0)
  next
    case (Suc k)
    then have "k < 30" "g k = k \<and> st k = Suc k" by simp_all
    with gS [of k] stS [of k] show ?case by simp
  qed
  have wk: "word k = (if k = 0 then 0 else int ((k - 1) mod 2))" if "k < 30" for k
  proof (cases k)
    case 0
    then show ?thesis by (simp add: w0)
  next
    case (Suc j)
    with that have "j < 30" by simp
    with wS [of j] gk [of j] Suc show ?thesis by simp
  qed
  have wsk: "ws ! k = (if k mod 2 = 0 then ''<bos>'' else ''the'')" if "k < 30" for k
  proof -
    from wS [OF that] have a: "word (Suc k) = int (g k mod 2)" .
    note b = look [OF that]
    from gk [of k] that have c: "g k = k" by simp
    have "k mod 2 = 0 \<or> k mod 2 = 1" by arith
    then show ?thesis
      using b unfolding a c by (auto simp: py_str_01)
  qed
  have ws: "ws = map (\<lambda>k. if k mod 2 = 0 then ''<bos>'' else ''the'') [0..<30]"
    by (rule nth_equalityI) (simp_all add: len wsk)
  show "hd ws @ concat (map (\<lambda>x. '' '' @ x) (tl ws)) = ''<bos> the <bos> the <bos> the <bos> the <bos> the <bos> the <bos> the <bos> the <bos> the <bos> the <bos> the <bos> the <bos> the <bos> the <bos> the''"
    unfolding ws upt_30 by simp
  have m1: "map (\<lambda>k. f (word k) (st k)) [0..<30]
      = map (\<lambda>k. f (if k = 0 then 0 else int ((k - 1) mod 2)) (k + 1)) [0..<30]"
    by (rule map_cong [OF refl]) (simp add: wk gk)
  have m2: "map (\<lambda>k. f (if k = 0 then 0 else int ((k - 1) mod 2)) (k + 1)) [0..<30]
      = map (\<lambda>(n, h). f n h)
           [(0, 1), (0, 2), (1, 3), (0, 4), (1, 5), (0, 6), (1, 7), (0, 8), (1, 9), (0,
            10), (1, 11), (0, 12), (1, 13), (0, 14), (1, 15), (0, 16), (1, 17), (0, 18),
            (1, 19), (0, 20), (1, 21), (0, 22), (1, 23), (0, 24), (1, 25), (0, 26), (1,
            27), (0, 28), (1, 29), (0, 30)]"
    unfolding upt_30 by (simp add: numeral_2_eq_2 [symmetric])
  show "map (\<lambda>k. f (word k) (st k)) [0..<30] = map (\<lambda>(n, h). f n h)
           [(0, 1), (0, 2), (1, 3), (0, 4), (1, 5), (0, 6), (1, 7), (0, 8), (1, 9), (0,
            10), (1, 11), (0, 12), (1, 13), (0, 14), (1, 15), (0, 16), (1, 17), (0, 18),
            (1, 19), (0, 20), (1, 21), (0, 22), (1, 23), (0, 24), (1, 25), (0, 26), (1,
            27), (0, 28), (1, 29), (0, 30)]"
    unfolding m1 m2 ..
  from gk [of 30] show "g 30 = 30" by simp
qed

text \<open>Generation in the small environment, from the world its training left.\<close>

theorem generate_thirty_words_witness:
  "fst (generate (demo_env two_batches) demo_generate_flags demo_word_to_id demo_id_to_word
         demo_trained_world) = Inr ()
   \<and> trace (snd (generate (demo_env two_batches) demo_generate_flags demo_word_to_id
                  demo_id_to_word demo_trained_world)) =
       trace demo_trained_world
       @ [SaverRestore ''out/ptb.ckpt'',
          SessionRun (PTBModel_init False (TestConfig \<lparr> num_steps := 1, batch_size := 1 \<rparr>) False) NoOp
            \<lparr> feed_input_data = [[0]], feed_targets = [[0]], feed_initial_state = 0,
              feed_weights = [1] \<rparr>]
       @ concat (map (\<lambda>(n, h).
           [SessionRun (PTBModel_init False (TestConfig \<lparr> num_steps := 1, batch_size := 1 \<rparr>) False) NoOp
              \<lparr> feed_input_data = [[n]], feed_targets = [[0]], feed_initial_state = h,
                feed_weights = [1] \<rparr>,
            RandomChoice 10002 [1 / 2, 1 / 4, 1 / 4]])
           [(0, 1), (0, 2), (1, 3), (0, 4), (1, 5), (0, 6), (1, 7), (0, 8), (1, 9), (0,
            10), (1, 11), (0, 12), (1, 13), (0, 14), (1, 15), (0, 16), (1, 17), (0, 18),
            (1, 19), (0, 20), (1, 21), (0, 22), (1, 23), (0, 24), (1, 25), (0, 26), (1,
            27), (0, 28), (1, 29), (0, 30)])
       @ [Print ''SENTENCE:'',
          Print ''<bos> the <bos> the <bos> the <bos> the <bos> the <bos> the <bos> the <bos> the <bos> the <bos> the <bos> the <bos> the <bos> the <bos> the <bos> the'']
   \<and> session (snd (generate (demo_env two_batches) demo_generate_flags demo_word_to_id
                  demo_id_to_word demo_trained_world)) = 2
   \<and> np_random (snd (generate (demo_env two_batches) demo_generate_flags demo_word_to_id
                  demo_id_to_word demo_trained_world)) = 30"
proof -
  let ?env = "demo_env two_batches"
  let ?g = "generate ?env demo_generate_flags demo_word_to_id demo_id_to_word demo_trained_world"
  let ?m = "PTBModel_init False (TestConfig \<lparr> num_steps := 1, batch_size := 1 \<rparr>) False"
  let ?feed = "\<lambda>n h. \<lparr> feed_input_data = [[n]], feed_targets = [[0::int]],
                             feed_initial_state = h, feed_weights = [1::real] \<rparr>"
  have eq: "?g = (Inr (), snd ?g)"
    using demo_generate_sentence by (simp add: prod_eq_iff)
  have gc: "get_config demo_generate_flags = Inr TestConfig"
    by (simp add: get_config_def demo_generate_flags_def)
  have gp: "os_path_join (flag_model_path_prefix demo_generate_flags) ''ptb.ckpt'' = Inr ''out/ptb.ckpt''"
    by (simp add: demo_generate_flags_def demo_paths)
  have fl: "files demo_trained_world ''out/ptb.ckpt'' = Some (CheckpointFile 2)"
    by (simp add: demo_trained_fields)
  from generate_thirty_words [OF eq] obtain ws word st g s where
    len: "length ws = 30"
    and w0: "word 0 = 0" and st0: "st 0 = Suc 0" and s0: "s 0 = 2" and g0: "g 0 = 0"
    and step: "\<forall>k<30. word (Suc k) = int (g k mod 2) \<and> g (Suc k) = Suc (g k)
         \<and> st (Suc k) = Suc (st k) \<and> s (Suc k) = s k
         \<and> map_of [(''0'', JStr ''<bos>''), (''1'', JStr ''the'')] (py_str (word (Suc k)))
              = Some (JStr (ws ! k))"
    and tr: "trace (snd ?g) = trace demo_trained_world
              @ [SaverRestore ''out/ptb.ckpt'', SessionRun ?m NoOp (?feed 0 0)]
              @ concat (map (\<lambda>k. [SessionRun ?m NoOp (?feed (word k) (st k)),
                                   RandomChoice 10002 [1 / 2, 1 / 4, 1 / 4]])
                         [0..<30])
              @ [Print ''SENTENCE:'', Print (hd ws @ concat (map (\<lambda>x. '' '' @ x) (tl ws)))]"
    and fin: "session (snd ?g) = s 30" "np_random (snd ?g) = g 30"
    unfolding Let_def gc gp
    by (auto simp: fl demo_session_run demo_restore demo_choice demo_word_to_id_def demo_id_to_word_def
        demo_trained_fields simp del: append.simps)
  have sk: "k \<le> 30 \<Longrightarrow> s k = 2" for k
  proof (induction k)
    case 0
    show ?case by (simp add: s0)
  next
    case (Suc k)
    then have "k < 30" "s k = 2" by simp_all
    with step show ?case by simp
  qed
  note dw = demo_sampled_words [of ws word g st, OF len w0 g0 st0]
  have d1: "hd ws @ concat (map (\<lambda>x. '' '' @ x) (tl ws)) = ''<bos> the <bos> the <bos> the <bos> the <bos> the <bos> the <bos> the <bos> the <bos> the <bos> the <bos> the <bos> the <bos> the <bos> the <bos> the''"
    using step by (intro dw(1)) blast+
  have d2: "map (\<lambda>k. [SessionRun ?m NoOp (?feed (word k) (st k)),
                       RandomChoice 10002 [1 / 2, 1 / 4, 1 / 4]]) [0..<30]
      = map (\<lambda>(n, h). [SessionRun ?m NoOp (?feed n h), RandomChoice 10002 [1 / 2, 1 / 4, 1 / 4]])
           [(0, 1), (0, 2), (1, 3), (0, 4), (1, 5), (0, 6), (1, 7), (0, 8), (1, 9), (0,
            10), (1, 11), (0, 12), (1, 13), (0, 14), (1, 15), (0, 16), (1, 17), (0, 18),
            (1, 19), (0, 20), (1, 21), (0, 22), (1, 23), (0, 24), (1, 25), (0, 26), (1,
            27), (0, 28), (1, 29), (0, 30)]"
    using step
    by (intro dw(2) [where f = "\<lambda>n h. [SessionRun ?m NoOp (?feed n h),
                       RandomChoice 10002 [1 / 2, 1 / 4, 1 / 4]]"]) blast+
  have d3: "g 30 = 30"
    using step by (intro dw(3)) blast+
  from tr have "trace (snd ?g) = trace demo_trained_world
       @ [SaverRestore ''out/ptb.ckpt'', SessionRun ?m NoOp (?feed 0 0)]
       @ concat (map (\<lambda>(n, h). [SessionRun ?m NoOp (?feed n h), RandomChoice 10002 [1 / 2, 1 / 4, 1 / 4]])
           [(0, 1), (0, 2), (1, 3), (0, 4), (1, 5), (0, 6), (1, 7), (0, 8), (1, 9), (0,
            10), (1, 11), (0, 12), (1, 13), (0, 14), (1, 15), (0, 16), (1, 17), (0, 18),
            (1, 19), (0, 20), (1, 21), (0, 22), (1, 23), (0, 24), (1, 25), (0, 26), (1,
            27), (0, 28), (1, 29), (0, 30)])
       @ [Print ''SENTENCE:'', Print ''<bos> the <bos> the <bos> the <bos> the <bos> the <bos> the <bos> the <bos> the <bos> the <bos> the <bos> the <bos> the <bos> the <bos> the <bos> the'']"
    unfolding d1 d2 .
  with demo_generate_sentence fin sk [of 30] d3 show ?thesis
    by (simp only: simp_thms)
qed

text \<open>The decimal string of an integer determines it.\<close>

lemma digit_cases: "d < 10 \<Longrightarrow> d = 0 \<or> d = 1 \<or> d = 2 \<or> d = 3 \<or> d = 4 \<or> d = 5 \<or> d = 6 \<or> d = 7
    \<or> d = 8 \<or> d = (9::nat)"
  by arith

lemma digit_value_digit_char: "d < 10 \<Longrightarrow> digit_value (digit_char d) = d"
  by (drule digit_cases) (auto simp: digit_value_def digit_char_def)

lemma digit_char_not_minus: "d < 10 \<Longrightarrow> digit_char d \<noteq> CHR ''-''"
  by (drule digit_cases) (auto simp: digit_char_def)

lemma digits_value_snoc: "digits_value (s @ [c]) = 10 * digits_value s + digit_value c"
  by (simp add: digits_value_def)

lemma digits_value_str_of_nat: "digits_value (str_of_nat n) = n"
proof (induction n rule: str_of_nat.induct)
  case (1 n)
  show ?case
  proof (cases "n < 10")
    case True
    then show ?thesis
      by (subst str_of_nat.simps) (simp add: digits_value_def digit_value_digit_char)
  next
    case False
    with 1 have "digits_value (str_of_nat (n div 10)) = n div 10" by simp
    with False show ?thesis
      by (subst str_of_nat.simps) (simp add: digits_value_snoc digit_value_digit_char)
  qed
qed

lemma str_of_nat_hd: "str_of_nat n \<noteq> [] \<and> hd (str_of_nat n) \<noteq> CHR ''-''"
proof (induction n rule: str_of_nat.induct)
  case (1 n)
  show ?case
  proof (cases "n < 10")
    case True
    then show ?thesis
      by (subst (1 2) str_of_nat.simps) (simp add: digit_char_not_minus)
  next
    case False
    with 1 show ?thesis
      by (subst (1 2) str_of_nat.simps) simp
  qed
qed

lemma str_of_nat_inj: "str_of_nat a = str_of_nat b \<Longrightarrow> a = b"
  by (metis digits_value_str_of_nat)

lemma py_str_inj: "py_str i = py_str j \<Longrightarrow> i = j"
proof -
  assume eq: "py_str i = py_str j"
  have nm: "CHR ''-'' # s \<noteq> str_of_nat n" for s n
    using str_of_nat_hd [of n] by (cases "str_of_nat n") auto
  show ?thesis
  proof (cases "i < 0")
    case True
    show ?thesis
    proof (cases "j < 0")
      case jn: True
      with True eq have "nat (- i) = nat (- j)"
        by (auto simp: py_str_def dest: str_of_nat_inj)
      with True jn show ?thesis by simp
    next
      case False
      with True eq nm show ?thesis by (simp add: py_str_def)
    qed
  next
    case False
    show ?thesis
    proof (cases "j < 0")
      case True
      with False eq nm [of "str_of_nat (nat (- j))" "nat i"] show ?thesis
        by (simp add: py_str_def)
    next
      case jp: False
      with False eq have "nat i = nat j"
        by (auto simp: py_str_def dest: str_of_nat_inj)
      with False jp show ?thesis by simp
    qed
  qed
qed

lemma map_of_id_to_word:
  "map_of (map (\<lambda>(k, v). (py_str k, JStr v)) d) (py_str k) = map_option JStr (map_of d k)"
  by (induction d) (auto dest: py_str_inj)

lemma map_of_word_to_id:
  "map_of (map (\<lambda>(k, v). (k, JInt v)) d) s = map_option JInt (map_of d s)"
  by (induction d) auto

text \<open>Paths under one prefix differ when the file names do.\<close>

lemma os_path_join_inj:
  assumes "os_path_join a b = Inr p" and "os_path_join a b' = Inr p'"
    and "b \<noteq> []" "hd b \<noteq> CHR ''/''" "b' \<noteq> []" "hd b' \<noteq> CHR ''/''" and "b \<noteq> b'"
  shows "p \<noteq> p'"
  using assms
  by (auto simp: os_path_join_def split: option.splits if_splits)

lemma vocabulary_paths:
  assumes "os_path_join a ''word_to_id.json'' = Inr p1"
    and "os_path_join a ''id_to_word.json'' = Inr p2"
    and "os_path_join a ''ptb.ckpt'' = Inr ckpt"
  shows "p1 \<noteq> p2" "p1 \<noteq> ckpt" "p2 \<noteq> ckpt"
  using os_path_join_inj [OF assms(1) assms(2)] os_path_join_inj [OF assms(1) assms(3)]
    os_path_join_inj [OF assms(2) assms(3)]
  by simp_all

text \<open>The files a returning train leaves.\<close>

lemma train_files:
  assumes "train env FLAGS w = (Inr u, w')"
  shows "\<exists>cfg raw p1 p2 ckpt tv w1.
      get_config FLAGS = Inr cfg
    \<and> ptb_raw_data env (flag_data_path FLAGS) = Inr raw
    \<and> os_path_join (flag_model_path_prefix FLAGS) ''word_to_id.json'' = Inr p1
    \<and> os_path_join (flag_model_path_prefix FLAGS) ''id_to_word.json'' = Inr p2
    \<and> os_path_join (flag_model_path_prefix FLAGS) ''ptb.ckpt'' = Inr ckpt
    \<and> train_epochs env FLAGS w = (Inr tv, w1)
    \<and> files w' p1 = Some (JsonFile (json_of_word_to_id (rd_word_to_id raw)))
    \<and> files w' p2 = Some (JsonFile (json_of_id_to_word (rd_id_to_word raw)))
    \<and> (0 < max_max_epoch cfg \<longrightarrow> files w' ckpt = Some (CheckpointFile (saver_save env (session w1))))"
proof -
  from train_Inr [OF assms] obtain tv w1 r where
    ep: "train_epochs env FLAGS w = (Inr tv, w1)"
    and te: "run_epoch env (tv_mtest tv) (rd_test_data (tv_raw tv)) NoOp False w1 = (Inr r, w')"
    by blast
  from train_epochs_Inr [OF ep] obtain cfg raw p1 p2 ckpt where
    h: "get_config FLAGS = Inr cfg"
       "ptb_raw_data env (flag_data_path FLAGS) = Inr raw"
       "os_path_join (flag_model_path_prefix FLAGS) ''word_to_id.json'' = Inr p1"
       "os_path_join (flag_model_path_prefix FLAGS) ''id_to_word.json'' = Inr p2"
       "os_path_join (flag_model_path_prefix FLAGS) ''ptb.ckpt'' = Inr ckpt"
    and fs: "\<forall>p. p \<noteq> ckpt \<longrightarrow> files w1 p =
          ((files w)(p1 \<mapsto> JsonFile (json_of_word_to_id (rd_word_to_id raw)),
                     p2 \<mapsto> JsonFile (json_of_id_to_word (rd_id_to_word raw)))) p"
    and ck: "0 < max_max_epoch cfg \<longrightarrow> files w1 ckpt = Some (CheckpointFile (saver_save env (session w1)))"
    by blast
  have same: "files w' = files w1"
    by (rule run_epoch_Inr_world(2) [OF te])
  from vocabulary_paths [OF h(3) h(4) h(5)] fs
  have "files w1 p1 = Some (JsonFile (json_of_word_to_id (rd_word_to_id raw)))"
    and "files w1 p2 = Some (JsonFile (json_of_id_to_word (rd_id_to_word raw)))"
    by simp_all
  with h ep ck same show ?thesis by auto
qed

text \<open>
  Claim C8. When \<^verbatim>\<open>train\<close> returns, \<^verbatim>\<open>word_to_id.json\<close> and \<^verbatim>\<open>id_to_word.json\<close> under
  \<^verbatim>\<open>model_path_prefix\<close> hold the JSON documents of the reader's \<^verbatim>\<open>word_to_id\<close> and
  \<^verbatim>\<open>id_to_word\<close>: the first maps each word to its integer, the second has the string
  \<^verbatim>\<open>str(i)\<close> as the key of the word of the integer \<open>i\<close>, and \<^verbatim>\<open>str\<close> gives different integers
  different strings. \<^verbatim>\<open>main\<close> in generate mode, on the same prefix, loads these two files
  and passes exactly these documents to \<^verbatim>\<open>generate\<close>. When that call returns, the sampling
  started from the integer the reader gave \<^verbatim>\<open><bos>\<close>, and each of the thirty words of the
  printed sentence is the word found in the loaded \<^verbatim>\<open>id_to_word\<close> under the string
  \<^verbatim>\<open>str(next_word)\<close> of the integer the random choice returned, which is the word the
  reader gave that integer at training time.
\<close>

theorem vocabulary_round_trip:
  assumes "train env FLAGS w = (Inr (), w')"
    and "ptb_raw_data env (flag_data_path FLAGS) = Inr raw"
    and "truthy (flag_generate GFLAGS)"
    and "flag_model_path_prefix GFLAGS = flag_model_path_prefix FLAGS"
    and "main env GFLAGS w' = (Inr (), w'')"
  shows "\<exists>p1 p2 ckpt c gcfg bos ws word st g s.
      os_path_join (flag_model_path_prefix FLAGS) ''word_to_id.json'' = Inr p1
    \<and> os_path_join (flag_model_path_prefix FLAGS) ''id_to_word.json'' = Inr p2
    \<and> os_path_join (flag_model_path_prefix FLAGS) ''ptb.ckpt'' = Inr ckpt
    \<and> files w' p1 = Some (JsonFile (JObj (map (\<lambda>(x, i). (x, JInt i)) (rd_word_to_id raw))))
    \<and> files w' p2 = Some (JsonFile (JObj (map (\<lambda>(i, x). (py_str i, JStr x)) (rd_id_to_word raw))))
    \<and> files w' ckpt = Some (CheckpointFile c)
    \<and> get_config GFLAGS = Inr gcfg
    \<and> main env GFLAGS w' =
        generate env GFLAGS (JObj (map (\<lambda>(x, i). (x, JInt i)) (rd_word_to_id raw)))
          (JObj (map (\<lambda>(i, x). (py_str i, JStr x)) (rd_id_to_word raw)))
          (emit (JsonLoad p2) (emit (JsonLoad p1) w'))
    \<and> (\<forall>i j. py_str i = py_str j \<longrightarrow> i = j)
    \<and> (\<forall>n. digits_value (py_str (int n)) = n)
    \<and> map_of (rd_word_to_id raw) ''<bos>'' = Some bos
    \<and> length ws = 30
    \<and> (let m = PTBModel_init False (gcfg \<lparr> num_steps := 1, batch_size := 1 \<rparr>) False;
            feed = (\<lambda>n h. \<lparr> feed_input_data = [[n]], feed_targets = [[0]],
                             feed_initial_state = h, feed_weights = [1] \<rparr>);
            warm = session_run env (saver_restore env (new_session env) c) m NoOp
                     (feed 0 (eval_initial_state env m));
            run = (\<lambda>k. session_run env (s k) m NoOp (feed (word k) (st k)))
        in word 0 = bos
         \<and> st 0 = f_final_state (fst warm)
         \<and> s 0 = snd warm
         \<and> g 0 = np_random w'
         \<and> (\<forall>k<30.
               random_choice env (g k) 10002 (hd (f_probs (fst (run k))))
                 = (Inr (word (Suc k)), g (Suc k))
             \<and> st (Suc k) = f_final_state (fst (run k))
             \<and> s (Suc k) = snd (run k)
             \<and> map_of (map (\<lambda>(i, x). (py_str i, JStr x)) (rd_id_to_word raw)) (py_str (word (Suc k)))
                  = Some (JStr (ws ! k))
             \<and> map_of (rd_id_to_word raw) (word (Suc k)) = Some (ws ! k))
         \<and> trace w'' = trace w'
              @ [JsonLoad p1, JsonLoad p2, SaverRestore ckpt,
                 SessionRun m NoOp (feed 0 (eval_initial_state env m))]
              @ concat (map (\<lambda>k. [SessionRun m NoOp (feed (word k) (st k)),
                                   RandomChoice 10002 (hd (f_probs (fst (run k))))])
                         [0..<30])
              @ [Print ''SENTENCE:'', Print (hd ws @ concat (map (\<lambda>x. '' '' @ x) (tl ws)))])"
proof -
  let ?W2I = "JObj (map (\<lambda>(x, i). (x, JInt i)) (rd_word_to_id raw))"
  let ?I2W = "JObj (map (\<lambda>(i, x). (py_str i, JStr x)) (rd_id_to_word raw))"
  from train_files [OF assms(1)] assms(2) obtain p1 p2 ckpt where
    h: "os_path_join (flag_model_path_prefix FLAGS) ''word_to_id.json'' = Inr p1"
       "os_path_join (flag_model_path_prefix FLAGS) ''id_to_word.json'' = Inr p2"
       "os_path_join (flag_model_path_prefix FLAGS) ''ptb.ckpt'' = Inr ckpt"
       "files w' p1 = Some (JsonFile ?W2I)"
       "files w' p2 = Some (JsonFile ?I2W)"
    by (auto simp: json_of_word_to_id_def json_of_id_to_word_def)
  define wl where "wl = emit (JsonLoad p2) (emit (JsonLoad p1) w')"
  have mg: "main env GFLAGS w' = generate env GFLAGS ?W2I ?I2W wl"
    using assms(3,4) h
    by (simp add: main_def open_r_def json_load_def wl_def)
  with assms(5) have gen: "generate env GFLAGS ?W2I ?I2W wl = (Inr (), w'')"
    by simp
  from generate_Inr [OF gen] assms(4) h(3) obtain gcfg c where
    gc: "get_config GFLAGS = Inr gcfg"
    and gp: "os_path_join (flag_model_path_prefix GFLAGS) ''ptb.ckpt'' = Inr ckpt"
    and fl: "files wl ckpt = Some (CheckpointFile c)"
    by auto
  from fl have fc: "files w' ckpt = Some (CheckpointFile c)"
    by (simp add: wl_def)
  define m where "m = PTBModel_init False (gcfg \<lparr> num_steps := 1, batch_size := 1 \<rparr>) False"
  define w0 where "w0 = emit (SaverRestore ckpt) (wl \<lparr> session := saver_restore env (new_session env) c \<rparr>)"
  from gen generate_restored [OF gc gp fl]
  have ss: "sample_sentence env m ?W2I ?I2W w0 = (Inr (), w'')"
    by (simp add: m_def w0_def)
  have f0: "session w0 = saver_restore env (new_session env) c" "np_random w0 = np_random w'"
    by (simp_all add: w0_def wl_def)
  have f1: "trace w0 = trace w' @ [JsonLoad p1, JsonLoad p2, SaverRestore ckpt]"
    by (simp add: w0_def wl_def)
  let ?feed = "\<lambda>n h. \<lparr> feed_input_data = [[n]], feed_targets = [[0::int]],
                             feed_initial_state = h, feed_weights = [1::real] \<rparr>"
  from sample_sentence_steps [OF ss, unfolded f0] obtain w2i i2w b bos ws word st g s where
    k: "?W2I = JObj w2i" "?I2W = JObj i2w"
       "map_of w2i ''<bos>'' = Some b"
       "b = JInt bos \<or> (\<exists>str. b = JStr str \<and> int_of_str env str = Inr bos)"
    and len: "length ws = 30"
    and init: "word 0 = bos"
       "st 0 = f_final_state (fst (session_run env (saver_restore env (new_session env) c) m NoOp
                (?feed 0 (eval_initial_state env m))))"
       "s 0 = snd (session_run env (saver_restore env (new_session env) c) m NoOp
                (?feed 0 (eval_initial_state env m)))"
       "g 0 = np_random w'"
    and step0: "\<forall>k<30.
           f_probs (fst (session_run env (s k) m NoOp (?feed (word k) (st k)))) \<noteq> []
         \<and> random_choice env (g k) 10002
               (hd (f_probs (fst (session_run env (s k) m NoOp (?feed (word k) (st k))))))
             = (Inr (word (Suc k)), g (Suc k))
         \<and> st (Suc k) = f_final_state (fst (session_run env (s k) m NoOp (?feed (word k) (st k))))
         \<and> s (Suc k) = snd (session_run env (s k) m NoOp (?feed (word k) (st k)))
         \<and> map_of i2w (py_str (word (Suc k))) = Some (JStr (ws ! k))"
    and tr0: "trace w'' = trace w0
          @ [SessionRun m NoOp (?feed 0 (eval_initial_state env m))]
          @ concat (map (\<lambda>k. [SessionRun m NoOp (?feed (word k) (st k)),
                               RandomChoice 10002
                                 (hd (f_probs (fst (session_run env (s k) m NoOp (?feed (word k) (st k))))))])
                     [0..<30])
          @ [Print ''SENTENCE:'', Print (hd ws @ concat (map (\<lambda>x. '' '' @ x) (tl ws)))]"
    by blast
  from k(1,2) have wi: "w2i = map (\<lambda>(x, i). (x, JInt i)) (rd_word_to_id raw)"
    and iw: "i2w = map (\<lambda>(i, x). (py_str i, JStr x)) (rd_id_to_word raw)"
    by simp_all
  from k(3) have "map_option JInt (map_of (rd_word_to_id raw) ''<bos>'') = Some b"
    by (simp add: wi map_of_word_to_id)
  then obtain i where i: "map_of (rd_word_to_id raw) ''<bos>'' = Some i" "b = JInt i"
    by auto
  with k(4) have bos: "map_of (rd_word_to_id raw) ''<bos>'' = Some bos"
    by auto
  have step: "\<forall>k<30.
           random_choice env (g k) 10002
               (hd (f_probs (fst (session_run env (s k) m NoOp (?feed (word k) (st k))))))
             = (Inr (word (Suc k)), g (Suc k))
         \<and> st (Suc k) = f_final_state (fst (session_run env (s k) m NoOp (?feed (word k) (st k))))
         \<and> s (Suc k) = snd (session_run env (s k) m NoOp (?feed (word k) (st k)))
         \<and> map_of (map (\<lambda>(i, x). (py_str i, JStr x)) (rd_id_to_word raw)) (py_str (word (Suc k)))
              = Some (JStr (ws ! k))
         \<and> map_of (rd_id_to_word raw) (word (Suc k)) = Some (ws ! k)"
  proof (intro allI impI)
    fix k :: nat assume "k < 30"
    with step0 have a: "random_choice env (g k) 10002
               (hd (f_probs (fst (session_run env (s k) m NoOp (?feed (word k) (st k))))))
             = (Inr (word (Suc k)), g (Suc k))"
      and b: "st (Suc k) = f_final_state (fst (session_run env (s k) m NoOp (?feed (word k) (st k))))"
      and c: "s (Suc k) = snd (session_run env (s k) m NoOp (?feed (word k) (st k)))"
      and d: "map_of i2w (py_str (word (Suc k))) = Some (JStr (ws ! k))"
      by blast+
    from d have d1: "map_of (map (\<lambda>(i, x). (py_str i, JStr x)) (rd_id_to_word raw)) (py_str (word (Suc k)))
              = Some (JStr (ws ! k))"
      by (simp only: iw)
    then have "map_option JStr (map_of (rd_id_to_word raw) (word (Suc k))) = Some (JStr (ws ! k))"
      by (simp only: map_of_id_to_word)
    then have d2: "map_of (rd_id_to_word raw) (word (Suc k)) = Some (ws ! k)"
      by auto
    from a b c d1 d2
    show "random_choice env (g k) 10002
               (hd (f_probs (fst (session_run env (s k) m NoOp (?feed (word k) (st k))))))
             = (Inr (word (Suc k)), g (Suc k))
         \<and> st (Suc k) = f_final_state (fst (session_run env (s k) m NoOp (?feed (word k) (st k))))
         \<and> s (Suc k) = snd (session_run env (s k) m NoOp (?feed (word k) (st k)))
         \<and> map_of (map (\<lambda>(i, x). (py_str i, JStr x)) (rd_id_to_word raw)) (py_str (word (Suc k)))
              = Some (JStr (ws ! k))
         \<and> map_of (rd_id_to_word raw) (word (Suc k)) = Some (ws ! k)"
      by (intro conjI)
  qed
  have ap: "(xs @ [x, y, z]) @ [v] @ ys = xs @ [x, y, z, v] @ ys"
    for xs ys :: "'b event list" and x y z v
    by simp
  have tr: "trace w'' = trace w'
          @ [JsonLoad p1, JsonLoad p2, SaverRestore ckpt,
             SessionRun m NoOp (?feed 0 (eval_initial_state env m))]
          @ concat (map (\<lambda>k. [SessionRun m NoOp (?feed (word k) (st k)),
                               RandomChoice 10002
                                 (hd (f_probs (fst (session_run env (s k) m NoOp (?feed (word k) (st k))))))])
                     [0..<30])
          @ [Print ''SENTENCE:'', Print (hd ws @ concat (map (\<lambda>x. '' '' @ x) (tl ws)))]"
    unfolding tr0 f1 by (rule ap)
  have inj: "\<forall>i j. py_str i = py_str j \<longrightarrow> i = j"
    by (auto dest: py_str_inj)
  have dv: "\<forall>n. digits_value (py_str (int n)) = n"
    by (simp add: py_str_def digits_value_str_of_nat)
  note facts = h(1,2,3,4,5) fc gc mg [unfolded wl_def] inj dv bos len init step tr
  show ?thesis
    apply (rule exI [of _ p1], rule exI [of _ p2], rule exI [of _ ckpt], rule exI [of _ c])
    apply (rule exI [of _ gcfg], rule exI [of _ bos], rule exI [of _ ws])
    apply (rule exI [of _ word], rule exI [of _ st], rule exI [of _ g], rule exI [of _ s])
    unfolding Let_def
    using facts [unfolded m_def] by (intro conjI) assumption+
qed

lemma demo_generate_returns:
  assumes "files w ''out/ptb.ckpt'' = Some (CheckpointFile c)"
  shows "fst (generate (demo_env two_batches) demo_generate_flags demo_word_to_id demo_id_to_word w)
     = Inr ()"
proof -
  let ?env = "demo_env two_batches"
  let ?m = "PTBModel_init False (TestConfig \<lparr> num_steps := 1, batch_size := 1 \<rparr>) False"
  have cfg: "get_config demo_generate_flags = Inr TestConfig"
    by (simp add: get_config_def demo_generate_flags_def)
  have ck: "os_path_join (flag_model_path_prefix demo_generate_flags) ''ptb.ckpt'' = Inr ''out/ptb.ckpt''"
    by (simp add: demo_generate_flags_def demo_paths)
  have bos: "py_getitem demo_word_to_id ''<bos>'' = Inr (JInt 0)"
    by (simp add: py_getitem_def demo_word_to_id_def)
  have "fst (sample_sentence ?env ?m demo_word_to_id demo_id_to_word w) = Inr ()" for w
  proof -
    let ?warm = "run_session ?env ?m NoOp (sample_feed 0 (eval_initial_state ?env ?m)) w"
    from demo_generate_loop [of two_batches ?m "py_range 30" 0 "f_final_state (fst ?warm)" "[]" "snd ?warm"]
    obtain ws w' where "generate_loop ?env ?m demo_id_to_word (py_range 30) 0
        (f_final_state (fst ?warm)) [] (snd ?warm) = (Inr (map JStr ws), w')"
      by auto
    then show ?thesis
      by (simp add: sample_sentence_def bos py_int_def Let_def case_prod_unfold)
  qed
  then show ?thesis
    by (simp add: generate_restored [OF cfg ck assms])
qed

lemma demo_main_generate:
  "main (demo_env two_batches) demo_generate_flags demo_trained_world =
     generate (demo_env two_batches) demo_generate_flags demo_word_to_id demo_id_to_word
       (emit (JsonLoad ''out/id_to_word.json'') (emit (JsonLoad ''out/word_to_id.json'') demo_trained_world))"
  by (simp add: main_def truthy_def demo_generate_flags_def demo_paths open_r_def json_load_def
      demo_trained_fields demo_word_to_id_def demo_id_to_word_def)

text \<open>Training and then generating in the small environment: the two files, and the
  sentence of the words the reader gave the sampled ids.\<close>

theorem vocabulary_round_trip_witness:
  "fst (train (demo_env two_batches) demo_flags demo_world) = Inr ()
   \<and> files demo_trained_world ''out/word_to_id.json''
       = Some (JsonFile (JObj [(''<bos>'', JInt 0), (''the'', JInt 1)]))
   \<and> files demo_trained_world ''out/id_to_word.json''
       = Some (JsonFile (JObj [(''0'', JStr ''<bos>''), (''1'', JStr ''the'')]))
   \<and> fst (main (demo_env two_batches) demo_generate_flags demo_trained_world) = Inr ()
   \<and> trace (snd (main (demo_env two_batches) demo_generate_flags demo_trained_world)) =
       trace demo_trained_world
       @ [JsonLoad ''out/word_to_id.json'', JsonLoad ''out/id_to_word.json'',
          SaverRestore ''out/ptb.ckpt'',
          SessionRun (PTBModel_init False (TestConfig \<lparr> num_steps := 1, batch_size := 1 \<rparr>) False) NoOp
            \<lparr> feed_input_data = [[0]], feed_targets = [[0]], feed_initial_state = 0,
              feed_weights = [1] \<rparr>]
       @ concat (map (\<lambda>(n, h).
           [SessionRun (PTBModel_init False (TestConfig \<lparr> num_steps := 1, batch_size := 1 \<rparr>) False) NoOp
              \<lparr> feed_input_data = [[n]], feed_targets = [[0]], feed_initial_state = h,
                feed_weights = [1] \<rparr>,
            RandomChoice 10002 [1 / 2, 1 / 4, 1 / 4]])
           [(0, 1), (0, 2), (1, 3), (0, 4), (1, 5), (0, 6), (1, 7), (0, 8), (1, 9), (0,
            10), (1, 11), (0, 12), (1, 13), (0, 14), (1, 15), (0, 16), (1, 17), (0, 18),
            (1, 19), (0, 20), (1, 21), (0, 22), (1, 23), (0, 24), (1, 25), (0, 26), (1,
            27), (0, 28), (1, 29), (0, 30)])
       @ [Print ''SENTENCE:'',
          Print ''<bos> the <bos> the <bos> the <bos> the <bos> the <bos> the <bos> the <bos> the <bos> the <bos> the <bos> the <bos> the <bos> the <bos> the <bos> the'']"
proof -
  let ?env = "demo_env two_batches"
  let ?g = "main ?env demo_generate_flags demo_trained_world"
  let ?m = "PTBModel_init False (TestConfig \<lparr> num_steps := 1, batch_size := 1 \<rparr>) False"
  let ?feed = "\<lambda>n h. \<lparr> feed_input_data = [[n]], feed_targets = [[0::int]],
                             feed_initial_state = h, feed_weights = [1::real] \<rparr>"
  have eq: "train ?env demo_flags demo_world = (Inr (), demo_trained_world)"
    using demo_train_ok by (simp add: prod_eq_iff demo_trained_world_def)
  have raw: "ptb_raw_data ?env (flag_data_path demo_flags) = Inr demo_raw"
    by simp
  have g1: "truthy (flag_generate demo_generate_flags)"
    and g2: "flag_model_path_prefix demo_generate_flags = flag_model_path_prefix demo_flags"
    by (simp_all add: truthy_def demo_generate_flags_def demo_flags_def)
  have ok: "fst ?g = Inr ()"
    unfolding demo_main_generate
    by (rule demo_generate_returns [of _ 2]) (simp add: demo_trained_fields)
  then have mr: "?g = (Inr (), snd ?g)"
    by (simp add: prod_eq_iff)
  have gc: "get_config demo_generate_flags = Inr TestConfig"
    by (simp add: get_config_def demo_generate_flags_def)
  have rd: "rd_word_to_id demo_raw = [(''<bos>'', 0), (''the'', 1)]"
    "rd_id_to_word demo_raw = [(0, ''<bos>''), (1, ''the'')]"
    by (simp_all add: demo_raw_def)
  from vocabulary_round_trip [OF eq raw g1 g2 mr, unfolded Let_def]
  obtain p1 p2 ckpt c gcfg bos ws word st g s where
    p: "os_path_join (flag_model_path_prefix demo_flags) ''word_to_id.json'' = Inr p1"
       "os_path_join (flag_model_path_prefix demo_flags) ''id_to_word.json'' = Inr p2"
       "os_path_join (flag_model_path_prefix demo_flags) ''ptb.ckpt'' = Inr ckpt"
    and f: "files demo_trained_world p1
              = Some (JsonFile (JObj (map (\<lambda>(x, i). (x, JInt i)) (rd_word_to_id demo_raw))))"
       "files demo_trained_world p2
              = Some (JsonFile (JObj (map (\<lambda>(i, x). (py_str i, JStr x)) (rd_id_to_word demo_raw))))"
       "files demo_trained_world ckpt = Some (CheckpointFile c)"
    and c: "get_config demo_generate_flags = Inr gcfg"
    and bos: "map_of (rd_word_to_id demo_raw) ''<bos>'' = Some bos"
    and len: "length ws = 30"
    and i0: "word 0 = bos"
       "st 0 = f_final_state (fst (session_run ?env (saver_restore ?env (new_session ?env) c)
                 (PTBModel_init False (gcfg \<lparr> num_steps := 1, batch_size := 1 \<rparr>) False) NoOp
                 (?feed 0 (eval_initial_state ?env
                    (PTBModel_init False (gcfg \<lparr> num_steps := 1, batch_size := 1 \<rparr>) False)))))"
       "g 0 = np_random demo_trained_world"
    and step0: "\<forall>k<30.
               random_choice ?env (g k) 10002
                   (hd (f_probs (fst (session_run ?env (s k)
                      (PTBModel_init False (gcfg \<lparr> num_steps := 1, batch_size := 1 \<rparr>) False) NoOp
                      (?feed (word k) (st k))))))
                 = (Inr (word (Suc k)), g (Suc k))
             \<and> st (Suc k) = f_final_state (fst (session_run ?env (s k)
                      (PTBModel_init False (gcfg \<lparr> num_steps := 1, batch_size := 1 \<rparr>) False) NoOp
                      (?feed (word k) (st k))))
             \<and> s (Suc k) = snd (session_run ?env (s k)
                      (PTBModel_init False (gcfg \<lparr> num_steps := 1, batch_size := 1 \<rparr>) False) NoOp
                      (?feed (word k) (st k)))
             \<and> map_of (map (\<lambda>(i, x). (py_str i, JStr x)) (rd_id_to_word demo_raw)) (py_str (word (Suc k)))
                  = Some (JStr (ws ! k))
             \<and> map_of (rd_id_to_word demo_raw) (word (Suc k)) = Some (ws ! k)"
    and tr0: "trace (snd ?g) = trace demo_trained_world
              @ [JsonLoad p1, JsonLoad p2, SaverRestore ckpt,
                 SessionRun (PTBModel_init False (gcfg \<lparr> num_steps := 1, batch_size := 1 \<rparr>) False) NoOp
                   (?feed 0 (eval_initial_state ?env
                      (PTBModel_init False (gcfg \<lparr> num_steps := 1, batch_size := 1 \<rparr>) False)))]
              @ concat (map (\<lambda>k. [SessionRun
                                     (PTBModel_init False (gcfg \<lparr> num_steps := 1, batch_size := 1 \<rparr>) False)
                                     NoOp (?feed (word k) (st k)),
                                   RandomChoice 10002
                                     (hd (f_probs (fst (session_run ?env (s k)
                                        (PTBModel_init False (gcfg \<lparr> num_steps := 1, batch_size := 1 \<rparr>) False)
                                        NoOp (?feed (word k) (st k))))))])
                         [0..<30])
              @ [Print ''SENTENCE:'', Print (hd ws @ concat (map (\<lambda>x. '' '' @ x) (tl ws)))]"
    by blast
  from p have pv: "p1 = ''out/word_to_id.json''" "p2 = ''out/id_to_word.json''" "ckpt = ''out/ptb.ckpt''"
    by (simp_all add: demo_paths)
  from c gc have cv: "gcfg = TestConfig" by simp
  from f(1) have f1: "files demo_trained_world ''out/word_to_id.json''
           = Some (JsonFile (JObj [(''<bos>'', JInt 0), (''the'', JInt 1)]))"
    by (simp add: pv rd)
  from f(2) have f2: "files demo_trained_world ''out/id_to_word.json''
           = Some (JsonFile (JObj [(''0'', JStr ''<bos>''), (''1'', JStr ''the'')]))"
    by (simp add: pv rd py_str_01)
  from bos have bv: "bos = 0" by (simp add: rd)
  from i0 have w0: "word 0 = 0" and st0: "st 0 = Suc 0" and g0: "g 0 = 0"
    by (simp_all add: bv demo_session_run demo_restore demo_trained_fields)
  have pr: "hd (f_probs (fst (session_run ?env x m NoOp fd))) = [1 / 2, 1 / 4, 1 / 4]" for x m fd
    by (simp add: demo_session_run)
  have step: "\<forall>k<30. word (Suc k) = int (g k mod 2) \<and> g (Suc k) = Suc (g k)
         \<and> st (Suc k) = Suc (st k)
         \<and> map_of [(''0'', JStr ''<bos>''), (''1'', JStr ''the'')] (py_str (word (Suc k)))
              = Some (JStr (ws ! k))"
  proof (intro allI impI)
    fix k :: nat assume "k < 30"
    with step0 have a: "random_choice ?env (g k) 10002
                   (hd (f_probs (fst (session_run ?env (s k)
                      (PTBModel_init False (gcfg \<lparr> num_steps := 1, batch_size := 1 \<rparr>) False) NoOp
                      (?feed (word k) (st k))))))
                 = (Inr (word (Suc k)), g (Suc k))"
      and b: "st (Suc k) = f_final_state (fst (session_run ?env (s k)
                      (PTBModel_init False (gcfg \<lparr> num_steps := 1, batch_size := 1 \<rparr>) False) NoOp
                      (?feed (word k) (st k))))"
      and d: "map_of (map (\<lambda>(i, x). (py_str i, JStr x)) (rd_id_to_word demo_raw)) (py_str (word (Suc k)))
                  = Some (JStr (ws ! k))"
      by blast+
    from a have a1: "word (Suc k) = int (g k mod 2)" and a2: "g (Suc k) = Suc (g k)"
      by (simp_all add: demo_choice)
    from b have b1: "st (Suc k) = Suc (st k)"
      by (simp add: demo_session_run)
    have "map (\<lambda>(i, x). (py_str i, JStr x)) (rd_id_to_word demo_raw)
        = [(''0'', JStr ''<bos>''), (''1'', JStr ''the'')]"
      by (simp add: rd py_str_01)
    with d have d1: "map_of [(''0'', JStr ''<bos>''), (''1'', JStr ''the'')] (py_str (word (Suc k)))
              = Some (JStr (ws ! k))"
      by (simp only:)
    from a1 a2 b1 d1
    show "word (Suc k) = int (g k mod 2) \<and> g (Suc k) = Suc (g k)
         \<and> st (Suc k) = Suc (st k)
         \<and> map_of [(''0'', JStr ''<bos>''), (''1'', JStr ''the'')] (py_str (word (Suc k)))
              = Some (JStr (ws ! k))"
      by (intro conjI)
  qed
  have tr: "trace (snd ?g) = trace demo_trained_world
              @ [JsonLoad ''out/word_to_id.json'', JsonLoad ''out/id_to_word.json'',
                 SaverRestore ''out/ptb.ckpt'', SessionRun ?m NoOp (?feed 0 0)]
              @ concat (map (\<lambda>k. [SessionRun ?m NoOp (?feed (word k) (st k)),
                                   RandomChoice 10002 [1 / 2, 1 / 4, 1 / 4]])
                         [0..<30])
              @ [Print ''SENTENCE:'', Print (hd ws @ concat (map (\<lambda>x. '' '' @ x) (tl ws)))]"
    unfolding tr0 pr pv cv demo_restore ..
  note dw = demo_sampled_words [of ws word g st, OF len w0 g0 st0]
  have d1: "hd ws @ concat (map (\<lambda>x. '' '' @ x) (tl ws)) = ''<bos> the <bos> the <bos> the <bos> the <bos> the <bos> the <bos> the <bos> the <bos> the <bos> the <bos> the <bos> the <bos> the <bos> the <bos> the''"
    using step by (intro dw(1)) blast+
  have d2: "map (\<lambda>k. [SessionRun ?m NoOp (?feed (word k) (st k)),
                       RandomChoice 10002 [1 / 2, 1 / 4, 1 / 4]]) [0..<30]
      = map (\<lambda>(n, h). [SessionRun ?m NoOp (?feed n h), RandomChoice 10002 [1 / 2, 1 / 4, 1 / 4]])
           [(0, 1), (0, 2), (1, 3), (0, 4), (1, 5), (0, 6), (1, 7), (0, 8), (1, 9), (0,
            10), (1, 11), (0, 12), (1, 13), (0, 14), (1, 15), (0, 16), (1, 17), (0, 18),
            (1, 19), (0, 20), (1, 21), (0, 22), (1, 23), (0, 24), (1, 25), (0, 26), (1,
            27), (0, 28), (1, 29), (0, 30)]"
    using step
    by (intro dw(2) [where f = "\<lambda>n h. [SessionRun ?m NoOp (?feed n h),
                       RandomChoice 10002 [1 / 2, 1 / 4, 1 / 4]]"]) blast+
  from tr have "trace (snd ?g) = trace demo_trained_world
       @ [JsonLoad ''out/word_to_id.json'', JsonLoad ''out/id_to_word.json'',
          SaverRestore ''out/ptb.ckpt'', SessionRun ?m NoOp (?feed 0 0)]
       @ concat (map (\<lambda>(n, h). [SessionRun ?m NoOp (?feed n h), RandomChoice 10002 [1 / 2, 1 / 4, 1 / 4]])
           [(0, 1), (0, 2), (1, 3), (0, 4), (1, 5), (0, 6), (1, 7), (0, 8), (1, 9), (0,
            10), (1, 11), (0, 12), (1, 13), (0, 14), (1, 15), (0, 16), (1, 17), (0, 18),
            (1, 19), (0, 20), (1, 21), (0, 22), (1, 23), (0, 24), (1, 25), (0, 26), (1,
            27), (0, 28), (1, 29), (0, 30)])
       @ [Print ''SENTENCE:'', Print ''<bos> the <bos> the <bos> the <bos> the <bos> the <bos> the <bos> the <bos> the <bos> the <bos> the <bos> the <bos> the <bos> the <bos> the <bos> the'']"
    unfolding d1 d2 .
  with demo_train_ok f1 f2 ok show ?thesis
    by (simp only: simp_thms)
qed

text \<open>The sampling only adds calls to those already made.\<close>

lemma generate_loop_trace:
  "\<exists>evs. trace (snd (generate_loop env m d is nw st sent w)) = trace w @ evs"
proof (induction "is" arbitrary: nw st sent w)
  case Nil
  show ?case by simp
next
  case (Cons i rest)
  show ?case
  proof (cases "f_probs (fst (session_run env (session w) m NoOp (sample_feed nw st)))")
    case Nil
    then show ?thesis by (simp add: run_session_eq)
  next
    case (Cons p0 ps)
    let ?w1 = "snd (run_session env m NoOp (sample_feed nw st) w)"
    let ?c = "random_choice env (np_random ?w1) 10002 p0"
    let ?w2 = "emit (RandomChoice 10002 p0) (?w1 \<lparr> np_random := snd ?c \<rparr>)"
    have t2: "trace ?w2 = trace w @ [SessionRun m NoOp (sample_feed nw st), RandomChoice 10002 p0]"
      by simp
    show ?thesis
    proof (cases "fst ?c")
      case (Inl e)
      with Cons t2 show ?thesis
        by (simp add: run_session_eq Let_def case_prod_unfold)
    next
      case (Inr n)
      show ?thesis
      proof (cases "py_getitem d (py_str n)")
        case (Inl e)
        with Cons Inr t2 show ?thesis
          by (simp add: run_session_eq Let_def case_prod_unfold)
      next
        case word: (Inr word)
        from Cons.IH [of n "f_final_state (fst (run_session env m NoOp (sample_feed nw st) w))"
            "sent @ [word]" ?w2]
        obtain evs where "trace (snd (generate_loop env m d rest n
            (f_final_state (fst (run_session env m NoOp (sample_feed nw st) w))) (sent @ [word]) ?w2))
            = trace ?w2 @ evs"
          by blast
        with Cons Inr word t2 show ?thesis
          by (simp add: run_session_eq Let_def case_prod_unfold)
      qed
    qed
  qed
qed

lemma sample_sentence_trace:
  "\<exists>evs. trace (snd (sample_sentence env m word_to_id id_to_word w)) = trace w @ evs"
proof -
  let ?warm = "run_session env m NoOp (sample_feed 0 (eval_initial_state env m)) w"
  have lp: "\<exists>evs. trace (snd (generate_loop env m id_to_word (py_range 30) bos
      (f_final_state (fst ?warm)) [] (snd ?warm))) = trace w @ evs" for bos
    using generate_loop_trace [of env m id_to_word "py_range 30" bos "f_final_state (fst ?warm)" "[]" "snd ?warm"]
    by auto
  show ?thesis
  proof (cases "py_getitem word_to_id ''<bos>''")
    case (Inl e)
    then show ?thesis by (simp add: sample_sentence_def case_prod_unfold)
  next
    case b: (Inr b)
    show ?thesis
    proof (cases "py_int env b")
      case (Inl e)
      with b show ?thesis by (simp add: sample_sentence_def case_prod_unfold)
    next
      case (Inr bos)
      from lp [of bos] obtain evs where
        "trace (snd (generate_loop env m id_to_word (py_range 30) bos
          (f_final_state (fst ?warm)) [] (snd ?warm))) = trace w @ evs"
        by blast
      with b Inr show ?thesis
        by (auto simp: sample_sentence_def case_prod_unfold Let_def split: sum.splits)
    qed
  qed
qed

text \<open>
  Claim C7. When \<^verbatim>\<open>train\<close> has run at least one epoch and returns, every epoch ended by
  saving to \<^verbatim>\<open>os.path.join(model_path_prefix, "ptb.ckpt")\<close>, and the file there holds the
  saver's snapshot of the session as it was when the epoch loop ended. \<^verbatim>\<open>generate\<close>, on
  the same prefix, restores from exactly that path before any \<^verbatim>\<open>session.run\<close>: all its
  runs are those of the sampling started in the session restored from that snapshot.
\<close>

theorem checkpoint_saved_then_restored:
  assumes "train env FLAGS w = (Inr (), w')"
    and "get_config FLAGS = Inr cfg" and "0 < max_max_epoch cfg"
    and "flag_model_path_prefix GFLAGS = flag_model_path_prefix FLAGS"
    and "get_config GFLAGS = Inr gcfg"
  shows "\<exists>ckpt tv w1 training_op prep.
      os_path_join (flag_model_path_prefix FLAGS) ''ptb.ckpt'' = Inr ckpt
    \<and> train_epochs env FLAGS w = (Inr tv, w1)
    \<and> trace w1 = trace w @ prep
         @ concat (map (epoch_steps env FLAGS tv training_op ckpt) (py_range (max_max_epoch cfg)))
    \<and> (\<forall>i. last (epoch_steps env FLAGS tv training_op ckpt i) = SaverSave ckpt)
    \<and> files w' ckpt = Some (CheckpointFile (saver_save env (session w1)))
    \<and> generate env GFLAGS word_to_id id_to_word w' =
         sample_sentence env (PTBModel_init False (gcfg \<lparr> num_steps := 1, batch_size := 1 \<rparr>) False)
           word_to_id id_to_word
           (emit (SaverRestore ckpt)
              (w' \<lparr> session := saver_restore env (new_session env) (saver_save env (session w1)) \<rparr>))
    \<and> (\<exists>evs. trace (snd (generate env GFLAGS word_to_id id_to_word w'))
                = trace w' @ SaverRestore ckpt # evs)"
proof -
  from train_files [OF assms(1)] obtain cfg0 ckpt tv w1 where
    h0: "get_config FLAGS = Inr cfg0"
        "os_path_join (flag_model_path_prefix FLAGS) ''ptb.ckpt'' = Inr ckpt"
        "train_epochs env FLAGS w = (Inr tv, w1)"
        "0 < max_max_epoch cfg0 \<longrightarrow> files w' ckpt = Some (CheckpointFile (saver_save env (session w1)))"
    by blast
  from h0(1) assms(2) have c0: "cfg0 = cfg" by simp
  note h = h0(2) h0(3)
  from h0(4) assms(3) have fl: "files w' ckpt = Some (CheckpointFile (saver_save env (session w1)))"
    by (simp add: c0)
  from train_epochs_Inr [OF h(2)] obtain cfg' raw p1 p2 ckpt' training_op where
    e0: "get_config FLAGS = Inr cfg'"
       "ptb_raw_data env (flag_data_path FLAGS) = Inr raw"
       "os_path_join (flag_model_path_prefix FLAGS) ''word_to_id.json'' = Inr p1"
       "os_path_join (flag_model_path_prefix FLAGS) ''id_to_word.json'' = Inr p2"
       "os_path_join (flag_model_path_prefix FLAGS) ''ptb.ckpt'' = Inr ckpt'"
       "train_op (tv_m tv) = Inr training_op"
    and tv: "tv = \<lparr> tv_config = cfg', tv_raw = raw, tv_m = PTBModel_init True cfg' False,
             tv_mvalid = PTBModel_init False cfg' True,
             tv_mtest = PTBModel_init False (cfg' \<lparr> batch_size := 1, num_steps := 1 \<rparr>) True \<rparr>"
    and e3: "trace w1 = trace w @ [ReadRawData (flag_data_path FLAGS),
                             JsonDump p1 (json_of_word_to_id (rd_word_to_id raw)),
                             JsonDump p2 (json_of_id_to_word (rd_id_to_word raw)),
                             InitializeAllVariables]
                  @ concat (map (epoch_steps env FLAGS tv training_op ckpt') (py_range (max_max_epoch cfg')))"
    by blast
  note e = e0(1) e0(5) e3
  from e(1,2) assms(2) h(1) have same: "cfg' = cfg" "ckpt' = ckpt"
    by simp_all
  define prep :: "'b event list" where
    "prep = [ReadRawData (flag_data_path FLAGS),
             JsonDump p1 (json_of_word_to_id (rd_word_to_id raw)),
             JsonDump p2 (json_of_id_to_word (rd_id_to_word raw)),
             InitializeAllVariables]"
  have tr: "trace w1 = trace w @ prep
         @ concat (map (epoch_steps env FLAGS tv training_op ckpt) (py_range (max_max_epoch cfg)))"
    using e(3) by (simp add: same prep_def)
  have lst: "\<forall>i. last (epoch_steps env FLAGS tv training_op ckpt i) = SaverSave ckpt"
    by (simp add: epoch_steps_def)
  let ?m = "PTBModel_init False (gcfg \<lparr> num_steps := 1, batch_size := 1 \<rparr>) False"
  let ?w0 = "emit (SaverRestore ckpt)
              (w' \<lparr> session := saver_restore env (new_session env) (saver_save env (session w1)) \<rparr>)"
  have gp: "os_path_join (flag_model_path_prefix GFLAGS) ''ptb.ckpt'' = Inr ckpt"
    using h(1) assms(4) by simp
  have gen: "generate env GFLAGS word_to_id id_to_word w' =
      sample_sentence env ?m word_to_id id_to_word ?w0"
    by (rule generate_restored [OF assms(5) gp fl])
  from sample_sentence_trace [of env ?m word_to_id id_to_word ?w0] obtain evs where
    "trace (snd (sample_sentence env ?m word_to_id id_to_word ?w0)) = trace ?w0 @ evs"
    by blast
  then have "trace (snd (generate env GFLAGS word_to_id id_to_word w')) = trace w' @ SaverRestore ckpt # evs"
    by (simp add: gen)
  then have ex: "\<exists>evs. trace (snd (generate env GFLAGS word_to_id id_to_word w'))
                = trace w' @ SaverRestore ckpt # evs"
    by (rule exI)
  show ?thesis
    apply (rule exI [of _ ckpt], rule exI [of _ tv], rule exI [of _ w1])
    apply (rule exI [of _ training_op], rule exI [of _ prep])
    using h tr lst fl gen ex by (intro conjI) assumption+
qed


text \<open>In the small environment the checkpoint is the session after one training step.\<close>

theorem checkpoint_saved_then_restored_witness:
  "fst (train (demo_env two_batches) demo_flags demo_world) = Inr ()
   \<and> files demo_trained_world ''out/ptb.ckpt'' = Some (CheckpointFile 2)
   \<and> (\<exists>evs. trace (snd (generate (demo_env two_batches) demo_generate_flags demo_word_to_id
                  demo_id_to_word demo_trained_world))
          = trace demo_trained_world @ SaverRestore ''out/ptb.ckpt'' # evs)"
proof -
  have eq: "train (demo_env two_batches) demo_flags demo_world = (Inr (), demo_trained_world)"
    using demo_train_ok by (simp add: prod_eq_iff demo_trained_world_def)
  have ep: "0 < max_max_epoch TestConfig"
    by (simp add: TestConfig_def)
  have pre: "flag_model_path_prefix demo_generate_flags = flag_model_path_prefix demo_flags"
    by (simp add: demo_generate_flags_def demo_flags_def)
  have gc: "get_config demo_generate_flags = Inr TestConfig"
    by (simp add: get_config_def demo_generate_flags_def)
  from checkpoint_saved_then_restored [OF eq demo_config ep pre gc,
      of demo_word_to_id demo_id_to_word]
  obtain ckpt evs where
    "os_path_join (flag_model_path_prefix demo_flags) ''ptb.ckpt'' = Inr ckpt"
    "trace (snd (generate (demo_env two_batches) demo_generate_flags demo_word_to_id
                  demo_id_to_word demo_trained_world))
          = trace demo_trained_world @ SaverRestore ckpt # evs"
    by blast
  then have "\<exists>evs. trace (snd (generate (demo_env two_batches) demo_generate_flags demo_word_to_id
                  demo_id_to_word demo_trained_world))
          = trace demo_trained_world @ SaverRestore ''out/ptb.ckpt'' # evs"
    by (auto simp: demo_paths)
  with demo_train_ok show ?thesis
    by (simp add: demo_trained_fields)
qed

text \<open>The three branches of \<^verbatim>\<open>main\<close> in the small environment.\<close>

theorem main_dispatch_witness:
  "main (demo_env two_batches) demo_flags demo_world = train (demo_env two_batches) demo_flags demo_world
   \<and> main (demo_env two_batches) demo_generate_flags demo_trained_world =
        generate (demo_env two_batches) demo_generate_flags demo_word_to_id demo_id_to_word
          (emit (JsonLoad ''out/id_to_word.json'') (emit (JsonLoad ''out/word_to_id.json'') demo_trained_world))
   \<and> main (demo_env two_batches) (demo_flags \<lparr> flag_data_path := None \<rparr>) demo_world
        = (Inl ValueError, demo_world)"
  using main_dispatch [of demo_flags "demo_env two_batches" demo_world]
    main_dispatch [where FLAGS = demo_generate_flags and env = "demo_env two_batches"
      and w = demo_trained_world and ?p1.0 = "''out/word_to_id.json''"
      and ?p2.0 = "''out/id_to_word.json''" and word_to_id = demo_word_to_id
      and id_to_word = demo_id_to_word]
    main_dispatch [of "demo_flags \<lparr> flag_data_path := None \<rparr>" "demo_env two_batches" demo_world]
  by (simp add: truthy_def demo_flags_def demo_generate_flags_def demo_paths demo_trained_fields
      demo_word_to_id_def demo_id_to_word_def)

end
